theory Spec2Isabelle
  imports Main "HOL-Library.Sublist" "HOL-Library.Word"
begin

section \<open>The program: attributes, spans and the ambient context\<close>

text \<open>
  Go strings are byte sequences and are modelled as \<open>string\<close>. Go \<open>int\<close> values are only
  compared with zero and copied into attributes (no arithmetic is done on them), so they are
  modelled as \<open>int\<close>. A \<open>float64\<close> is only copied, so it is carried as its 64-bit pattern.
\<close>

type_synonym float64 = "64 word"

datatype attr_value =
    AString string
  | AInt int
  | AFloat64 float64
  | AStringSlice "string list"

type_synonym KeyValue = "string \<times> attr_value"

text \<open>constants.go\<close>

definition AttrUserID :: string where "AttrUserID = ''triage.user.id''"
definition AttrUserRole :: string where "AttrUserRole = ''triage.user.role''"
definition AttrTenantID :: string where "AttrTenantID = ''triage.tenant.id''"
definition AttrTenantName :: string where "AttrTenantName = ''triage.tenant.name''"
definition AttrSessionID :: string where "AttrSessionID = ''triage.session.id''"
definition AttrSessionTurn :: string where "AttrSessionTurn = ''triage.session.turn_number''"
definition AttrSessionHash :: string where "AttrSessionHash = ''triage.session.history_hash''"
definition AttrInputRaw :: string where "AttrInputRaw = ''triage.input.raw''"
definition AttrInputSanitized :: string where "AttrInputSanitized = ''triage.input.sanitized''"
definition AttrTemplateID :: string where "AttrTemplateID = ''triage.template.id''"
definition AttrTemplateVersion :: string where "AttrTemplateVersion = ''triage.template.version''"
definition AttrChunkACLs :: string where "AttrChunkACLs = ''triage.chunk_acls''"

definition AttrSDKName :: string where "AttrSDKName = ''triage.sdk.name''"
definition AttrSDKVersion :: string where "AttrSDKVersion = ''triage.sdk.version''"
definition sdkName :: string where "sdkName = ''triage-sdk-go''"

definition EnvAPIKey :: string where "EnvAPIKey = ''TRIAGE_API_KEY''"
definition EnvEndpoint :: string where "EnvEndpoint = ''TRIAGE_ENDPOINT''"
definition EnvAppName :: string where "EnvAppName = ''TRIAGE_APP_NAME''"
definition EnvEnvironment :: string where "EnvEnvironment = ''TRIAGE_ENVIRONMENT''"
definition EnvEnabled :: string where "EnvEnabled = ''TRIAGE_ENABLED''"
definition EnvTraceContent :: string where "EnvTraceContent = ''TRIAGE_TRACE_CONTENT''"

definition AttrGenAISystem :: string where "AttrGenAISystem = ''gen_ai.system''"
definition AttrGenAIRequestModel :: string where "AttrGenAIRequestModel = ''gen_ai.request.model''"
definition AttrGenAIResponseModel :: string where "AttrGenAIResponseModel = ''gen_ai.response.model''"
definition AttrGenAIRequestTemperature :: string where
  "AttrGenAIRequestTemperature = ''gen_ai.request.temperature''"
definition AttrGenAIRequestTopP :: string where "AttrGenAIRequestTopP = ''gen_ai.request.top_p''"
definition AttrGenAIRequestMaxTokens :: string where
  "AttrGenAIRequestMaxTokens = ''gen_ai.request.max_tokens''"
definition AttrGenAIRequestStopSequences :: string where
  "AttrGenAIRequestStopSequences = ''gen_ai.request.stop_sequences''"
definition AttrGenAIUsageInputTokens :: string where
  "AttrGenAIUsageInputTokens = ''gen_ai.usage.input_tokens''"
definition AttrGenAIUsageOutputTokens :: string where
  "AttrGenAIUsageOutputTokens = ''gen_ai.usage.output_tokens''"
definition AttrGenAIUsageTotalTokens :: string where
  "AttrGenAIUsageTotalTokens = ''gen_ai.usage.total_tokens''"
definition AttrGenAIUsageReasoningTokens :: string where
  "AttrGenAIUsageReasoningTokens = ''gen_ai.usage.reasoning_tokens''"
definition AttrGenAIUsageCacheReadTokens :: string where
  "AttrGenAIUsageCacheReadTokens = ''gen_ai.usage.cache_read_tokens''"
definition AttrGenAIUsageCacheWriteTokens :: string where
  "AttrGenAIUsageCacheWriteTokens = ''gen_ai.usage.cache_write_tokens''"
definition AttrGenAIResponseFinishReason :: string where
  "AttrGenAIResponseFinishReason = ''gen_ai.response.finish_reason''"

definition DefaultEndpoint :: string where "DefaultEndpoint = ''https://api.triageai.dev''"
definition defaultOTLPTracesPath :: string where "defaultOTLPTracesPath = ''/v1/traces''"

subsection \<open>The tracing runtime\<close>

text \<open>
  Spans belong to the OpenTelemetry runtime. The model keeps them in a store (a list; a span
  handle is its index) and follows the SDK's recording span under the tracer provider that
  \<open>Init\<close> and the tests build, which sets no span limits: a span keeps at most
  \<open>AttributeCountLimit\<close> = 128 attributes (the SDK's default); a later value of a key wins
  when the attributes are read as a map; and every operation on an ended span is ignored.
  A \<open>trace.Span\<close> interface value that is nil is \<open>None\<close>. Every attribute the package sets has
  a non-empty key and a typed value, so the SDK's validity check never drops one.
\<close>

datatype status_code = StatusUnset | StatusError | StatusOk

datatype span_kind = SpanKindInternal | SpanKindClient

record span =
  span_name :: string
  span_kind :: span_kind
  span_parent :: "nat option"
  span_attrs :: "KeyValue list"
  span_errors :: "string list"
  span_status :: "status_code \<times> string"
  span_ended :: bool

type_synonym spans = "span list"

text \<open>\<open>attrMap\<close> of the test helpers: the attributes read as a map, the last value of a key winning.\<close>

definition attrMap :: "KeyValue list \<Rightarrow> string \<Rightarrow> attr_value option" where
  "attrMap kvs = map_of (rev kvs)"

definition IsRecording :: "spans \<Rightarrow> nat option \<Rightarrow> bool" where
  "IsRecording st h =
     (case h of None \<Rightarrow> False | Some i \<Rightarrow> i < length st \<and> \<not> span_ended (st ! i))"

definition AttributeCountLimit :: nat where
  "AttributeCountLimit = 128"

text \<open>
  The SDK's \<open>SetAttributes\<close> on the attribute slice of a span. While the slice has room for
  all the new attributes they are appended. Otherwise (\<open>addOverCapAttrs\<close>) the slice is first
  de-duplicated (a key keeps its first position and its last value), and then each new
  attribute replaces the value of its key if the key is there, is appended if the slice is
  below the limit, and is dropped if it is not.
\<close>

fun upsert :: "KeyValue \<Rightarrow> KeyValue list \<Rightarrow> KeyValue list" where
  "upsert a [] = [a]"
| "upsert a (b # bs) = (if fst b = fst a then a # bs else b # upsert a bs)"

definition dedupeAttrs :: "KeyValue list \<Rightarrow> KeyValue list" where
  "dedupeAttrs kvs = foldl (\<lambda>unique a. upsert a unique) [] kvs"

fun addOverCapAttrs :: "nat \<Rightarrow> KeyValue list \<Rightarrow> KeyValue list \<Rightarrow> KeyValue list" where
  "addOverCapAttrs limit cur [] = cur"
| "addOverCapAttrs limit cur (a # attrs) =
     (if fst a \<in> set (map fst cur) then addOverCapAttrs limit (upsert a cur) attrs
      else if length cur \<ge> limit then addOverCapAttrs limit cur attrs
      else addOverCapAttrs limit (cur @ [a]) attrs)"

definition recordAttrs :: "KeyValue list \<Rightarrow> KeyValue list \<Rightarrow> KeyValue list" where
  "recordAttrs cur attrs =
     (if attrs = [] then cur
      else if length cur + length attrs > AttributeCountLimit
      then addOverCapAttrs AttributeCountLimit (dedupeAttrs cur) attrs
      else cur @ attrs)"

definition SetAttributes :: "nat \<Rightarrow> KeyValue list \<Rightarrow> spans \<Rightarrow> spans" where
  "SetAttributes i kvs st =
     (if i < length st \<and> \<not> span_ended (st ! i)
      then st[i := (st ! i)\<lparr>span_attrs := recordAttrs (span_attrs (st ! i)) kvs\<rparr>]
      else st)"

text \<open>One \<open>SetAttributes\<close> call for each attribute of a list, in order.\<close>

definition SetEach :: "nat \<Rightarrow> KeyValue list \<Rightarrow> spans \<Rightarrow> spans" where
  "SetEach i kvs st = foldl (\<lambda>s kv. SetAttributes i [kv] s) st kvs"

text \<open>The attributes of an exported span: the slice, de-duplicated.\<close>

definition Attributes :: "span \<Rightarrow> KeyValue list" where
  "Attributes sp = dedupeAttrs (span_attrs sp)"

definition RecordError :: "nat \<Rightarrow> string option \<Rightarrow> spans \<Rightarrow> spans" where
  "RecordError i err st =
     (case err of
        None \<Rightarrow> st
      | Some msg \<Rightarrow>
          if i < length st \<and> \<not> span_ended (st ! i)
          then st[i := (st ! i)\<lparr>span_errors := span_errors (st ! i) @ [msg]\<rparr>]
          else st)"

definition SetStatus :: "nat \<Rightarrow> status_code \<Rightarrow> string \<Rightarrow> spans \<Rightarrow> spans" where
  "SetStatus i code description st =
     (if i < length st \<and> \<not> span_ended (st ! i)
      then st[i := (st ! i)\<lparr>span_status := (code, description)\<rparr>]
      else st)"

definition EndSpan :: "nat \<Rightarrow> spans \<Rightarrow> spans" where
  "EndSpan i st =
     (if i < length st \<and> \<not> span_ended (st ! i)
      then st[i := (st ! i)\<lparr>span_ended := True\<rparr>]
      else st)"

subsection \<open>context.go: the annotation context\<close>

record triageContext =
  userID :: string
  userRole :: string
  tenantID :: string
  tenantName :: string
  sessionID :: string
  sessionTurnNumber :: "int option"
  sessionHistoryHash :: string
  inputRaw :: string
  inputSanitized :: string
  templateID :: string
  templateVersion :: string
  chunkACLs :: string

text \<open>The zero value \<open>triageContext{}\<close>.\<close>

definition triageContext_zero :: triageContext where
  "triageContext_zero =
     \<lparr>userID = [], userRole = [], tenantID = [], tenantName = [], sessionID = [],
      sessionTurnNumber = None, sessionHistoryHash = [], inputRaw = [], inputSanitized = [],
      templateID = [], templateVersion = [], chunkACLs = []\<rparr>"

text \<open>
  A \<open>context.Context\<close> carries the value stored under \<open>contextKey{}\<close>, the value stored under
  \<open>workflowNameKey{}\<close> and the current span. \<open>context.WithValue\<close> and \<open>tracer.Start\<close> derive a
  new context and leave the old one as it is.
\<close>

record Context =
  ctx_triage :: "triageContext option"
  ctx_workflow :: "string option"
  ctx_span :: "nat option"

definition Background :: Context where
  "Background = \<lparr>ctx_triage = None, ctx_workflow = None, ctx_span = None\<rparr>"

text \<open>
  \<open>clone\<close> copies the struct and gives the copy a turn number cell of its own; with the cell
  modelled by its content, the copy is the value itself.
\<close>

definition clone :: "triageContext \<Rightarrow> triageContext" where
  "clone tc =
     (let c = tc in
      case sessionTurnNumber tc of
        Some n \<Rightarrow> c\<lparr>sessionTurnNumber := Some n\<rparr>
      | None \<Rightarrow> c)"

text \<open>
  The option types. Their parameter type is unexported, so the options a caller can pass are the
  ones these constructors build.
\<close>

datatype UserOption = UserRole string
datatype TenantOption = TenantName string
datatype SessionOption = TurnNumber int | HistoryHash string
datatype InputOption = Sanitized string
datatype TemplateOption = TemplateVersion string

fun apply_UserOption :: "triageContext \<Rightarrow> UserOption \<Rightarrow> triageContext" where
  "apply_UserOption tc (UserRole role) = tc\<lparr>userRole := role\<rparr>"

fun apply_TenantOption :: "triageContext \<Rightarrow> TenantOption \<Rightarrow> triageContext" where
  "apply_TenantOption tc (TenantName name) = tc\<lparr>tenantName := name\<rparr>"

fun apply_SessionOption :: "triageContext \<Rightarrow> SessionOption \<Rightarrow> triageContext" where
  "apply_SessionOption tc (TurnNumber n) = tc\<lparr>sessionTurnNumber := Some n\<rparr>"
| "apply_SessionOption tc (HistoryHash h) = tc\<lparr>sessionHistoryHash := h\<rparr>"

fun apply_InputOption :: "triageContext \<Rightarrow> InputOption \<Rightarrow> triageContext" where
  "apply_InputOption tc (Sanitized s) = tc\<lparr>inputSanitized := s\<rparr>"

fun apply_TemplateOption :: "triageContext \<Rightarrow> TemplateOption \<Rightarrow> triageContext" where
  "apply_TemplateOption tc (TemplateVersion v) = tc\<lparr>templateVersion := v\<rparr>"

definition getFromContext :: "Context \<Rightarrow> triageContext" where
  "getFromContext ctx =
     (case ctx_triage ctx of Some tc \<Rightarrow> tc | None \<Rightarrow> triageContext_zero)"

definition setInContext :: "Context \<Rightarrow> triageContext \<Rightarrow> Context" where
  "setInContext ctx tc = ctx\<lparr>ctx_triage := Some tc\<rparr>"

definition getTriageAttrs :: "Context \<Rightarrow> KeyValue list" where
  "getTriageAttrs ctx =
     (let tc = getFromContext ctx;
          attrs = [];
          attrs = (if userID tc \<noteq> [] then attrs @ [(AttrUserID, AString (userID tc))] else attrs);
          attrs = (if userRole tc \<noteq> [] then attrs @ [(AttrUserRole, AString (userRole tc))] else attrs);
          attrs = (if tenantID tc \<noteq> [] then attrs @ [(AttrTenantID, AString (tenantID tc))] else attrs);
          attrs = (if tenantName tc \<noteq> []
                   then attrs @ [(AttrTenantName, AString (tenantName tc))] else attrs);
          attrs = (if sessionID tc \<noteq> []
                   then attrs @ [(AttrSessionID, AString (sessionID tc))] else attrs);
          attrs = (case sessionTurnNumber tc of
                     Some n \<Rightarrow> attrs @ [(AttrSessionTurn, AInt n)]
                   | None \<Rightarrow> attrs);
          attrs = (if sessionHistoryHash tc \<noteq> []
                   then attrs @ [(AttrSessionHash, AString (sessionHistoryHash tc))] else attrs);
          attrs = (if inputRaw tc \<noteq> [] then attrs @ [(AttrInputRaw, AString (inputRaw tc))] else attrs);
          attrs = (if inputSanitized tc \<noteq> []
                   then attrs @ [(AttrInputSanitized, AString (inputSanitized tc))] else attrs);
          attrs = (if templateID tc \<noteq> []
                   then attrs @ [(AttrTemplateID, AString (templateID tc))] else attrs);
          attrs = (if templateVersion tc \<noteq> []
                   then attrs @ [(AttrTemplateVersion, AString (templateVersion tc))] else attrs);
          attrs = (if chunkACLs tc \<noteq> []
                   then attrs @ [(AttrChunkACLs, AString (chunkACLs tc))] else attrs)
      in attrs)"

text \<open>
  The six helpers. Each also writes onto the span the context carries when that span is
  recording, so a helper takes the span store and returns it.
\<close>

definition WithUser :: "Context \<Rightarrow> string \<Rightarrow> UserOption list \<Rightarrow> spans \<Rightarrow> Context \<times> spans" where
  "WithUser ctx uid opts st =
     (let tc = clone (getFromContext ctx);
          tc = tc\<lparr>userID := uid\<rparr>;
          tc = foldl apply_UserOption tc opts;
          st = (if IsRecording st (ctx_span ctx) then
                  (let st = SetAttributes (the (ctx_span ctx)) [(AttrUserID, AString (userID tc))] st
                   in if userRole tc \<noteq> []
                      then SetAttributes (the (ctx_span ctx)) [(AttrUserRole, AString (userRole tc))] st
                      else st)
                else st)
      in (setInContext ctx tc, st))"

definition WithTenant :: "Context \<Rightarrow> string \<Rightarrow> TenantOption list \<Rightarrow> spans \<Rightarrow> Context \<times> spans" where
  "WithTenant ctx tid opts st =
     (let tc = clone (getFromContext ctx);
          tc = tc\<lparr>tenantID := tid\<rparr>;
          tc = foldl apply_TenantOption tc opts;
          st = (if IsRecording st (ctx_span ctx) then
                  (let st = SetAttributes (the (ctx_span ctx)) [(AttrTenantID, AString (tenantID tc))] st
                   in if tenantName tc \<noteq> []
                      then SetAttributes (the (ctx_span ctx)) [(AttrTenantName, AString (tenantName tc))] st
                      else st)
                else st)
      in (setInContext ctx tc, st))"

definition WithSession :: "Context \<Rightarrow> string \<Rightarrow> SessionOption list \<Rightarrow> spans \<Rightarrow> Context \<times> spans" where
  "WithSession ctx sid opts st =
     (let tc = clone (getFromContext ctx);
          tc = tc\<lparr>sessionID := sid\<rparr>;
          tc = foldl apply_SessionOption tc opts;
          st = (if IsRecording st (ctx_span ctx) then
                  (let st = SetAttributes (the (ctx_span ctx)) [(AttrSessionID, AString (sessionID tc))] st;
                       st = (case sessionTurnNumber tc of
                               Some n \<Rightarrow> SetAttributes (the (ctx_span ctx)) [(AttrSessionTurn, AInt n)] st
                             | None \<Rightarrow> st)
                   in if sessionHistoryHash tc \<noteq> []
                      then SetAttributes (the (ctx_span ctx))
                             [(AttrSessionHash, AString (sessionHistoryHash tc))] st
                      else st)
                else st)
      in (setInContext ctx tc, st))"

definition WithInput :: "Context \<Rightarrow> string \<Rightarrow> InputOption list \<Rightarrow> spans \<Rightarrow> Context \<times> spans" where
  "WithInput ctx raw opts st =
     (let tc = clone (getFromContext ctx);
          tc = tc\<lparr>inputRaw := raw\<rparr>;
          tc = foldl apply_InputOption tc opts;
          st = (if IsRecording st (ctx_span ctx) then
                  (let st = SetAttributes (the (ctx_span ctx)) [(AttrInputRaw, AString (inputRaw tc))] st
                   in if inputSanitized tc \<noteq> []
                      then SetAttributes (the (ctx_span ctx))
                             [(AttrInputSanitized, AString (inputSanitized tc))] st
                      else st)
                else st)
      in (setInContext ctx tc, st))"

definition WithTemplate :: "Context \<Rightarrow> string \<Rightarrow> TemplateOption list \<Rightarrow> spans \<Rightarrow> Context \<times> spans" where
  "WithTemplate ctx tid opts st =
     (let tc = clone (getFromContext ctx);
          tc = tc\<lparr>templateID := tid\<rparr>;
          tc = foldl apply_TemplateOption tc opts;
          st = (if IsRecording st (ctx_span ctx) then
                  (let st = SetAttributes (the (ctx_span ctx)) [(AttrTemplateID, AString (templateID tc))] st
                   in if templateVersion tc \<noteq> []
                      then SetAttributes (the (ctx_span ctx))
                             [(AttrTemplateVersion, AString (templateVersion tc))] st
                      else st)
                else st)
      in (setInContext ctx tc, st))"

text \<open>
  \<open>json.Marshal\<close> belongs to the standard library: the helper takes it as the parameter
  \<open>marshal\<close>, \<open>None\<close> standing for a returned error.
\<close>

definition WithChunkACLs :: "('a \<Rightarrow> string option) \<Rightarrow> Context \<Rightarrow> 'a \<Rightarrow> spans \<Rightarrow> Context \<times> spans" where
  "WithChunkACLs marshal ctx acls st =
     (let tc = clone (getFromContext ctx) in
      case marshal acls of
        None \<Rightarrow> (setInContext ctx tc, st)
      | Some data \<Rightarrow>
          (let tc = tc\<lparr>chunkACLs := data\<rparr>;
               st = (if IsRecording st (ctx_span ctx)
                     then SetAttributes (the (ctx_span ctx)) [(AttrChunkACLs, AString (chunkACLs tc))] st
                     else st)
           in (setInContext ctx tc, st)))"

subsection \<open>Fields and helper calls as values\<close>

text \<open>
  The twelve fields of \<open>triageContext\<close>, their attribute keys and their values, so that a
  statement can range over all fields; and a call of one of the six helpers as a value, so that
  a statement can range over all sequences of calls. \<open>run_call\<close> makes the call, and
  \<open>assigns\<close> reads off the value the call writes to a field: the required argument, and for an
  optional field the last option that names it.
\<close>

datatype field =
    FUserID | FUserRole | FTenantID | FTenantName | FSessionID | FSessionTurn
  | FSessionHash | FInputRaw | FInputSanitized | FTemplateID | FTemplateVersion | FChunkACLs

datatype field_value = FStr string | FTurn "int option"

fun field_key :: "field \<Rightarrow> string" where
  "field_key FUserID = AttrUserID"
| "field_key FUserRole = AttrUserRole"
| "field_key FTenantID = AttrTenantID"
| "field_key FTenantName = AttrTenantName"
| "field_key FSessionID = AttrSessionID"
| "field_key FSessionTurn = AttrSessionTurn"
| "field_key FSessionHash = AttrSessionHash"
| "field_key FInputRaw = AttrInputRaw"
| "field_key FInputSanitized = AttrInputSanitized"
| "field_key FTemplateID = AttrTemplateID"
| "field_key FTemplateVersion = AttrTemplateVersion"
| "field_key FChunkACLs = AttrChunkACLs"

fun field_of :: "triageContext \<Rightarrow> field \<Rightarrow> field_value" where
  "field_of tc FUserID = FStr (userID tc)"
| "field_of tc FUserRole = FStr (userRole tc)"
| "field_of tc FTenantID = FStr (tenantID tc)"
| "field_of tc FTenantName = FStr (tenantName tc)"
| "field_of tc FSessionID = FStr (sessionID tc)"
| "field_of tc FSessionTurn = FTurn (sessionTurnNumber tc)"
| "field_of tc FSessionHash = FStr (sessionHistoryHash tc)"
| "field_of tc FInputRaw = FStr (inputRaw tc)"
| "field_of tc FInputSanitized = FStr (inputSanitized tc)"
| "field_of tc FTemplateID = FStr (templateID tc)"
| "field_of tc FTemplateVersion = FStr (templateVersion tc)"
| "field_of tc FChunkACLs = FStr (chunkACLs tc)"

fun projected :: "field_value \<Rightarrow> attr_value option" where
  "projected (FStr s) = (if s = [] then None else Some (AString s))"
| "projected (FTurn None) = None"
| "projected (FTurn (Some n)) = Some (AInt n)"

datatype 'a helper_call =
    CallWithUser string "UserOption list"
  | CallWithTenant string "TenantOption list"
  | CallWithSession string "SessionOption list"
  | CallWithInput string "InputOption list"
  | CallWithTemplate string "TemplateOption list"
  | CallWithChunkACLs 'a

fun run_call :: "('a \<Rightarrow> string option) \<Rightarrow> Context \<times> spans \<Rightarrow> 'a helper_call \<Rightarrow> Context \<times> spans" where
  "run_call m (ctx, st) (CallWithUser u opts) = WithUser ctx u opts st"
| "run_call m (ctx, st) (CallWithTenant t opts) = WithTenant ctx t opts st"
| "run_call m (ctx, st) (CallWithSession s opts) = WithSession ctx s opts st"
| "run_call m (ctx, st) (CallWithInput r opts) = WithInput ctx r opts st"
| "run_call m (ctx, st) (CallWithTemplate t opts) = WithTemplate ctx t opts st"
| "run_call m (ctx, st) (CallWithChunkACLs acls) = WithChunkACLs m ctx acls st"

definition run_calls :: "('a \<Rightarrow> string option) \<Rightarrow> Context \<times> spans \<Rightarrow> 'a helper_call list \<Rightarrow> Context \<times> spans" where
  "run_calls m s cs = foldl (run_call m) s cs"

fun assigns :: "('a \<Rightarrow> string option) \<Rightarrow> 'a helper_call \<Rightarrow> field \<Rightarrow> field_value option" where
  "assigns m (CallWithUser u opts) f =
     (if f = FUserID then Some (FStr u)
      else if f = FUserRole \<and> opts \<noteq> [] then Some (FStr (case last opts of UserRole r \<Rightarrow> r))
      else None)"
| "assigns m (CallWithTenant t opts) f =
     (if f = FTenantID then Some (FStr t)
      else if f = FTenantName \<and> opts \<noteq> [] then Some (FStr (case last opts of TenantName n \<Rightarrow> n))
      else None)"
| "assigns m (CallWithSession s opts) f =
     (if f = FSessionID then Some (FStr s)
      else if f = FSessionTurn \<and> [n. TurnNumber n \<leftarrow> opts] \<noteq> []
        then Some (FTurn (Some (last [n. TurnNumber n \<leftarrow> opts])))
      else if f = FSessionHash \<and> [h. HistoryHash h \<leftarrow> opts] \<noteq> []
        then Some (FStr (last [h. HistoryHash h \<leftarrow> opts]))
      else None)"
| "assigns m (CallWithInput r opts) f =
     (if f = FInputRaw then Some (FStr r)
      else if f = FInputSanitized \<and> opts \<noteq> [] then Some (FStr (case last opts of Sanitized s \<Rightarrow> s))
      else None)"
| "assigns m (CallWithTemplate t opts) f =
     (if f = FTemplateID then Some (FStr t)
      else if f = FTemplateVersion \<and> opts \<noteq> []
        then Some (FStr (case last opts of TemplateVersion v \<Rightarrow> v))
      else None)"
| "assigns m (CallWithChunkACLs acls) f =
     (if f = FChunkACLs then map_option FStr (m acls) else None)"

text \<open>The pieces of the list \<open>getTriageAttrs\<close> builds.\<close>

definition opt_attr :: "string \<Rightarrow> string \<Rightarrow> KeyValue list" where
  "opt_attr k s = (if s \<noteq> [] then [(k, AString s)] else [])"

definition turn_attr :: "int option \<Rightarrow> KeyValue list" where
  "turn_attr t = (case t of Some n \<Rightarrow> [(AttrSessionTurn, AInt n)] | None \<Rightarrow> [])"

definition all_fields :: "field list" where
  "all_fields = [FUserID, FUserRole, FTenantID, FTenantName, FSessionID, FSessionTurn,
     FSessionHash, FInputRaw, FInputSanitized, FTemplateID, FTemplateVersion, FChunkACLs]"

subsection \<open>processor.go: the context-to-span bridge, and starting a span\<close>

definition triageSpanProcessor_OnStart :: "Context \<Rightarrow> nat \<Rightarrow> spans \<Rightarrow> spans" where
  "triageSpanProcessor_OnStart ctx span st =
     (let attrs = getTriageAttrs ctx in
      if length attrs > 0 then SetAttributes span attrs st else st)"

text \<open>
  \<open>tracer.Start(ctx, name)\<close> of a provider that has the \<open>triageSpanProcessor\<close> registered: the
  runtime creates the span as a child of the span of \<open>ctx\<close>, calls \<open>OnStart\<close> with \<open>ctx\<close> and
  returns the context that carries the new span.
\<close>

definition Start :: "Context \<Rightarrow> string \<Rightarrow> span_kind \<Rightarrow> spans \<Rightarrow> (Context \<times> nat) \<times> spans" where
  "Start ctx name kind st =
     (let i = length st;
          st = st @ [\<lparr>span_name = name, span_kind = kind, span_parent = ctx_span ctx,
                      span_attrs = [], span_errors = [], span_status = (StatusUnset, []),
                      span_ended = False\<rparr>];
          st = triageSpanProcessor_OnStart ctx i st
      in ((ctx\<lparr>ctx_span := Some i\<rparr>, i), st))"

subsection \<open>config.go\<close>

record config =
  apiKey :: string
  endpoint :: string
  appName :: string
  environment :: string
  enabled :: bool
  traceContent :: bool

datatype SDKOption =
    WithAPIKey string
  | WithEndpoint string
  | WithAppName string
  | WithEnvironment string
  | WithEnabled bool
  | WithTraceContent bool

fun apply_SDKOption :: "config \<Rightarrow> SDKOption \<Rightarrow> config" where
  "apply_SDKOption c (WithAPIKey key) = c\<lparr>apiKey := key\<rparr>"
| "apply_SDKOption c (WithEndpoint ep) = c\<lparr>endpoint := ep\<rparr>"
| "apply_SDKOption c (WithAppName name) = c\<lparr>appName := name\<rparr>"
| "apply_SDKOption c (WithEnvironment env) = c\<lparr>environment := env\<rparr>"
| "apply_SDKOption c (WithEnabled b) = c\<lparr>enabled := b\<rparr>"
| "apply_SDKOption c (WithTraceContent b) = c\<lparr>traceContent := b\<rparr>"

text \<open>
  What the process and the libraries give: the arguments, the environment (\<open>os.Getenv\<close>, the
  empty string for an unset variable), \<open>filepath.Base\<close>, the SDK's \<open>Version\<close> constant, and
  whether creating the exporter and merging the resource fail.
\<close>

record process =
  os_Args :: "string list"
  os_Getenv :: "string \<Rightarrow> string"
  filepath_Base :: "string \<Rightarrow> string"
  Version :: string
  otlptracehttp_New_err :: "string option"
  resource_Merge_err :: "string option"

text \<open>
  \<open>strings.ToLower\<close> on the bytes of the string. The result is only compared with ASCII
  words, and no rune outside ASCII lowers to one of their letters.
\<close>

definition toLower_char :: "char \<Rightarrow> char" where
  "toLower_char c =
     (if 65 \<le> (of_char c :: nat) \<and> (of_char c :: nat) \<le> 90
      then char_of ((of_char c :: nat) + 32) else c)"

definition ToLower :: "string \<Rightarrow> string" where
  "ToLower s = map toLower_char s"

definition envBool :: "process \<Rightarrow> string \<Rightarrow> bool \<times> bool" where
  "envBool p key =
     (let v = os_Getenv p key in
      if v = [] then (False, False)
      else if ToLower v = ''true'' \<or> ToLower v = ''1'' \<or> ToLower v = ''yes'' then (True, True)
      else (False, True))"

definition defaultAppName :: "process \<Rightarrow> string" where
  "defaultAppName p =
     (if length (os_Args p) > 0 \<and> hd (os_Args p) \<noteq> [] then filepath_Base p (hd (os_Args p))
      else ''unknown'')"

definition resolveConfig :: "process \<Rightarrow> SDKOption list \<Rightarrow> string + config" where
  "resolveConfig p opts =
     (let cfg = \<lparr>apiKey = [], endpoint = DefaultEndpoint, appName = defaultAppName p,
                  environment = ''development'', enabled = True, traceContent = True\<rparr>;
          cfg = (if os_Getenv p EnvAPIKey \<noteq> [] then cfg\<lparr>apiKey := os_Getenv p EnvAPIKey\<rparr> else cfg);
          cfg = (if os_Getenv p EnvEndpoint \<noteq> [] then cfg\<lparr>endpoint := os_Getenv p EnvEndpoint\<rparr>
                 else cfg);
          cfg = (if os_Getenv p EnvAppName \<noteq> [] then cfg\<lparr>appName := os_Getenv p EnvAppName\<rparr>
                 else cfg);
          cfg = (if os_Getenv p EnvEnvironment \<noteq> []
                 then cfg\<lparr>environment := os_Getenv p EnvEnvironment\<rparr> else cfg);
          cfg = (case envBool p EnvEnabled of (v, ok) \<Rightarrow> if ok then cfg\<lparr>enabled := v\<rparr> else cfg);
          cfg = (case envBool p EnvTraceContent of
                   (v, ok) \<Rightarrow> if ok then cfg\<lparr>traceContent := v\<rparr> else cfg);
          cfg = foldl apply_SDKOption cfg opts
      in if apiKey cfg = []
         then Inl (''triage: API key is required. Pass triage.WithAPIKey() to Init() ''
                   @ ''or set the '' @ EnvAPIKey @ '' environment variable'')
         else Inr cfg)"

subsection \<open>sdk.go: the lifecycle\<close>

text \<open>
  The tracer provider \<open>Init\<close> builds, by what \<open>Init\<close> gives it: the exporter's endpoint and
  headers and the resource attributes.
\<close>

record TracerProvider =
  tp_endpoint_url :: string
  tp_headers :: "(string \<times> string) list"
  tp_resource :: "KeyValue list"
  tp_service_name :: string

text \<open>
  The package variables \<open>initialized\<close>, \<open>provider\<close> and \<open>activeConfig\<close>, and the provider
  registered with \<open>otel.SetTracerProvider\<close>. Every function that touches them holds the mutex
  for its whole body, so each is one atomic step of the state.
\<close>

record sdk =
  initialized :: bool
  provider :: "TracerProvider option"
  activeConfig :: "config option"
  otel_TracerProvider :: "TracerProvider option"

definition sdk_start :: sdk where
  "sdk_start = \<lparr>initialized = False, provider = None, activeConfig = None,
                 otel_TracerProvider = None\<rparr>"

text \<open>The two shutdown functions \<open>Init\<close> returns: \<open>noop\<close> and the closure that calls \<open>Shutdown\<close>.\<close>

datatype shutdown_func = noop | shutdown

definition Init :: "process \<Rightarrow> SDKOption list \<Rightarrow> sdk \<Rightarrow> (shutdown_func \<times> string option) \<times> sdk" where
  "Init p opts g =
     (if initialized g then ((noop, None), g)
      else
        (case resolveConfig p opts of
           Inl err \<Rightarrow> ((noop, Some err), g)
         | Inr cfg \<Rightarrow>
             (if \<not> enabled cfg then ((noop, None), g)
              else
                (case otlptracehttp_New_err p of
                   Some err \<Rightarrow>
                     ((noop, Some (''triage: failed to create OTLP exporter: '' @ err)), g)
                 | None \<Rightarrow>
                     (case resource_Merge_err p of
                        Some err \<Rightarrow>
                          ((noop, Some (''triage: failed to create resource: '' @ err)), g)
                      | None \<Rightarrow>
                          (let tp = \<lparr>tp_endpoint_url = endpoint cfg @ defaultOTLPTracesPath,
                                     tp_headers = [(''Authorization'', ''Bearer '' @ apiKey cfg)],
                                     tp_resource =
                                       [(AttrSDKName, AString sdkName),
                                        (AttrSDKVersion, AString (Version p)),
                                        (''triage.environment'', AString (environment cfg))],
                                     tp_service_name = appName cfg\<rparr>
                           in ((shutdown, None),
                               g\<lparr>otel_TracerProvider := Some tp, provider := Some tp,
                                 activeConfig := Some cfg, initialized := True\<rparr>)))))))"

text \<open>\<open>provider.Shutdown(ctx)\<close> belongs to the runtime; its result is the parameter \<open>err\<close>.\<close>

definition Shutdown :: "string option \<Rightarrow> sdk \<Rightarrow> string option \<times> sdk" where
  "Shutdown err g =
     (if \<not> initialized g \<or> provider g = None then (None, g)
      else (err, g\<lparr>initialized := False, provider := None, activeConfig := None\<rparr>))"

text \<open>Calling a returned shutdown function; the closure logs the error of \<open>Shutdown\<close>.\<close>

fun call_shutdown_func :: "shutdown_func \<Rightarrow> string option \<Rightarrow> sdk \<Rightarrow> sdk" where
  "call_shutdown_func noop err g = g"
| "call_shutdown_func shutdown err g = snd (Shutdown err g)"

subsection \<open>llm.go: the \<open>PromptParams\<close> interface\<close>

text \<open>\<open>fmt.Sprintf\<close> with \<open>%d\<close> of a slice index.\<close>

function show_nat :: "nat \<Rightarrow> string" where
  "show_nat n =
     (if n < 10 then [char_of (48 + n)] else show_nat (n div 10) @ [char_of (48 + n mod 10)])"
  by pat_completeness auto
termination
  by (relation "measure id") auto

declare show_nat.simps [simp del]

record ToolCall =
  tc_ID :: string
  tc_Type :: string
  tc_Name :: string
  tc_Arguments :: string

record Message =
  msg_Role :: string
  msg_Content :: string
  msg_ToolCalls :: "ToolCall list"

text \<open>
  \<open>Parameters\<close> has type \<open>any\<close>: nil is \<open>None\<close>, and \<open>json.Marshal\<close> is the parameter
  \<open>marshal\<close> of the functions that serialize it (\<open>None\<close> for an error).
\<close>

record 'j ToolDefinition =
  td_Name :: string
  td_Description :: string
  td_Parameters :: "'j option"

record Usage =
  InputTokens :: int
  OutputTokens :: int
  TotalTokens :: int
  ReasoningTokens :: int
  CacheReadTokens :: int
  CacheWriteTokens :: int

record 'j PromptParams =
  pp_Vendor :: string
  pp_Model :: string
  pp_Messages :: "Message list"
  pp_Tools :: "'j ToolDefinition list"
  pp_Temperature :: "float64 option"
  pp_TopP :: "float64 option"
  pp_MaxTokens :: "int option"
  pp_Stop :: "string list"

record CompletionParams =
  cp_Model :: string
  cp_Messages :: "Message list"
  cp_Usage :: Usage
  cp_FinishReason :: string

text \<open>A \<open>*LLMSpan\<close> is an \<open>LLMSpan option\<close>, \<open>None\<close> the nil pointer.\<close>

record LLMSpan =
  llm_span :: "nat option"

datatype panic = NilPointerDereference

definition shouldTraceContent :: "sdk \<Rightarrow> bool" where
  "shouldTraceContent g = (case activeConfig g of None \<Rightarrow> True | Some c \<Rightarrow> traceContent c)"

text \<open>
  The attributes one message sets, in the order of the calls; \<open>setMessageAttrs\<close> and
  \<open>setToolDefinitionAttrs\<close> make one \<open>SetAttributes\<close> call for each.
\<close>

definition toolCallAttrs :: "string \<Rightarrow> nat \<times> ToolCall \<Rightarrow> KeyValue list" where
  "toolCallAttrs p = (\<lambda>(j, tc).
     (let tp = p @ ''.tool_calls.'' @ show_nat j in
        (if tc_ID tc \<noteq> [] then [(tp @ ''.id'', AString (tc_ID tc))] else [])
      @ (if tc_Type tc \<noteq> [] then [(tp @ ''.type'', AString (tc_Type tc))] else [])
      @ (if tc_Name tc \<noteq> [] then [(tp @ ''.name'', AString (tc_Name tc))] else [])
      @ (if tc_Arguments tc \<noteq> [] then [(tp @ ''.arguments'', AString (tc_Arguments tc))] else [])))"

definition messageAttrs :: "string \<Rightarrow> nat \<times> Message \<Rightarrow> KeyValue list" where
  "messageAttrs pfx = (\<lambda>(i, msg).
     (let p = pfx @ ''.'' @ show_nat i in
        (if msg_Role msg \<noteq> [] then [(p @ ''.role'', AString (msg_Role msg))] else [])
      @ (if msg_Content msg \<noteq> [] then [(p @ ''.content'', AString (msg_Content msg))] else [])
      @ concat (map (toolCallAttrs p) (enumerate 0 (msg_ToolCalls msg)))))"

definition setMessageAttrs :: "nat \<Rightarrow> string \<Rightarrow> Message list \<Rightarrow> spans \<Rightarrow> spans" where
  "setMessageAttrs span pfx messages st =
     SetEach span (concat (map (messageAttrs pfx) (enumerate 0 messages))) st"

definition toolDefinitionAttrs :: "('j \<Rightarrow> string option) \<Rightarrow> nat \<times> 'j ToolDefinition \<Rightarrow> KeyValue list" where
  "toolDefinitionAttrs marshal = (\<lambda>(i, tool).
     (let p = ''gen_ai.request.tools.'' @ show_nat i in
        (if td_Name tool \<noteq> [] then [(p @ ''.name'', AString (td_Name tool))] else [])
      @ (if td_Description tool \<noteq> []
         then [(p @ ''.description'', AString (td_Description tool))] else [])
      @ (case td_Parameters tool of
           None \<Rightarrow> []
         | Some params \<Rightarrow>
             (case marshal params of
                Some data \<Rightarrow> [(p @ ''.parameters'', AString data)]
              | None \<Rightarrow> []))))"

definition setToolDefinitionAttrs ::
  "('j \<Rightarrow> string option) \<Rightarrow> nat \<Rightarrow> 'j ToolDefinition list \<Rightarrow> spans \<Rightarrow> spans" where
  "setToolDefinitionAttrs marshal span tools st =
     SetEach span (concat (map (toolDefinitionAttrs marshal) (enumerate 0 tools))) st"

definition LogPrompt ::
  "('j \<Rightarrow> string option) \<Rightarrow> sdk \<Rightarrow> Context \<Rightarrow> 'j PromptParams \<Rightarrow> spans
     \<Rightarrow> (Context \<times> LLMSpan option) \<times> spans" where
  "LogPrompt marshal g ctx params st =
     (let spanName = pp_Vendor params @ ''.chat'';
          spanName = (if pp_Vendor params = [] then ''llm.chat'' else spanName);
          ((ctx, span), st) = Start ctx spanName SpanKindInternal st;
          st = (if pp_Vendor params \<noteq> []
                then SetAttributes span [(AttrGenAISystem, AString (pp_Vendor params))] st else st);
          st = (if pp_Model params \<noteq> []
                then SetAttributes span [(AttrGenAIRequestModel, AString (pp_Model params))] st
                else st);
          st = (case pp_Temperature params of
                  Some t \<Rightarrow> SetAttributes span [(AttrGenAIRequestTemperature, AFloat64 t)] st
                | None \<Rightarrow> st);
          st = (case pp_TopP params of
                  Some t \<Rightarrow> SetAttributes span [(AttrGenAIRequestTopP, AFloat64 t)] st
                | None \<Rightarrow> st);
          st = (case pp_MaxTokens params of
                  Some n \<Rightarrow> SetAttributes span [(AttrGenAIRequestMaxTokens, AInt n)] st
                | None \<Rightarrow> st);
          st = (if length (pp_Stop params) > 0
                then SetAttributes span
                       [(AttrGenAIRequestStopSequences, AStringSlice (pp_Stop params))] st
                else st);
          st = (if shouldTraceContent g
                then setToolDefinitionAttrs marshal span (pp_Tools params)
                       (setMessageAttrs span ''gen_ai.prompt'' (pp_Messages params) st)
                else st)
      in ((ctx, Some \<lparr>llm_span = Some span\<rparr>), st))"

definition LogCompletion :: "sdk \<Rightarrow> LLMSpan option \<Rightarrow> CompletionParams \<Rightarrow> spans \<Rightarrow> panic + spans" where
  "LogCompletion g s params st =
     (case s of
        None \<Rightarrow> Inl NilPointerDereference
      | Some ls \<Rightarrow>
          (case llm_span ls of
             None \<Rightarrow> Inr st
           | Some span \<Rightarrow>
               (let st = (if cp_Model params \<noteq> []
                          then SetAttributes span
                                 [(AttrGenAIResponseModel, AString (cp_Model params))] st
                          else st);
                    st = (if cp_FinishReason params \<noteq> []
                          then SetAttributes span
                                 [(AttrGenAIResponseFinishReason, AString (cp_FinishReason params))] st
                          else st);
                    st = (if InputTokens (cp_Usage params) > 0
                          then SetAttributes span
                                 [(AttrGenAIUsageInputTokens, AInt (InputTokens (cp_Usage params)))] st
                          else st);
                    st = (if OutputTokens (cp_Usage params) > 0
                          then SetAttributes span
                                 [(AttrGenAIUsageOutputTokens, AInt (OutputTokens (cp_Usage params)))] st
                          else st);
                    st = (if TotalTokens (cp_Usage params) > 0
                          then SetAttributes span
                                 [(AttrGenAIUsageTotalTokens, AInt (TotalTokens (cp_Usage params)))] st
                          else st);
                    st = (if ReasoningTokens (cp_Usage params) > 0
                          then SetAttributes span
                                 [(AttrGenAIUsageReasoningTokens,
                                   AInt (ReasoningTokens (cp_Usage params)))] st
                          else st);
                    st = (if CacheReadTokens (cp_Usage params) > 0
                          then SetAttributes span
                                 [(AttrGenAIUsageCacheReadTokens,
                                   AInt (CacheReadTokens (cp_Usage params)))] st
                          else st);
                    st = (if CacheWriteTokens (cp_Usage params) > 0
                          then SetAttributes span
                                 [(AttrGenAIUsageCacheWriteTokens,
                                   AInt (CacheWriteTokens (cp_Usage params)))] st
                          else st);
                    st = (if shouldTraceContent g
                          then setMessageAttrs span ''gen_ai.completion'' (cp_Messages params) st
                          else st)
                in Inr (EndSpan span st))))"

definition End :: "LLMSpan option \<Rightarrow> spans \<Rightarrow> panic + spans" where
  "End s st =
     (case s of
        None \<Rightarrow> Inl NilPointerDereference
      | Some ls \<Rightarrow> (case llm_span ls of Some span \<Rightarrow> Inr (EndSpan span st) | None \<Rightarrow> Inr st))"

text \<open>
  An \<open>error\<close> is its message, the nil error \<open>None\<close>: \<open>RecordError\<close> ignores nil, and
  \<open>err.Error()\<close> on nil panics.
\<close>

definition SetError :: "LLMSpan option \<Rightarrow> string option \<Rightarrow> spans \<Rightarrow> panic + spans" where
  "SetError s err st =
     (case s of
        None \<Rightarrow> Inl NilPointerDereference
      | Some ls \<Rightarrow>
          (case llm_span ls of
             None \<Rightarrow> Inr st
           | Some span \<Rightarrow>
               (let st = RecordError span err st in
                case err of
                  None \<Rightarrow> Inl NilPointerDereference
                | Some msg \<Rightarrow> Inr (SetStatus span StatusError msg st))))"

subsection \<open>The \<open>Prompt\<close> interface\<close>

text \<open>
  The second LLM instrumentation file of the package (it declares \<open>llmTracerName\<close>, which the
  hierarchy spans use): \<open>LogPrompt\<close> takes a \<open>Prompt\<close> and \<open>LogCompletion\<close> a \<open>Completion\<close>
  and a \<open>Usage\<close>. Its names that the \<open>PromptParams\<close> interface also declares carry the
  suffix 2 here. Its package variable \<open>globalCfg\<close> is a parameter of the functions that read
  it.
\<close>

definition llmTracerName :: string where "llmTracerName = ''triage.llm''"

record ToolCallFunction =
  tcf_Name :: string
  tcf_Arguments :: string

record ToolCall2 =
  tc2_ID :: string
  tc2_Type :: string
  tc2_Function :: ToolCallFunction

record Message2 =
  m2_Role :: string
  m2_Content :: string
  m2_ToolCalls :: "ToolCall2 list"
  m2_ToolCallID :: string

record 'j ToolFunction =
  tf_Name :: string
  tf_Description :: string
  tf_Parameters :: "'j option"

record 'j ToolDef =
  tdef_Type :: string
  tdef_Function :: "'j ToolFunction"

record 'j Prompt =
  p_Vendor :: string
  p_Model :: string
  p_Messages :: "Message2 list"
  p_Tools :: "'j ToolDef list"
  p_MaxTokens :: int
  p_Temperature :: "float64 option"
  p_TopP :: "float64 option"
  p_FrequencyPenalty :: "float64 option"
  p_PresencePenalty :: "float64 option"
  p_Stop :: "string list"

record Completion =
  c_Model :: string
  c_Messages :: "Message2 list"

record Usage2 =
  PromptTokens :: int
  CompletionTokens :: int
  u2_TotalTokens :: int

record LLMSpan2 =
  llm2_span :: "nat option"
  llm2_ctx :: Context

definition LLMSpan2_Context :: "LLMSpan2 option \<Rightarrow> Context" where
  "LLMSpan2_Context ls = (case ls of None \<Rightarrow> Background | Some l \<Rightarrow> llm2_ctx l)"

definition isTraceContentEnabled :: "config option \<Rightarrow> bool" where
  "isTraceContentEnabled globalCfg =
     (case globalCfg of None \<Rightarrow> True | Some c \<Rightarrow> traceContent c)"

text \<open>The bodies of the loops over tool calls, messages and tools.\<close>

definition toolCallAttrs2 :: "string \<Rightarrow> nat \<times> ToolCall2 \<Rightarrow> KeyValue list" where
  "toolCallAttrs2 pfx = (\<lambda>(j, tc).
     (let tcPrefix = pfx @ ''.tool_calls.'' @ show_nat j in
        [(tcPrefix @ ''.id'', AString (tc2_ID tc)),
         (tcPrefix @ ''.type'', AString (tc2_Type tc)),
         (tcPrefix @ ''.function.name'', AString (tcf_Name (tc2_Function tc))),
         (tcPrefix @ ''.function.arguments'', AString (tcf_Arguments (tc2_Function tc)))]))"

definition promptMessageAttrs :: "nat \<times> Message2 \<Rightarrow> KeyValue list" where
  "promptMessageAttrs = (\<lambda>(i, msg).
     (let pfx = ''gen_ai.prompt.'' @ show_nat i in
        [(pfx @ ''.role'', AString (m2_Role msg))]
      @ (if m2_Content msg \<noteq> [] then [(pfx @ ''.content'', AString (m2_Content msg))] else [])
      @ concat (map (toolCallAttrs2 pfx) (enumerate 0 (m2_ToolCalls msg)))
      @ (if m2_ToolCallID msg \<noteq> []
         then [(pfx @ ''.tool_call_id'', AString (m2_ToolCallID msg))] else [])))"

definition completionMessageAttrs :: "nat \<times> Message2 \<Rightarrow> KeyValue list" where
  "completionMessageAttrs = (\<lambda>(i, msg).
     (let pfx = ''gen_ai.completion.'' @ show_nat i in
        [(pfx @ ''.role'', AString (m2_Role msg))]
      @ (if m2_Content msg \<noteq> [] then [(pfx @ ''.content'', AString (m2_Content msg))] else [])
      @ concat (map (toolCallAttrs2 pfx) (enumerate 0 (m2_ToolCalls msg)))))"

definition toolDefAttrs :: "('j \<Rightarrow> string option) \<Rightarrow> nat \<times> 'j ToolDef \<Rightarrow> KeyValue list" where
  "toolDefAttrs marshal = (\<lambda>(i, tool).
     (let pfx = ''gen_ai.request.tool.'' @ show_nat i in
        [(pfx @ ''.type'', AString (tdef_Type tool))]
      @ [(pfx @ ''.function.name'', AString (tf_Name (tdef_Function tool)))]
      @ (if tf_Description (tdef_Function tool) \<noteq> []
         then [(pfx @ ''.function.description'', AString (tf_Description (tdef_Function tool)))]
         else [])
      @ (case tf_Parameters (tdef_Function tool) of
           None \<Rightarrow> []
         | Some params \<Rightarrow>
             (case marshal params of
                Some paramJSON \<Rightarrow> [(pfx @ ''.function.parameters'', AString paramJSON)]
              | None \<Rightarrow> []))))"

text \<open>The list \<open>attrs\<close> that \<open>LogPrompt\<close> builds before its one \<open>SetAttributes\<close> call.\<close>

definition LogPrompt2_attrs ::
  "('j \<Rightarrow> string option) \<Rightarrow> config option \<Rightarrow> 'j Prompt \<Rightarrow> KeyValue list" where
  "LogPrompt2_attrs marshal globalCfg prompt =
     (let attrs = [];
          attrs = attrs @ [(''gen_ai.system'', AString (p_Vendor prompt)),
                           (''gen_ai.request.model'', AString (p_Model prompt))];
          attrs = attrs @ [(''llm.vendor'', AString (p_Vendor prompt)),
                           (''llm.request.model'', AString (p_Model prompt)),
                           (''llm.request.type'', AString ''chat'')];
          attrs = attrs @ (if p_MaxTokens prompt > 0
                           then [(''gen_ai.request.max_tokens'', AInt (p_MaxTokens prompt))] else []);
          attrs = attrs @ (case p_Temperature prompt of
                             Some t \<Rightarrow> [(''gen_ai.request.temperature'', AFloat64 t)] | None \<Rightarrow> []);
          attrs = attrs @ (case p_TopP prompt of
                             Some t \<Rightarrow> [(''gen_ai.request.top_p'', AFloat64 t)] | None \<Rightarrow> []);
          attrs = attrs @ (case p_FrequencyPenalty prompt of
                             Some t \<Rightarrow> [(''gen_ai.request.frequency_penalty'', AFloat64 t)]
                           | None \<Rightarrow> []);
          attrs = attrs @ (case p_PresencePenalty prompt of
                             Some t \<Rightarrow> [(''gen_ai.request.presence_penalty'', AFloat64 t)]
                           | None \<Rightarrow> []);
          attrs = attrs @ (if length (p_Stop prompt) > 0
                           then [(''gen_ai.request.stop_sequences'', AStringSlice (p_Stop prompt))]
                           else []);
          attrs = attrs @ (if isTraceContentEnabled globalCfg
                           then concat (map promptMessageAttrs (enumerate 0 (p_Messages prompt)))
                           else []);
          attrs = attrs @ concat (map (toolDefAttrs marshal) (enumerate 0 (p_Tools prompt)))
      in attrs)"

definition LogPrompt2_spanName :: "'j Prompt \<Rightarrow> string" where
  "LogPrompt2_spanName prompt =
     (let spanName = p_Vendor prompt @ ''.chat'' in
      if p_Model prompt \<noteq> [] then p_Vendor prompt @ ''.chat '' @ p_Model prompt else spanName)"

definition LogPrompt2 ::
  "('j \<Rightarrow> string option) \<Rightarrow> config option \<Rightarrow> Context \<Rightarrow> 'j Prompt \<Rightarrow> spans
     \<Rightarrow> (LLMSpan2 option \<times> Context) \<times> spans" where
  "LogPrompt2 marshal globalCfg ctx prompt st =
     (let spanName = LogPrompt2_spanName prompt;
          ((ctx, span), st) = Start ctx spanName SpanKindClient st;
          attrs = LogPrompt2_attrs marshal globalCfg prompt;
          st = SetAttributes span attrs st
      in ((Some \<lparr>llm2_span = Some span, llm2_ctx = ctx\<rparr>, ctx), st))"

definition LogCompletion2_attrs :: "config option \<Rightarrow> Completion \<Rightarrow> Usage2 \<Rightarrow> KeyValue list" where
  "LogCompletion2_attrs globalCfg completion usage =
     (let attrs = [];
          attrs = attrs @ (if c_Model completion \<noteq> []
                           then [(''gen_ai.response.model'', AString (c_Model completion)),
                                 (''llm.response.model'', AString (c_Model completion))]
                           else []);
          attrs = attrs @ [(''gen_ai.usage.input_tokens'', AInt (PromptTokens usage)),
                           (''gen_ai.usage.output_tokens'', AInt (CompletionTokens usage))];
          attrs = attrs @ [(''llm.usage.prompt_tokens'', AInt (PromptTokens usage)),
                           (''llm.usage.completion_tokens'', AInt (CompletionTokens usage)),
                           (''llm.usage.total_tokens'', AInt (u2_TotalTokens usage))];
          attrs = attrs @ (if isTraceContentEnabled globalCfg
                           then concat (map completionMessageAttrs
                                          (enumerate 0 (c_Messages completion)))
                           else [])
      in attrs)"

definition LogCompletion2 ::
  "config option \<Rightarrow> LLMSpan2 option \<Rightarrow> Completion \<Rightarrow> Usage2 \<Rightarrow> spans \<Rightarrow> spans" where
  "LogCompletion2 globalCfg ls completion usage st =
     (case ls of
        None \<Rightarrow> st
      | Some l \<Rightarrow>
          (case llm2_span l of
             None \<Rightarrow> st
           | Some span \<Rightarrow>
               (let attrs = LogCompletion2_attrs globalCfg completion usage;
                    st = SetAttributes span attrs st
                in EndSpan span st)))"

subsection \<open>workflow.go: the hierarchy spans\<close>

definition spanKindWorkflow :: string where "spanKindWorkflow = ''workflow''"
definition spanKindTask :: string where "spanKindTask = ''task''"
definition spanKindAgent :: string where "spanKindAgent = ''agent''"
definition spanKindTool :: string where "spanKindTool = ''tool''"

definition workflowNameFromContext :: "Context \<Rightarrow> string" where
  "workflowNameFromContext ctx = (case ctx_workflow ctx of Some name \<Rightarrow> name | None \<Rightarrow> [])"

record Workflow =
  wf_span :: "nat option"
  wf_ctx :: Context
  wf_name :: string

record Task =
  task_span :: "nat option"
  task_ctx :: Context
  task_name :: string

record Agent =
  agent_span :: "nat option"
  agent_ctx :: Context
  agent_name :: string

record ToolSpan =
  tool_span :: "nat option"
  tool_ctx :: Context
  tool_name :: string

definition StartWorkflow :: "Context \<Rightarrow> string \<Rightarrow> spans \<Rightarrow> (Workflow option \<times> Context) \<times> spans" where
  "StartWorkflow ctx name st =
     (let ((ctx, span), st) = Start ctx name SpanKindInternal st;
          st = SetAttributes span
                 [(''traceloop.span.kind'', AString spanKindWorkflow),
                  (''traceloop.entity.name'', AString name),
                  (''traceloop.workflow.name'', AString name)] st;
          ctx = ctx\<lparr>ctx_workflow := Some name\<rparr>
      in ((Some \<lparr>wf_span = Some span, wf_ctx = ctx, wf_name = name\<rparr>, ctx), st))"

definition Workflow_End :: "Workflow option \<Rightarrow> spans \<Rightarrow> spans" where
  "Workflow_End w st =
     (case w of
        Some w' \<Rightarrow> (case wf_span w' of Some span \<Rightarrow> EndSpan span st | None \<Rightarrow> st)
      | None \<Rightarrow> st)"

definition Workflow_Context :: "Workflow option \<Rightarrow> Context" where
  "Workflow_Context w = (case w of None \<Rightarrow> Background | Some w' \<Rightarrow> wf_ctx w')"

definition StartTask :: "Context \<Rightarrow> string \<Rightarrow> spans \<Rightarrow> (Task option \<times> Context) \<times> spans" where
  "StartTask ctx name st =
     (let ((ctx, span), st) = Start ctx name SpanKindInternal st;
          attrs = [(''traceloop.span.kind'', AString spanKindTask),
                   (''traceloop.entity.name'', AString name)];
          attrs = (if workflowNameFromContext ctx \<noteq> []
                   then attrs @ [(''traceloop.workflow.name'', AString (workflowNameFromContext ctx))]
                   else attrs);
          st = SetAttributes span attrs st
      in ((Some \<lparr>task_span = Some span, task_ctx = ctx, task_name = name\<rparr>, ctx), st))"

definition Task_End :: "Task option \<Rightarrow> spans \<Rightarrow> spans" where
  "Task_End t st =
     (case t of
        Some t' \<Rightarrow> (case task_span t' of Some span \<Rightarrow> EndSpan span st | None \<Rightarrow> st)
      | None \<Rightarrow> st)"

definition Task_Context :: "Task option \<Rightarrow> Context" where
  "Task_Context t = (case t of None \<Rightarrow> Background | Some t' \<Rightarrow> task_ctx t')"

definition StartAgent :: "Context \<Rightarrow> string \<Rightarrow> spans \<Rightarrow> (Agent option \<times> Context) \<times> spans" where
  "StartAgent ctx name st =
     (let ((ctx, span), st) = Start ctx name SpanKindInternal st;
          attrs = [(''traceloop.span.kind'', AString spanKindAgent),
                   (''traceloop.entity.name'', AString name),
                   (''llm.agent.name'', AString name)];
          attrs = (if workflowNameFromContext ctx \<noteq> []
                   then attrs @ [(''traceloop.workflow.name'', AString (workflowNameFromContext ctx))]
                   else attrs);
          st = SetAttributes span attrs st
      in ((Some \<lparr>agent_span = Some span, agent_ctx = ctx, agent_name = name\<rparr>, ctx), st))"

definition Agent_End :: "Agent option \<Rightarrow> spans \<Rightarrow> spans" where
  "Agent_End a st =
     (case a of
        Some a' \<Rightarrow> (case agent_span a' of Some span \<Rightarrow> EndSpan span st | None \<Rightarrow> st)
      | None \<Rightarrow> st)"

definition Agent_Context :: "Agent option \<Rightarrow> Context" where
  "Agent_Context a = (case a of None \<Rightarrow> Background | Some a' \<Rightarrow> agent_ctx a')"

definition StartTool :: "Context \<Rightarrow> string \<Rightarrow> spans \<Rightarrow> (ToolSpan option \<times> Context) \<times> spans" where
  "StartTool ctx name st =
     (let ((ctx, span), st) = Start ctx name SpanKindInternal st;
          attrs = [(''traceloop.span.kind'', AString spanKindTool),
                   (''traceloop.entity.name'', AString name)];
          attrs = (if workflowNameFromContext ctx \<noteq> []
                   then attrs @ [(''traceloop.workflow.name'', AString (workflowNameFromContext ctx))]
                   else attrs);
          st = SetAttributes span attrs st
      in ((Some \<lparr>tool_span = Some span, tool_ctx = ctx, tool_name = name\<rparr>, ctx), st))"

definition ToolSpan_End :: "ToolSpan option \<Rightarrow> spans \<Rightarrow> spans" where
  "ToolSpan_End t st =
     (case t of
        Some t' \<Rightarrow> (case tool_span t' of Some span \<Rightarrow> EndSpan span st | None \<Rightarrow> st)
      | None \<Rightarrow> st)"

definition ToolSpan_Context :: "ToolSpan option \<Rightarrow> Context" where
  "ToolSpan_Context t = (case t of None \<Rightarrow> Background | Some t' \<Rightarrow> tool_ctx t')"

subsection \<open>A process for the scenarios\<close>

text \<open>
  The process of the package's tests: no \<open>TRIAGE_*\<close> variable is set, the program is
  \<open>/tmp/go-build/triage.test\<close>, and the exporter and the resource are created without error.
\<close>

definition test_process :: process where
  "test_process =
     \<lparr>os_Args = [''/tmp/go-build/triage.test''], os_Getenv = (\<lambda>key. []),
      filepath_Base = (\<lambda>path. ''triage.test''), Version = ''0.1.0'',
      otlptracehttp_New_err = None, resource_Merge_err = None\<rparr>"

subsection \<open>Attribute lists and derived contexts as values\<close>

text \<open>
  The slice of a span after one \<open>SetAttributes\<close> call for each attribute of a list; and a
  list of attributes that fits a span: it is no longer than the SDK's limit, so that a span
  that is set these attributes, and no others, drops none.
\<close>

definition recordEach :: "KeyValue list \<Rightarrow> KeyValue list \<Rightarrow> KeyValue list" where
  "recordEach cur kvs = foldl (\<lambda>c a. recordAttrs c [a]) cur kvs"

definition fits :: "KeyValue list \<Rightarrow> bool" where
  "fits kvs = (length kvs \<le> AttributeCountLimit)"

text \<open>
  The attributes \<open>LogPrompt\<close> and \<open>LogCompletion\<close> of the \<open>PromptParams\<close> interface set, in the
  order of their \<open>SetAttributes\<close> calls: the request attributes, then under the content policy
  the messages and the tool definitions; the response attributes, then under the content
  policy the messages.
\<close>

definition request_attrs :: "'j PromptParams \<Rightarrow> KeyValue list" where
  "request_attrs params =
       (if pp_Vendor params \<noteq> [] then [(AttrGenAISystem, AString (pp_Vendor params))] else [])
     @ (if pp_Model params \<noteq> [] then [(AttrGenAIRequestModel, AString (pp_Model params))] else [])
     @ (case pp_Temperature params of
          Some t \<Rightarrow> [(AttrGenAIRequestTemperature, AFloat64 t)] | None \<Rightarrow> [])
     @ (case pp_TopP params of Some t \<Rightarrow> [(AttrGenAIRequestTopP, AFloat64 t)] | None \<Rightarrow> [])
     @ (case pp_MaxTokens params of Some n \<Rightarrow> [(AttrGenAIRequestMaxTokens, AInt n)] | None \<Rightarrow> [])
     @ (if length (pp_Stop params) > 0
        then [(AttrGenAIRequestStopSequences, AStringSlice (pp_Stop params))] else [])"

definition LogPrompt_attrs :: "('j \<Rightarrow> string option) \<Rightarrow> sdk \<Rightarrow> 'j PromptParams \<Rightarrow> KeyValue list" where
  "LogPrompt_attrs marshal g params =
       request_attrs params
     @ (if shouldTraceContent g
        then concat (map (messageAttrs ''gen_ai.prompt'') (enumerate 0 (pp_Messages params)))
           @ concat (map (toolDefinitionAttrs marshal) (enumerate 0 (pp_Tools params)))
        else [])"

definition usage_attr :: "string \<Rightarrow> int \<Rightarrow> KeyValue list" where
  "usage_attr k n = (if n > 0 then [(k, AInt n)] else [])"

definition response_attrs :: "CompletionParams \<Rightarrow> KeyValue list" where
  "response_attrs params =
       (if cp_Model params \<noteq> [] then [(AttrGenAIResponseModel, AString (cp_Model params))] else [])
     @ (if cp_FinishReason params \<noteq> []
        then [(AttrGenAIResponseFinishReason, AString (cp_FinishReason params))] else [])
     @ usage_attr AttrGenAIUsageInputTokens (InputTokens (cp_Usage params))
     @ usage_attr AttrGenAIUsageOutputTokens (OutputTokens (cp_Usage params))
     @ usage_attr AttrGenAIUsageTotalTokens (TotalTokens (cp_Usage params))
     @ usage_attr AttrGenAIUsageReasoningTokens (ReasoningTokens (cp_Usage params))
     @ usage_attr AttrGenAIUsageCacheReadTokens (CacheReadTokens (cp_Usage params))
     @ usage_attr AttrGenAIUsageCacheWriteTokens (CacheWriteTokens (cp_Usage params))"

definition LogCompletion_attrs :: "sdk \<Rightarrow> CompletionParams \<Rightarrow> KeyValue list" where
  "LogCompletion_attrs g params =
       response_attrs params
     @ (if shouldTraceContent g
        then concat (map (messageAttrs ''gen_ai.completion'') (enumerate 0 (cp_Messages params)))
        else [])"

text \<open>The same parts of the lists \<open>LogPrompt\<close> and \<open>LogCompletion\<close> of the \<open>Prompt\<close> interface build.\<close>

definition request_attrs2 :: "'j Prompt \<Rightarrow> KeyValue list" where
  "request_attrs2 prompt =
       [(''gen_ai.system'', AString (p_Vendor prompt)),
        (''gen_ai.request.model'', AString (p_Model prompt)),
        (''llm.vendor'', AString (p_Vendor prompt)),
        (''llm.request.model'', AString (p_Model prompt)),
        (''llm.request.type'', AString ''chat'')]
     @ (if p_MaxTokens prompt > 0
        then [(''gen_ai.request.max_tokens'', AInt (p_MaxTokens prompt))] else [])
     @ (case p_Temperature prompt of
          Some t \<Rightarrow> [(''gen_ai.request.temperature'', AFloat64 t)] | None \<Rightarrow> [])
     @ (case p_TopP prompt of Some t \<Rightarrow> [(''gen_ai.request.top_p'', AFloat64 t)] | None \<Rightarrow> [])
     @ (case p_FrequencyPenalty prompt of
          Some t \<Rightarrow> [(''gen_ai.request.frequency_penalty'', AFloat64 t)] | None \<Rightarrow> [])
     @ (case p_PresencePenalty prompt of
          Some t \<Rightarrow> [(''gen_ai.request.presence_penalty'', AFloat64 t)] | None \<Rightarrow> [])
     @ (if length (p_Stop prompt) > 0
        then [(''gen_ai.request.stop_sequences'', AStringSlice (p_Stop prompt))] else [])"

definition response_attrs2 :: "Completion \<Rightarrow> Usage2 \<Rightarrow> KeyValue list" where
  "response_attrs2 completion usage =
       (if c_Model completion \<noteq> []
        then [(''gen_ai.response.model'', AString (c_Model completion)),
              (''llm.response.model'', AString (c_Model completion))]
        else [])
     @ [(''gen_ai.usage.input_tokens'', AInt (PromptTokens usage)),
        (''gen_ai.usage.output_tokens'', AInt (CompletionTokens usage)),
        (''llm.usage.prompt_tokens'', AInt (PromptTokens usage)),
        (''llm.usage.completion_tokens'', AInt (CompletionTokens usage)),
        (''llm.usage.total_tokens'', AInt (u2_TotalTokens usage))]"

text \<open>
  A call that derives a context from a context without starting a workflow: one of the six
  helpers, \<open>StartTask\<close>, \<open>StartAgent\<close>, \<open>StartTool\<close>, or \<open>LogPrompt\<close> of either interface.
  \<open>derive\<close> makes the call and keeps the context it returns; a context descends from another
  through a list of such calls.
\<close>

datatype ('a, 'j) ctx_call =
    CallHelper "'a helper_call"
  | CallStartTask string
  | CallStartAgent string
  | CallStartTool string
  | CallLogPrompt "'j PromptParams"
  | CallLogPrompt2 "'j Prompt"

fun derive ::
  "('a \<Rightarrow> string option) \<Rightarrow> ('j \<Rightarrow> string option) \<Rightarrow> sdk \<Rightarrow> config option
     \<Rightarrow> Context \<times> spans \<Rightarrow> ('a, 'j) ctx_call \<Rightarrow> Context \<times> spans" where
  "derive m mj g gc (ctx, st) (CallHelper c) = run_call m (ctx, st) c"
| "derive m mj g gc (ctx, st) (CallStartTask name) =
     (case StartTask ctx name st of ((t, ctx'), st') \<Rightarrow> (ctx', st'))"
| "derive m mj g gc (ctx, st) (CallStartAgent name) =
     (case StartAgent ctx name st of ((a, ctx'), st') \<Rightarrow> (ctx', st'))"
| "derive m mj g gc (ctx, st) (CallStartTool name) =
     (case StartTool ctx name st of ((t, ctx'), st') \<Rightarrow> (ctx', st'))"
| "derive m mj g gc (ctx, st) (CallLogPrompt params) =
     (case LogPrompt mj g ctx params st of ((ctx', s), st') \<Rightarrow> (ctx', st'))"
| "derive m mj g gc (ctx, st) (CallLogPrompt2 prompt) =
     (case LogPrompt2 mj gc ctx prompt st of ((s, ctx'), st') \<Rightarrow> (ctx', st'))"

definition descend ::
  "('a \<Rightarrow> string option) \<Rightarrow> ('j \<Rightarrow> string option) \<Rightarrow> sdk \<Rightarrow> config option
     \<Rightarrow> Context \<times> spans \<Rightarrow> ('a, 'j) ctx_call list \<Rightarrow> Context \<times> spans" where
  "descend m mj g gc s cs = foldl (derive m mj g gc) s cs"

text \<open>The span a call starts: the last span of the store the call returns.\<close>

definition started :: "spans \<Rightarrow> span" where
  "started st = last st"

text \<open>
  The spans \<open>StartTask\<close>, \<open>StartAgent\<close> and \<open>StartTool\<close> start, and what a span says about the
  workflow name: the attribute with a value, or no such attribute.
\<close>

definition task_span_of :: "Context \<Rightarrow> string \<Rightarrow> spans \<Rightarrow> span" where
  "task_span_of ctx name st = started (snd (StartTask ctx name st))"

definition agent_span_of :: "Context \<Rightarrow> string \<Rightarrow> spans \<Rightarrow> span" where
  "agent_span_of ctx name st = started (snd (StartAgent ctx name st))"

definition tool_span_of :: "Context \<Rightarrow> string \<Rightarrow> spans \<Rightarrow> span" where
  "tool_span_of ctx name st = started (snd (StartTool ctx name st))"

definition has_workflow_name :: "span \<Rightarrow> string \<Rightarrow> bool" where
  "has_workflow_name sp name =
     (attrMap (span_attrs sp) ''traceloop.workflow.name'' = Some (AString name))"

definition has_no_workflow_name :: "span \<Rightarrow> bool" where
  "has_no_workflow_name sp = (''traceloop.workflow.name'' \<notin> fst ` set (span_attrs sp))"

subsection \<open>One LLM call, and the kinds of attribute keys\<close>

text \<open>
  The span of one LLM call: \<open>LogPrompt\<close>, then \<open>LogCompletion\<close> on the \<open>LLMSpan\<close> it returned.
  \<open>llm_call\<close> is the \<open>PromptParams\<close> interface, \<open>llm_call2\<close> the \<open>Prompt\<close> interface.
\<close>

definition llm_call ::
  "('j \<Rightarrow> string option) \<Rightarrow> sdk \<Rightarrow> Context \<Rightarrow> 'j PromptParams \<Rightarrow> CompletionParams \<Rightarrow> spans
     \<Rightarrow> panic + span" where
  "llm_call marshal g ctx params completion st =
     (case LogPrompt marshal g ctx params st of
        ((ctx', s), st') \<Rightarrow>
          (case LogCompletion g s completion st' of
             Inl p \<Rightarrow> Inl p
           | Inr st'' \<Rightarrow> Inr (started st'')))"

definition llm_call2 ::
  "('j \<Rightarrow> string option) \<Rightarrow> config option \<Rightarrow> Context \<Rightarrow> 'j Prompt \<Rightarrow> Completion \<Rightarrow> Usage2
     \<Rightarrow> spans \<Rightarrow> span" where
  "llm_call2 marshal gc ctx prompt completion usage st =
     (case LogPrompt2 marshal gc ctx prompt st of
        ((s, ctx'), st') \<Rightarrow> started (LogCompletion2 gc s completion usage st'))"

text \<open>
  Message attributes (role, content, tool calls, tool call id) are the keys under
  \<open>gen_ai.prompt.\<close> and \<open>gen_ai.completion.\<close>; tool definitions are the keys under
  \<open>gen_ai.request.tools.\<close> in the \<open>PromptParams\<close> interface and under \<open>gen_ai.request.tool.\<close>
  in the \<open>Prompt\<close> interface.
\<close>

definition message_key :: "string \<Rightarrow> bool" where
  "message_key k = (prefix ''gen_ai.prompt.'' k \<or> prefix ''gen_ai.completion.'' k)"

definition tools_key :: "string \<Rightarrow> bool" where
  "tools_key k = prefix ''gen_ai.request.tools.'' k"

definition tool_key :: "string \<Rightarrow> bool" where
  "tool_key k = prefix ''gen_ai.request.tool.'' k"

text \<open>A key that is neither of these nor a \<open>triage.\<close> key.\<close>

definition plain_key :: "string \<Rightarrow> bool" where
  "plain_key k = (\<not> message_key k \<and> \<not> tools_key k \<and> \<not> tool_key k \<and> \<not> prefix ''triage.'' k)"

text \<open>
  The scenario of the specification: the prompt \<open>{vendor: "openai", model: "gpt-4o", messages:
  [{role: "user", content: "Hello"}]}\<close> and the completion \<open>{model: "gpt-4o", usage: {input: 10,
  output: 5, total: 15}}\<close>, in each interface; a tool definition; and a configuration with
  \<open>traceContent = false\<close>.
\<close>

definition scenario_params :: "string PromptParams" where
  "scenario_params =
     \<lparr>pp_Vendor = ''openai'', pp_Model = ''gpt-4o'',
      pp_Messages = [\<lparr>msg_Role = ''user'', msg_Content = ''Hello'', msg_ToolCalls = []\<rparr>],
      pp_Tools = [], pp_Temperature = None, pp_TopP = None, pp_MaxTokens = None, pp_Stop = []\<rparr>"

definition scenario_completion :: CompletionParams where
  "scenario_completion =
     \<lparr>cp_Model = ''gpt-4o'', cp_Messages = [],
      cp_Usage = \<lparr>InputTokens = 10, OutputTokens = 5, TotalTokens = 15, ReasoningTokens = 0,
                  CacheReadTokens = 0, CacheWriteTokens = 0\<rparr>,
      cp_FinishReason = []\<rparr>"

definition scenario_prompt :: "string Prompt" where
  "scenario_prompt =
     \<lparr>p_Vendor = ''openai'', p_Model = ''gpt-4o'',
      p_Messages = [\<lparr>m2_Role = ''user'', m2_Content = ''Hello'', m2_ToolCalls = [],
                     m2_ToolCallID = []\<rparr>],
      p_Tools = [], p_MaxTokens = 0, p_Temperature = None, p_TopP = None,
      p_FrequencyPenalty = None, p_PresencePenalty = None, p_Stop = []\<rparr>"

definition scenario_completion2 :: Completion where
  "scenario_completion2 = \<lparr>c_Model = ''gpt-4o'', c_Messages = []\<rparr>"

definition scenario_usage2 :: Usage2 where
  "scenario_usage2 = \<lparr>PromptTokens = 10, CompletionTokens = 5, u2_TotalTokens = 15\<rparr>"

definition secret_tool :: "string ToolDefinition" where
  "secret_tool =
     \<lparr>td_Name = ''secret_tool'', td_Description = ''does secret things'', td_Parameters = None\<rparr>"

definition secret_tool2 :: "string ToolDef" where
  "secret_tool2 =
     \<lparr>tdef_Type = ''function'',
      tdef_Function = \<lparr>tf_Name = ''secret_tool'', tf_Description = ''does secret things'',
                        tf_Parameters = None\<rparr>\<rparr>"

definition content_off :: config where
  "content_off =
     \<lparr>apiKey = ''tsk_test'', endpoint = DefaultEndpoint, appName = ''triage.test'',
      environment = ''development'', enabled = True, traceContent = False\<rparr>"

definition sdk_content_off :: sdk where
  "sdk_content_off = sdk_start\<lparr>activeConfig := Some content_off\<rparr>"

section \<open>The annotation context and its projection\<close>

lemma clone_id: "clone tc = tc"
  by (simp add: clone_def split: option.splits)

lemma foldl_UserOption:
  "foldl apply_UserOption tc opts =
     (if opts = [] then tc else tc\<lparr>userRole := (case last opts of UserRole r \<Rightarrow> r)\<rparr>)"
  by (induction opts arbitrary: tc rule: rev_induct) (auto split: UserOption.splits elim: apply_UserOption.elims)

lemma foldl_TenantOption:
  "foldl apply_TenantOption tc opts =
     (if opts = [] then tc else tc\<lparr>tenantName := (case last opts of TenantName r \<Rightarrow> r)\<rparr>)"
  by (induction opts arbitrary: tc rule: rev_induct) (auto split: TenantOption.splits elim: apply_TenantOption.elims)

lemma foldl_InputOption:
  "foldl apply_InputOption tc opts =
     (if opts = [] then tc else tc\<lparr>inputSanitized := (case last opts of Sanitized r \<Rightarrow> r)\<rparr>)"
  by (induction opts arbitrary: tc rule: rev_induct) (auto split: InputOption.splits elim: apply_InputOption.elims)

lemma foldl_TemplateOption:
  "foldl apply_TemplateOption tc opts =
     (if opts = [] then tc else tc\<lparr>templateVersion := (case last opts of TemplateVersion r \<Rightarrow> r)\<rparr>)"
  by (induction opts arbitrary: tc rule: rev_induct) (auto split: TemplateOption.splits elim: apply_TemplateOption.elims)

lemma foldl_SessionOption:
  "foldl apply_SessionOption tc opts =
     tc\<lparr>sessionTurnNumber :=
           (if [n. TurnNumber n \<leftarrow> opts] = [] then sessionTurnNumber tc
            else Some (last [n. TurnNumber n \<leftarrow> opts])),
        sessionHistoryHash :=
           (if [h. HistoryHash h \<leftarrow> opts] = [] then sessionHistoryHash tc
            else last [h. HistoryHash h \<leftarrow> opts])\<rparr>"
proof (induction opts arbitrary: tc rule: rev_induct)
  case Nil
  show ?case by simp
next
  case (snoc x xs)
  show ?case by (cases x) (simp_all add: snoc)
qed

lemma fst_WithUser:
  "fst (WithUser ctx u opts st) = setInContext ctx (foldl apply_UserOption ((getFromContext ctx)\<lparr>userID := u\<rparr>) opts)"
  by (simp add: WithUser_def Let_def clone_id)

lemma fst_WithTenant:
  "fst (WithTenant ctx u opts st) = setInContext ctx (foldl apply_TenantOption ((getFromContext ctx)\<lparr>tenantID := u\<rparr>) opts)"
  by (simp add: WithTenant_def Let_def clone_id)

lemma fst_WithSession:
  "fst (WithSession ctx u opts st) = setInContext ctx (foldl apply_SessionOption ((getFromContext ctx)\<lparr>sessionID := u\<rparr>) opts)"
  by (simp add: WithSession_def Let_def clone_id)

lemma fst_WithInput:
  "fst (WithInput ctx u opts st) = setInContext ctx (foldl apply_InputOption ((getFromContext ctx)\<lparr>inputRaw := u\<rparr>) opts)"
  by (simp add: WithInput_def Let_def clone_id)

lemma fst_WithTemplate:
  "fst (WithTemplate ctx u opts st) = setInContext ctx (foldl apply_TemplateOption ((getFromContext ctx)\<lparr>templateID := u\<rparr>) opts)"
  by (simp add: WithTemplate_def Let_def clone_id)

lemma fst_WithChunkACLs:
  "fst (WithChunkACLs m ctx acls st) =
     setInContext ctx (case m acls of None \<Rightarrow> getFromContext ctx | Some d \<Rightarrow> (getFromContext ctx)\<lparr>chunkACLs := d\<rparr>)"
  by (simp add: WithChunkACLs_def Let_def clone_id split: option.splits)

lemma get_set: "getFromContext (setInContext ctx tc) = tc"
  by (simp add: getFromContext_def setInContext_def)

lemma run_call_field:
  "field_of (getFromContext (fst (run_call m (ctx, st) c))) f =
     (case assigns m c f of Some v \<Rightarrow> v | None \<Rightarrow> field_of (getFromContext ctx) f)"
proof (cases c)
  case (CallWithUser u opts)
  then show ?thesis
    by (cases f) (simp_all add: fst_WithUser get_set foldl_UserOption)
next
  case (CallWithTenant u opts)
  then show ?thesis
    by (cases f) (simp_all add: fst_WithTenant get_set foldl_TenantOption)
next
  case (CallWithSession u opts)
  then show ?thesis
    by (cases f) (simp_all add: fst_WithSession get_set foldl_SessionOption)
next
  case (CallWithInput u opts)
  then show ?thesis
    by (cases f) (simp_all add: fst_WithInput get_set foldl_InputOption)
next
  case (CallWithTemplate u opts)
  then show ?thesis
    by (cases f) (simp_all add: fst_WithTemplate get_set foldl_TemplateOption)
next
  case (CallWithChunkACLs acls)
  then show ?thesis
    by (cases f) (simp_all add: fst_WithChunkACLs get_set split: option.splits)
qed

lemma if_snoc: "(if c then xs @ [a] else xs) = xs @ (if c then [a] else [])"
  by simp

lemma case_snoc: "(case t of Some n \<Rightarrow> xs @ [g n] | None \<Rightarrow> xs) = xs @ (case t of Some n \<Rightarrow> [g n] | None \<Rightarrow> [])"
  by (cases t) simp_all

lemma getTriageAttrs_flat:
  "getTriageAttrs ctx =
     (let tc = getFromContext ctx in
        opt_attr AttrUserID (userID tc) @ opt_attr AttrUserRole (userRole tc)
      @ opt_attr AttrTenantID (tenantID tc) @ opt_attr AttrTenantName (tenantName tc)
      @ opt_attr AttrSessionID (sessionID tc)
      @ (case sessionTurnNumber tc of Some n \<Rightarrow> [(AttrSessionTurn, AInt n)] | None \<Rightarrow> [])
      @ opt_attr AttrSessionHash (sessionHistoryHash tc)
      @ opt_attr AttrInputRaw (inputRaw tc) @ opt_attr AttrInputSanitized (inputSanitized tc)
      @ opt_attr AttrTemplateID (templateID tc) @ opt_attr AttrTemplateVersion (templateVersion tc)
      @ opt_attr AttrChunkACLs (chunkACLs tc))"
  unfolding getTriageAttrs_def opt_attr_def if_snoc case_snoc Let_def
  by simp

lemmas triage_keys = AttrUserID_def AttrUserRole_def AttrTenantID_def AttrTenantName_def
  AttrSessionID_def AttrSessionTurn_def AttrSessionHash_def AttrInputRaw_def
  AttrInputSanitized_def AttrTemplateID_def AttrTemplateVersion_def AttrChunkACLs_def

lemma distinct_field_keys: "distinct (map field_key all_fields)"
  by (simp add: all_fields_def triage_keys)

lemma subseq_opt_attr: "subseq (map fst (opt_attr k s)) [k]"
  by (simp add: opt_attr_def)

lemma subseq_turn_attr: "subseq (map fst (turn_attr t)) [AttrSessionTurn]"
  by (simp add: turn_attr_def split: option.splits)

lemma getTriageAttrs_flat':
  "getTriageAttrs ctx =
     (let tc = getFromContext ctx in
        opt_attr AttrUserID (userID tc) @ opt_attr AttrUserRole (userRole tc)
      @ opt_attr AttrTenantID (tenantID tc) @ opt_attr AttrTenantName (tenantName tc)
      @ opt_attr AttrSessionID (sessionID tc)
      @ turn_attr (sessionTurnNumber tc)
      @ opt_attr AttrSessionHash (sessionHistoryHash tc)
      @ opt_attr AttrInputRaw (inputRaw tc) @ opt_attr AttrInputSanitized (inputSanitized tc)
      @ opt_attr AttrTemplateID (templateID tc) @ opt_attr AttrTemplateVersion (templateVersion tc)
      @ opt_attr AttrChunkACLs (chunkACLs tc))"
  by (simp add: getTriageAttrs_flat turn_attr_def)

lemma subseq_getTriageAttrs: "subseq (map fst (getTriageAttrs ctx)) (map field_key all_fields)"
proof -
  have K: "map field_key all_fields =
      [AttrUserID] @ [AttrUserRole] @ [AttrTenantID] @ [AttrTenantName] @ [AttrSessionID]
      @ [AttrSessionTurn] @ [AttrSessionHash] @ [AttrInputRaw] @ [AttrInputSanitized]
      @ [AttrTemplateID] @ [AttrTemplateVersion] @ [AttrChunkACLs]"
    by (simp add: all_fields_def)
  show ?thesis
    unfolding K getTriageAttrs_flat' Let_def map_append
    by (intro list_emb_append_mono subseq_opt_attr subseq_turn_attr)
qed

lemma distinct_getTriageAttrs: "distinct (map fst (getTriageAttrs ctx))"
proof -
  have "map fst (getTriageAttrs ctx) \<in> set (subseqs (map field_key all_fields))"
    by (simp add: set_subseqs_eq subseq_getTriageAttrs)
  then show ?thesis using distinct_field_keys by (rule subseqs_distinctD)
qed

lemma attrMap_distinct: "distinct (map fst kvs) \<Longrightarrow> attrMap kvs = map_of kvs"
  unfolding attrMap_def
  by (rule ext) (metis distinct_rev map_of_inject_set rev_map set_rev)

lemma map_of_opt_attr:
  "map_of (opt_attr k s) k' = (if k' = k \<and> s \<noteq> [] then Some (AString s) else None)"
  by (simp add: opt_attr_def)

lemma map_of_turn_attr:
  "map_of (turn_attr t) k' = (if k' = AttrSessionTurn then map_option AInt t else None)"
  by (simp add: turn_attr_def split: option.splits)

lemma map_of_getTriageAttrs:
  "map_of (getTriageAttrs ctx) (field_key f) = projected (field_of (getFromContext ctx) f)"
proof (cases f)
  case FSessionTurn
  then show ?thesis
    by (cases "sessionTurnNumber (getFromContext ctx)")
       (simp_all add: getTriageAttrs_flat' Let_def map_add_def map_of_opt_attr map_of_turn_attr
          triage_keys)
qed (simp_all add: getTriageAttrs_flat' Let_def map_add_def map_of_opt_attr map_of_turn_attr
       triage_keys)

lemma key_opt_attr: "x \<in> set (opt_attr k s) \<Longrightarrow> fst x = k \<and> snd x \<noteq> AString []"
  by (auto simp: opt_attr_def split: if_splits)

lemma key_turn_attr: "x \<in> set (turn_attr t) \<Longrightarrow> fst x = AttrSessionTurn \<and> snd x \<noteq> AString []"
  by (auto simp: turn_attr_def split: option.splits)

lemma keys_getTriageAttrs: "fst ` set (getTriageAttrs ctx) \<subseteq> range field_key"
proof -
  have "set (map fst (getTriageAttrs ctx)) \<subseteq> set (map field_key all_fields)"
    using list_emb_set[OF subseq_getTriageAttrs] by blast
  then show ?thesis by auto
qed

lemma no_empty_value: "(k, AString []) \<notin> set (getTriageAttrs ctx)"
proof
  assume "(k, AString []) \<in> set (getTriageAttrs ctx)"
  then have "snd (k, AString []) \<noteq> AString []"
    unfolding getTriageAttrs_flat' Let_def set_append Un_iff
    by (elim disjE) (drule key_opt_attr key_turn_attr, simp)+
  then show False by simp
qed

lemma run_calls_frame:
  "\<forall>c \<in> set post. assigns m c f = None \<Longrightarrow>
   field_of (getFromContext (fst (run_calls m s post))) f = field_of (getFromContext (fst s)) f"
proof (induction post arbitrary: s rule: rev_induct)
  case Nil
  show ?case by (simp add: run_calls_def)
next
  case (snoc c post)
  obtain ctx st where s': "run_calls m s post = (ctx, st)" by (cases "run_calls m s post")
  have ih: "field_of (getFromContext (fst (run_calls m s post))) f = field_of (getFromContext (fst s)) f"
    using snoc.prems by (intro snoc.IH) simp
  have "field_of (getFromContext (fst (run_calls m s (post @ [c])))) f
        = field_of (getFromContext (fst (run_call m (ctx, st) c))) f"
    using s' by (simp add: run_calls_def)
  also have "\<dots> = field_of (getFromContext ctx) f"
    using snoc.prems by (simp add: run_call_field)
  also have "\<dots> = field_of (getFromContext (fst s)) f"
    using ih unfolding s' by simp
  finally show ?case .
qed

lemma get_bg: "getFromContext Background = triageContext_zero"
  by (simp add: getFromContext_def Background_def)

text \<open>
  Claim C1 (no lost update). For every sequence of helper calls applied to the empty context:
  a helper call changes exactly the fields it assigns (\<open>assigns\<close> gives the value a call
  writes to a field, \<open>None\<close> when the call leaves the field alone) and keeps every other
  field; a field assigned by the call \<open>c\<close> and by no later call has the value \<open>c\<close> gave it in
  the final context, and the projection shows it under the field's key when it is non-empty.
  \<open>WithUser(WithUser(empty, "u1", UserRole("admin")), "u2")\<close> projects \<open>triage.user.id = "u2"\<close>
  and \<open>triage.user.role = "admin"\<close>.
\<close>

theorem no_lost_update:
  assumes "assigns m c f = Some v"
    and "\<forall>c' \<in> set post. assigns m c' f = None"
  shows "(\<forall>ctx st c' f'. field_of (getFromContext (fst (run_call m (ctx, st) c'))) f' =
             (case assigns m c' f' of Some v' \<Rightarrow> v' | None \<Rightarrow> field_of (getFromContext ctx) f'))
       \<and> field_of (getFromContext (fst (run_calls m (Background, st0) (pre @ c # post)))) f = v
       \<and> attrMap (getTriageAttrs (fst (run_calls m (Background, st0) (pre @ c # post)))) (field_key f)
           = projected v
       \<and> attrMap (getTriageAttrs
             (fst (run_calls m (Background, st0)
                [CallWithUser ''u1'' [UserRole ''admin''], CallWithUser ''u2'' []]))) AttrUserID
           = Some (AString ''u2'')
       \<and> attrMap (getTriageAttrs
             (fst (run_calls m (Background, st0)
                [CallWithUser ''u1'' [UserRole ''admin''], CallWithUser ''u2'' []]))) AttrUserRole
           = Some (AString ''admin'')"
proof -
  have step: "\<forall>ctx st c' f'. field_of (getFromContext (fst (run_call m (ctx, st) c'))) f' =
             (case assigns m c' f' of Some v' \<Rightarrow> v' | None \<Rightarrow> field_of (getFromContext ctx) f')"
    by (simp add: run_call_field)
  obtain ctx1 st1 where s1: "run_calls m (Background, st0) pre = (ctx1, st1)"
    by (cases "run_calls m (Background, st0) pre")
  have split: "run_calls m (Background, st0) (pre @ c # post)
      = run_calls m (run_call m (ctx1, st1) c) post"
    using s1 by (simp add: run_calls_def)
  have "field_of (getFromContext (fst (run_calls m (Background, st0) (pre @ c # post)))) f
      = field_of (getFromContext (fst (run_call m (ctx1, st1) c))) f"
    unfolding split using assms(2) by (rule run_calls_frame)
  also have "\<dots> = v" using assms(1) by (simp add: run_call_field)
  finally have kept:
    "field_of (getFromContext (fst (run_calls m (Background, st0) (pre @ c # post)))) f = v" .
  have proj: "attrMap (getTriageAttrs ctx) (field_key g) = projected (field_of (getFromContext ctx) g)"
    for ctx g
    by (simp add: attrMap_distinct distinct_getTriageAttrs map_of_getTriageAttrs)
  have shown: "attrMap (getTriageAttrs (fst (run_calls m (Background, st0) (pre @ c # post))))
      (field_key f) = projected v"
    by (simp add: proj kept)
  let ?two = "fst (run_calls m (Background, st0)
                [CallWithUser ''u1'' [UserRole ''admin''], CallWithUser ''u2'' []])"
  obtain c1 s1 where w: "WithUser Background ''u1'' [UserRole ''admin''] st0 = (c1, s1)"
    by (cases "WithUser Background ''u1'' [UserRole ''admin''] st0")
  have c1: "getFromContext c1 = triageContext_zero\<lparr>userID := ''u1'', userRole := ''admin''\<rparr>"
    using fst_WithUser[of Background "''u1''" "[UserRole ''admin'']" st0] w
    by (simp add: get_set get_bg)
  have two: "getFromContext ?two = triageContext_zero\<lparr>userID := ''u2'', userRole := ''admin''\<rparr>"
    by (simp add: run_calls_def w fst_WithUser get_set c1)
  have u: "attrMap (getTriageAttrs ?two) AttrUserID = Some (AString ''u2'')"
    using proj[of ?two FUserID] by (simp add: two)
  have r: "attrMap (getTriageAttrs ?two) AttrUserRole = Some (AString ''admin'')"
    using proj[of ?two FUserRole] by (simp add: two)
  show ?thesis using step kept shown u r by blast
qed

text \<open>
  The theorem at a sequence of five calls: the role set by the second call survives a later
  \<open>WithTenant\<close>, a later \<open>WithUser\<close> without a role and a later \<open>WithChunkACLs\<close>.
\<close>

theorem no_lost_update_witness:
  "assigns Some (CallWithUser ''u1'' [UserRole ''admin'']) FUserRole = Some (FStr ''admin'')
   \<and> list_all (\<lambda>c'. assigns Some c' FUserRole = None)
        [CallWithTenant ''org_1'' [], CallWithUser ''u2'' [], CallWithChunkACLs ''[]'']
   \<and> field_of (getFromContext (fst (run_calls Some (Background, [])
        ([CallWithSession ''s1'' [TurnNumber 0]] @ CallWithUser ''u1'' [UserRole ''admin'']
          # [CallWithTenant ''org_1'' [], CallWithUser ''u2'' [], CallWithChunkACLs ''[]''])))) FUserRole
       = FStr ''admin''
   \<and> attrMap (getTriageAttrs (fst (run_calls Some (Background, [])
        ([CallWithSession ''s1'' [TurnNumber 0]] @ CallWithUser ''u1'' [UserRole ''admin'']
          # [CallWithTenant ''org_1'' [], CallWithUser ''u2'' [], CallWithChunkACLs ''[]''])))) AttrUserRole
       = Some (AString ''admin'')"
proof -
  have a: "assigns Some (CallWithUser ''u1'' [UserRole ''admin'']) FUserRole = Some (FStr ''admin'')"
    by simp
  have b: "\<forall>c' \<in> set [CallWithTenant ''org_1'' [], CallWithUser ''u2'' [], CallWithChunkACLs ''[]''].
      assigns Some c' FUserRole = None"
    by simp
  show ?thesis
    using no_lost_update[OF a b, of "[]" "[CallWithSession ''s1'' [TurnNumber 0]]"] a
    by simp
qed

text \<open>
  Claim C2 (projection presence). For every context and every field \<open>f\<close>, \<open>getTriageAttrs\<close>
  emits the key of \<open>f\<close> iff the field is present (a non-empty string, a turn number that was
  set), with the field's value; it emits no other key, no key twice and no empty string. The
  empty context projects to the empty list. A turn number set to 0 is emitted as the integer 0,
  and a turn number never set is not emitted.
\<close>

theorem projection_presence:
  "attrMap (getTriageAttrs ctx) (field_key f) = projected (field_of (getFromContext ctx) f)
   \<and> (field_key f \<in> fst ` set (getTriageAttrs ctx))
       = (field_of (getFromContext ctx) f \<notin> {FStr [], FTurn None})
   \<and> fst ` set (getTriageAttrs ctx) \<subseteq> range field_key
   \<and> distinct (map fst (getTriageAttrs ctx))
   \<and> (k, AString []) \<notin> set (getTriageAttrs ctx)
   \<and> getTriageAttrs Background = []
   \<and> attrMap (getTriageAttrs (fst (WithSession Background sid [TurnNumber 0] st))) AttrSessionTurn
       = Some (AInt 0)
   \<and> AttrSessionTurn \<notin> fst ` set (getTriageAttrs (fst (WithSession Background sid [] st)))"
proof -
  have proj: "attrMap (getTriageAttrs c) (field_key g) = projected (field_of (getFromContext c) g)"
    for c g
    by (simp add: attrMap_distinct distinct_getTriageAttrs map_of_getTriageAttrs)
  have dom: "(field_key g \<in> fst ` set (getTriageAttrs c)) = (projected (field_of (getFromContext c) g) \<noteq> None)"
    for c g
    using map_of_getTriageAttrs[of c g] map_of_eq_None_iff[of "getTriageAttrs c" "field_key g"]
    by auto
  have pres: "(projected w \<noteq> None) = (w \<notin> {FStr [], FTurn None})" for w
    by (cases w rule: projected.cases) simp_all
  have bg: "getTriageAttrs Background = []"
    by (simp add: getTriageAttrs_flat' Let_def getFromContext_def Background_def
        triageContext_zero_def opt_attr_def turn_attr_def)
  have t0: "getFromContext (fst (WithSession Background sid [TurnNumber 0] st))
      = triageContext_zero\<lparr>sessionID := sid, sessionTurnNumber := Some 0\<rparr>"
    by (simp add: fst_WithSession get_set get_bg)
  have t1: "getFromContext (fst (WithSession Background sid [] st))
      = triageContext_zero\<lparr>sessionID := sid\<rparr>"
    by (simp add: fst_WithSession get_set get_bg)
  have z: "attrMap (getTriageAttrs (fst (WithSession Background sid [TurnNumber 0] st))) AttrSessionTurn
       = Some (AInt 0)"
    using proj[of "fst (WithSession Background sid [TurnNumber 0] st)" FSessionTurn]
    by (simp add: t0)
  have n: "AttrSessionTurn \<notin> fst ` set (getTriageAttrs (fst (WithSession Background sid [] st)))"
    using dom[of FSessionTurn "fst (WithSession Background sid [] st)"]
    by (simp add: t1 triageContext_zero_def)
  show ?thesis
    using proj[of ctx f] dom[of f ctx] pres keys_getTriageAttrs[of ctx] distinct_getTriageAttrs[of ctx]
      no_empty_value[of k ctx] bg z n
    by simp
qed

section \<open>The span store\<close>

lemma recordAttrs_nil: "recordAttrs cur [] = cur"
  by (simp add: recordAttrs_def)

lemma recordAttrs_fits:
  "length cur + length kvs \<le> AttributeCountLimit \<Longrightarrow> recordAttrs cur kvs = cur @ kvs"
  by (simp add: recordAttrs_def)

lemma recordEach_fits:
  "length cur + length kvs \<le> AttributeCountLimit \<Longrightarrow> recordEach cur kvs = cur @ kvs"
proof (induction kvs arbitrary: cur)
  case Nil
  show ?case by (simp add: recordEach_def)
next
  case (Cons a kvs)
  have one: "recordAttrs cur [a] = cur @ [a]"
    using Cons.prems by (simp add: recordAttrs_fits)
  have "recordEach cur (a # kvs) = recordEach (cur @ [a]) kvs"
    by (simp add: recordEach_def one)
  also have "\<dots> = (cur @ [a]) @ kvs"
    using Cons.prems by (intro Cons.IH) simp
  finally show ?case by simp
qed

lemma recordEach_append: "recordEach (recordEach cur a) b = recordEach cur (a @ b)"
  by (simp add: recordEach_def)

text \<open>Whatever the limit does, a span only ever holds attributes that were set on it.\<close>

lemma set_upsert: "set (upsert a cur) \<subseteq> insert a (set cur)"
  by (induction cur) auto

lemma set_dedupeAttrs: "set (dedupeAttrs kvs) \<subseteq> set kvs"
proof -
  have "set (foldl (\<lambda>unique a. upsert a unique) u kvs) \<subseteq> set u \<union> set kvs" for u
  proof (induction kvs arbitrary: u)
    case Nil
    show ?case by simp
  next
    case (Cons a kvs)
    show ?case using Cons.IH[of "upsert a u"] set_upsert[of a u] by auto
  qed
  from this[of "[]"] show ?thesis by (simp add: dedupeAttrs_def)
qed

lemma set_addOverCapAttrs: "set (addOverCapAttrs limit cur attrs) \<subseteq> set cur \<union> set attrs"
proof (induction attrs arbitrary: cur)
  case Nil
  show ?case by simp
next
  case (Cons a attrs)
  show ?case
    using Cons.IH[of "upsert a cur"] Cons.IH[of cur] Cons.IH[of "cur @ [a]"] set_upsert[of a cur]
    by (auto split: if_splits)
qed

lemma set_recordAttrs: "set (recordAttrs cur attrs) \<subseteq> set cur \<union> set attrs"
  using set_addOverCapAttrs[of AttributeCountLimit "dedupeAttrs cur" attrs] set_dedupeAttrs[of cur]
  by (auto simp: recordAttrs_def)

lemma set_recordEach: "set (recordEach cur kvs) \<subseteq> set cur \<union> set kvs"
proof (induction kvs arbitrary: cur)
  case Nil
  show ?case by (simp add: recordEach_def)
next
  case (Cons a kvs)
  have "recordEach cur (a # kvs) = recordEach (recordAttrs cur [a]) kvs"
    by (simp add: recordEach_def)
  then show ?case
    using Cons.IH[of "recordAttrs cur [a]"] set_recordAttrs[of cur "[a]"] by auto
qed

lemma SetAttributes_nil: "SetAttributes i [] st = st"
  by (simp add: SetAttributes_def recordAttrs_nil)

lemma SetAttributes_last:
  "\<not> span_ended sp \<Longrightarrow>
   SetAttributes (length st) kvs (st @ [sp])
     = st @ [sp\<lparr>span_attrs := recordAttrs (span_attrs sp) kvs\<rparr>]"
  by (simp add: SetAttributes_def)

lemma SetEach_last:
  "\<not> span_ended sp \<Longrightarrow>
   SetEach (length st) kvs (st @ [sp]) = st @ [sp\<lparr>span_attrs := recordEach (span_attrs sp) kvs\<rparr>]"
proof (induction kvs arbitrary: sp)
  case Nil
  show ?case by (simp add: SetEach_def recordEach_def)
next
  case (Cons a kvs)
  have "SetEach (length st) (a # kvs) (st @ [sp])
      = SetEach (length st) kvs (st @ [sp\<lparr>span_attrs := recordAttrs (span_attrs sp) [a]\<rparr>])"
    using Cons.prems by (simp add: SetEach_def SetAttributes_last)
  also have "\<dots> = st @ [sp\<lparr>span_attrs := recordEach (recordAttrs (span_attrs sp) [a]) kvs\<rparr>]"
    using Cons.prems by (subst Cons.IH) simp_all
  finally show ?case by (simp add: recordEach_def)
qed

lemma SetEach_nil: "SetEach i [] st = st"
  by (simp add: SetEach_def)

lemma SetEach_one: "SetAttributes i [a] st = SetEach i [a] st"
  by (simp add: SetEach_def)

lemma SetEach_twice: "SetEach i b (SetEach i a st) = SetEach i (a @ b) st"
  by (simp add: SetEach_def)

lemma if_SetEach:
  "(if c then SetAttributes i [a] st else st) = SetEach i (if c then [a] else []) st"
  by (simp add: SetEach_def)

lemma case_SetEach:
  "(case x of Some t \<Rightarrow> SetAttributes i [f t] st | None \<Rightarrow> st)
     = SetEach i (case x of Some t \<Rightarrow> [f t] | None \<Rightarrow> []) st"
  by (cases x) (simp_all add: SetEach_def)

lemma if_SetEach':
  "(if c then SetEach i kvs st else st) = SetEach i (if c then kvs else []) st"
  by (simp add: SetEach_def)

lemma length_getTriageAttrs: "length (getTriageAttrs ctx) \<le> 12"
  using list_emb_length[OF subseq_getTriageAttrs, of ctx] by (simp add: all_fields_def)

lemma Start_eq:
  "Start ctx name kind st =
     ((ctx\<lparr>ctx_span := Some (length st)\<rparr>, length st),
      st @ [\<lparr>span_name = name, span_kind = kind, span_parent = ctx_span ctx,
              span_attrs = getTriageAttrs ctx, span_errors = [], span_status = (StatusUnset, []),
              span_ended = False\<rparr>])"
  using length_getTriageAttrs[of ctx]
  by (simp add: Start_def triageSpanProcessor_OnStart_def Let_def SetAttributes_last
        recordAttrs_fits AttributeCountLimit_def)

lemma StartTask_eq:
  "StartTask ctx name st =
     ((Some \<lparr>task_span = Some (length st), task_ctx = ctx\<lparr>ctx_span := Some (length st)\<rparr>,
              task_name = name\<rparr>, ctx\<lparr>ctx_span := Some (length st)\<rparr>),
      st @ [\<lparr>span_name = name, span_kind = SpanKindInternal, span_parent = ctx_span ctx,
              span_attrs = getTriageAttrs ctx
                @ [(''traceloop.span.kind'', AString spanKindTask),
                   (''traceloop.entity.name'', AString name)]
                @ (if workflowNameFromContext ctx \<noteq> []
                   then [(''traceloop.workflow.name'', AString (workflowNameFromContext ctx))]
                   else []),
              span_errors = [], span_status = (StatusUnset, []), span_ended = False\<rparr>])"
  using length_getTriageAttrs[of ctx]
  by (simp add: StartTask_def Start_eq Let_def SetAttributes_last workflowNameFromContext_def
        recordAttrs_fits AttributeCountLimit_def)

lemma StartAgent_eq:
  "StartAgent ctx name st =
     ((Some \<lparr>agent_span = Some (length st), agent_ctx = ctx\<lparr>ctx_span := Some (length st)\<rparr>,
              agent_name = name\<rparr>, ctx\<lparr>ctx_span := Some (length st)\<rparr>),
      st @ [\<lparr>span_name = name, span_kind = SpanKindInternal, span_parent = ctx_span ctx,
              span_attrs = getTriageAttrs ctx
                @ [(''traceloop.span.kind'', AString spanKindAgent),
                   (''traceloop.entity.name'', AString name),
                   (''llm.agent.name'', AString name)]
                @ (if workflowNameFromContext ctx \<noteq> []
                   then [(''traceloop.workflow.name'', AString (workflowNameFromContext ctx))]
                   else []),
              span_errors = [], span_status = (StatusUnset, []), span_ended = False\<rparr>])"
  using length_getTriageAttrs[of ctx]
  by (simp add: StartAgent_def Start_eq Let_def SetAttributes_last workflowNameFromContext_def
        recordAttrs_fits AttributeCountLimit_def)

lemma StartTool_eq:
  "StartTool ctx name st =
     ((Some \<lparr>tool_span = Some (length st), tool_ctx = ctx\<lparr>ctx_span := Some (length st)\<rparr>,
              tool_name = name\<rparr>, ctx\<lparr>ctx_span := Some (length st)\<rparr>),
      st @ [\<lparr>span_name = name, span_kind = SpanKindInternal, span_parent = ctx_span ctx,
              span_attrs = getTriageAttrs ctx
                @ [(''traceloop.span.kind'', AString spanKindTool),
                   (''traceloop.entity.name'', AString name)]
                @ (if workflowNameFromContext ctx \<noteq> []
                   then [(''traceloop.workflow.name'', AString (workflowNameFromContext ctx))]
                   else []),
              span_errors = [], span_status = (StatusUnset, []), span_ended = False\<rparr>])"
  using length_getTriageAttrs[of ctx]
  by (simp add: StartTool_def Start_eq Let_def SetAttributes_last workflowNameFromContext_def
        recordAttrs_fits AttributeCountLimit_def)

lemma StartWorkflow_eq:
  "StartWorkflow ctx name st =
     ((Some \<lparr>wf_span = Some (length st),
              wf_ctx = ctx\<lparr>ctx_workflow := Some name, ctx_span := Some (length st)\<rparr>,
              wf_name = name\<rparr>,
       ctx\<lparr>ctx_workflow := Some name, ctx_span := Some (length st)\<rparr>),
      st @ [\<lparr>span_name = name, span_kind = SpanKindInternal, span_parent = ctx_span ctx,
              span_attrs = getTriageAttrs ctx
                @ [(''traceloop.span.kind'', AString spanKindWorkflow),
                   (''traceloop.entity.name'', AString name),
                   (''traceloop.workflow.name'', AString name)],
              span_errors = [], span_status = (StatusUnset, []), span_ended = False\<rparr>])"
  using length_getTriageAttrs[of ctx]
  by (simp add: StartWorkflow_def Start_eq Let_def SetAttributes_last recordAttrs_fits
        AttributeCountLimit_def)


lemma LogPrompt2_eq:
  "LogPrompt2 marshal gc ctx prompt st =
     ((Some \<lparr>llm2_span = Some (length st), llm2_ctx = ctx\<lparr>ctx_span := Some (length st)\<rparr>\<rparr>,
       ctx\<lparr>ctx_span := Some (length st)\<rparr>),
      st @ [\<lparr>span_name = LogPrompt2_spanName prompt, span_kind = SpanKindClient,
              span_parent = ctx_span ctx,
              span_attrs = recordAttrs (getTriageAttrs ctx) (LogPrompt2_attrs marshal gc prompt),
              span_errors = [], span_status = (StatusUnset, []), span_ended = False\<rparr>])"
  by (simp add: LogPrompt2_def Start_eq Let_def SetAttributes_last)

lemma LogPrompt_eq:
  "LogPrompt marshal g ctx params st =
     ((ctx\<lparr>ctx_span := Some (length st)\<rparr>, Some \<lparr>llm_span = Some (length st)\<rparr>),
      st @ [\<lparr>span_name = (if pp_Vendor params = [] then ''llm.chat''
                           else pp_Vendor params @ ''.chat''),
              span_kind = SpanKindInternal, span_parent = ctx_span ctx,
              span_attrs = recordEach (getTriageAttrs ctx) (LogPrompt_attrs marshal g params),
              span_errors = [], span_status = (StatusUnset, []), span_ended = False\<rparr>])"
  unfolding LogPrompt_def setMessageAttrs_def setToolDefinitionAttrs_def
    if_SetEach case_SetEach Start_eq Let_def prod.case SetEach_twice if_SetEach'
  by (simp add: SetEach_last SetEach_twice LogPrompt_attrs_def request_attrs_def)

section \<open>The SDK lifecycle\<close>

lemma resolveConfig_test_process:
  "resolveConfig test_process opts =
     (let cfg = foldl apply_SDKOption
                  \<lparr>apiKey = [], endpoint = DefaultEndpoint, appName = ''triage.test'',
                    environment = ''development'', enabled = True, traceContent = True\<rparr> opts
      in if apiKey cfg = []
         then Inl (''triage: API key is required. Pass triage.WithAPIKey() to Init() ''
                   @ ''or set the '' @ EnvAPIKey @ '' environment variable'')
         else Inr cfg)"
  by (simp add: resolveConfig_def test_process_def envBool_def defaultAppName_def Let_def)

lemma test_process_errs:
  "otlptracehttp_New_err test_process = None" "resource_Merge_err test_process = None"
  by (simp_all add: test_process_def)

text \<open>
  Claim C8 (lifecycle idempotence). \<open>Init\<close> called while the SDK is initialized returns the
  no-op shutdown function and no error and leaves the state as it is: the provider is not
  replaced and \<open>initialized\<close> stays true; calling the no-op shutdown function changes nothing.
  \<open>Shutdown\<close> on a state that is not initialized, and a second \<open>Shutdown\<close> after a first one,
  return no error and leave the state as it is.
\<close>

theorem lifecycle_idempotent:
  assumes "initialized g"
  shows "Init p opts g = ((noop, None), g)
       \<and> initialized (snd (Init p opts g))
       \<and> provider (snd (Init p opts g)) = provider g
       \<and> otel_TracerProvider (snd (Init p opts g)) = otel_TracerProvider g
       \<and> call_shutdown_func (fst (fst (Init p opts g))) err (snd (Init p opts g)) = g
       \<and> Shutdown err sdk_start = (None, sdk_start)
       \<and> (\<not> initialized g' \<longrightarrow> Shutdown err g' = (None, g'))
       \<and> Shutdown err2 (snd (Shutdown err1 g'')) = (None, snd (Shutdown err1 g''))"
proof -
  have i: "Init p opts g = ((noop, None), g)"
    using assms by (simp add: Init_def)
  have s0: "Shutdown err sdk_start = (None, sdk_start)"
    by (simp add: Shutdown_def sdk_start_def)
  have s1: "\<not> initialized g' \<longrightarrow> Shutdown err g' = (None, g')"
    by (simp add: Shutdown_def)
  have s2: "Shutdown err2 (snd (Shutdown err1 g'')) = (None, snd (Shutdown err1 g''))"
    by (cases "\<not> initialized g'' \<or> provider g'' = None") (simp_all add: Shutdown_def)
  show ?thesis using assms s0 s1 s2 by (simp add: i)
qed

text \<open>
  The theorem at the state the test reaches: \<open>Init(WithAPIKey("tsk_test"))\<close> on the start state
  initializes, and \<open>Init(WithAPIKey("tsk_other"))\<close> after it is the no-op.
\<close>

theorem lifecycle_idempotent_witness:
  "initialized (snd (Init test_process [WithAPIKey ''tsk_test''] sdk_start))
   \<and> fst (Init test_process [WithAPIKey ''tsk_test''] sdk_start) = (shutdown, None)
   \<and> Init test_process [WithAPIKey ''tsk_other'']
         (snd (Init test_process [WithAPIKey ''tsk_test''] sdk_start))
       = ((noop, None), snd (Init test_process [WithAPIKey ''tsk_test''] sdk_start))
   \<and> Shutdown None (snd (Shutdown None (snd (Init test_process [WithAPIKey ''tsk_test''] sdk_start))))
       = (None, snd (Shutdown None (snd (Init test_process [WithAPIKey ''tsk_test''] sdk_start))))"
proof -
  have i: "initialized (snd (Init test_process [WithAPIKey ''tsk_test''] sdk_start))"
    and f: "fst (Init test_process [WithAPIKey ''tsk_test''] sdk_start) = (shutdown, None)"
    by (simp_all add: Init_def resolveConfig_test_process sdk_start_def test_process_errs Let_def)
  show ?thesis
    using lifecycle_idempotent[OF i, of test_process "[WithAPIKey ''tsk_other'']" None
        sdk_start None None "snd (Init test_process [WithAPIKey ''tsk_test''] sdk_start)"] i f
    by simp
qed

text \<open>
  Claim C10 (disabled configuration). When the SDK is not initialized and the configuration
  resolves with \<open>enabled = false\<close>, \<open>Init\<close> returns the no-op shutdown function and no error and
  leaves the state as it is: \<open>initialized\<close> stays false and no provider is stored or
  registered. A following \<open>Init\<close> therefore runs as a first call: with an enabled configuration
  and no exporter or resource error it initializes and returns the real shutdown function.
\<close>

theorem init_disabled_skips:
  assumes "\<not> initialized g"
    and "resolveConfig p opts = Inr cfg"
    and "\<not> enabled cfg"
  shows "Init p opts g = ((noop, None), g)
       \<and> \<not> initialized (snd (Init p opts g))
       \<and> provider (snd (Init p opts g)) = provider g
       \<and> otel_TracerProvider (snd (Init p opts g)) = otel_TracerProvider g
       \<and> Init p' opts' (snd (Init p opts g)) = Init p' opts' g
       \<and> (resolveConfig p' opts' = Inr cfg' \<and> enabled cfg' \<and> otlptracehttp_New_err p' = None
            \<and> resource_Merge_err p' = None \<longrightarrow>
           fst (Init p' opts' (snd (Init p opts g))) = (shutdown, None)
           \<and> initialized (snd (Init p' opts' (snd (Init p opts g))))
           \<and> activeConfig (snd (Init p' opts' (snd (Init p opts g)))) = Some cfg')"
  using assms by (simp add: Init_def Let_def)

text \<open>
  The theorem at the test's calls: \<open>Init(WithAPIKey("tsk_test"), WithEnabled(false))\<close> on the
  start state, where \<open>initialized\<close> is false and \<open>provider\<close> is nil afterwards, followed by
  \<open>Init(WithAPIKey("tsk_test"))\<close>.
\<close>

theorem init_disabled_skips_witness:
  "\<not> initialized sdk_start
   \<and> resolveConfig test_process [WithAPIKey ''tsk_test'', WithEnabled False]
       = Inr \<lparr>apiKey = ''tsk_test'', endpoint = DefaultEndpoint, appName = ''triage.test'',
              environment = ''development'', enabled = False, traceContent = True\<rparr>
   \<and> Init test_process [WithAPIKey ''tsk_test'', WithEnabled False] sdk_start
       = ((noop, None), sdk_start)
   \<and> provider (snd (Init test_process [WithAPIKey ''tsk_test'', WithEnabled False] sdk_start)) = None
   \<and> fst (Init test_process [WithAPIKey ''tsk_test'']
        (snd (Init test_process [WithAPIKey ''tsk_test'', WithEnabled False] sdk_start)))
       = (shutdown, None)
   \<and> initialized (snd (Init test_process [WithAPIKey ''tsk_test'']
        (snd (Init test_process [WithAPIKey ''tsk_test'', WithEnabled False] sdk_start))))"
proof -
  have a: "\<not> initialized sdk_start" by (simp add: sdk_start_def)
  have b: "resolveConfig test_process [WithAPIKey ''tsk_test'', WithEnabled False]
       = Inr \<lparr>apiKey = ''tsk_test'', endpoint = DefaultEndpoint, appName = ''triage.test'',
              environment = ''development'', enabled = False, traceContent = True\<rparr>"
    by (simp add: resolveConfig_test_process Let_def)
  have c: "\<not> enabled \<lparr>apiKey = ''tsk_test'', endpoint = DefaultEndpoint, appName = ''triage.test'',
              environment = ''development'', enabled = False, traceContent = True\<rparr>"
    by simp
  have d: "resolveConfig test_process [WithAPIKey ''tsk_test'']
       = Inr \<lparr>apiKey = ''tsk_test'', endpoint = DefaultEndpoint, appName = ''triage.test'',
              environment = ''development'', enabled = True, traceContent = True\<rparr>"
    by (simp add: resolveConfig_test_process Let_def)
  note e = test_process_errs
  have provider_start: "provider sdk_start = None" by (simp add: sdk_start_def)
  let ?cfg = "\<lparr>apiKey = ''tsk_test'', endpoint = DefaultEndpoint, appName = ''triage.test'',
              environment = ''development'', enabled = True, traceContent = True\<rparr>"
  let ?g = "snd (Init test_process [WithAPIKey ''tsk_test'', WithEnabled False] sdk_start)"
  note main = init_disabled_skips[OF a b c, of test_process "[WithAPIKey ''tsk_test'']" ?cfg]
  have first: "Init test_process [WithAPIKey ''tsk_test'', WithEnabled False] sdk_start
       = ((noop, None), sdk_start)"
    using main by blast
  have pre: "resolveConfig test_process [WithAPIKey ''tsk_test''] = Inr ?cfg \<and> enabled ?cfg
      \<and> otlptracehttp_New_err test_process = None \<and> resource_Merge_err test_process = None"
    using d e by simp
  have second: "fst (Init test_process [WithAPIKey ''tsk_test''] ?g) = (shutdown, None)
      \<and> initialized (snd (Init test_process [WithAPIKey ''tsk_test''] ?g))"
    using main pre by blast
  have prov: "provider ?g = None"
    using first provider_start by simp
  show ?thesis
    using a b first prov second by blast
qed

section \<open>The hierarchy spans\<close>

lemma attrMap_append:
  "attrMap (xs @ ys) k = (case attrMap ys k of Some v \<Rightarrow> Some v | None \<Rightarrow> attrMap xs k)"
  by (simp add: attrMap_def map_add_def split: option.splits)

lemma attrMap_None: "(attrMap kvs k = None) = (k \<notin> fst ` set kvs)"
  by (simp add: attrMap_def map_of_eq_None_iff)

lemma not_triage_key:
  "\<not> prefix ''triage.'' k \<Longrightarrow> k \<notin> fst ` set (getTriageAttrs ctx)"
proof
  assume np: "\<not> prefix ''triage.'' k" and "k \<in> fst ` set (getTriageAttrs ctx)"
  then obtain f where "k = field_key f" using keys_getTriageAttrs by blast
  then have "prefix ''triage.'' k" by (cases f) (simp_all add: triage_keys)
  with np show False by simp
qed

lemma ctx_workflow_run_call: "ctx_workflow (fst (run_call m (ctx, st) c)) = ctx_workflow ctx"
  by (cases c)
     (simp_all add: fst_WithUser fst_WithTenant fst_WithSession fst_WithInput fst_WithTemplate
        fst_WithChunkACLs setInContext_def)

lemma ctx_workflow_derive: "ctx_workflow (fst (derive m mj g gc s c)) = ctx_workflow (fst s)"
proof -
  obtain ctx st where s: "s = (ctx, st)" by (cases s)
  show ?thesis unfolding s
    by (cases c)
       (simp_all add: ctx_workflow_run_call StartTask_eq StartAgent_eq StartTool_eq LogPrompt_eq
          LogPrompt2_eq)
qed

lemma ctx_workflow_descend: "ctx_workflow (fst (descend m mj g gc s cs)) = ctx_workflow (fst s)"
  by (induction cs rule: rev_induct) (simp_all add: descend_def ctx_workflow_derive)

lemma workflow_key_of_task:
  "attrMap (span_attrs (started (snd (StartTask ctx n st)))) ''traceloop.workflow.name''
     = (case ctx_workflow ctx of
          None \<Rightarrow> None
        | Some name \<Rightarrow> if name = [] then None else Some (AString name))"
  using not_triage_key[of "''traceloop.workflow.name''" ctx]
  by (simp add: StartTask_eq started_def attrMap_append attrMap_None[symmetric]
        workflowNameFromContext_def attrMap_def split: option.splits)

lemma workflow_key_of_agent:
  "attrMap (span_attrs (started (snd (StartAgent ctx n st)))) ''traceloop.workflow.name''
     = (case ctx_workflow ctx of
          None \<Rightarrow> None
        | Some name \<Rightarrow> if name = [] then None else Some (AString name))"
  using not_triage_key[of "''traceloop.workflow.name''" ctx]
  by (simp add: StartAgent_eq started_def attrMap_append attrMap_None[symmetric]
        workflowNameFromContext_def attrMap_def split: option.splits)

lemma workflow_key_of_tool:
  "attrMap (span_attrs (started (snd (StartTool ctx n st)))) ''traceloop.workflow.name''
     = (case ctx_workflow ctx of
          None \<Rightarrow> None
        | Some name \<Rightarrow> if name = [] then None else Some (AString name))"
  using not_triage_key[of "''traceloop.workflow.name''" ctx]
  by (simp add: StartTool_eq started_def attrMap_append attrMap_None[symmetric]
        workflowNameFromContext_def attrMap_def split: option.splits)

text \<open>
  Claim C7 (workflow-name inheritance), as amended. \<open>StartWorkflow(name)\<close> stores \<open>name\<close> in the
  context it returns. In a context that descends from it (through helpers, \<open>StartTask\<close>,
  \<open>StartAgent\<close>, \<open>StartTool\<close> and \<open>LogPrompt\<close> calls), \<open>StartTask\<close>, \<open>StartAgent\<close> and
  \<open>StartTool\<close> stamp their span with \<open>traceloop.workflow.name = name\<close> when \<open>name\<close> is not empty,
  and set no such attribute when \<open>name\<close> is the empty string. In a context that carries no
  workflow they set no \<open>traceloop.workflow.name\<close> attribute.
\<close>

theorem workflow_name_inheritance:
  "ctx_workflow (snd (fst (StartWorkflow ctx0 name st0))) = Some name
   \<and> (case descend m mj g gc
              (snd (fst (StartWorkflow ctx0 name st0)), snd (StartWorkflow ctx0 name st0)) cs of
         (ctx, st) \<Rightarrow>
           if name \<noteq> []
           then has_workflow_name (task_span_of ctx n st) name
              \<and> has_workflow_name (agent_span_of ctx n st) name
              \<and> has_workflow_name (tool_span_of ctx n st) name
           else has_no_workflow_name (task_span_of ctx n st)
              \<and> has_no_workflow_name (agent_span_of ctx n st)
              \<and> has_no_workflow_name (tool_span_of ctx n st))
   \<and> (ctx_workflow ctx' = None \<longrightarrow>
          has_no_workflow_name (task_span_of ctx' n' st')
        \<and> has_no_workflow_name (agent_span_of ctx' n' st')
        \<and> has_no_workflow_name (tool_span_of ctx' n' st'))"
proof -
  let ?s = "(snd (fst (StartWorkflow ctx0 name st0)), snd (StartWorkflow ctx0 name st0))"
  have stored: "ctx_workflow (snd (fst (StartWorkflow ctx0 name st0))) = Some name"
    by (simp add: StartWorkflow_eq)
  have kept: "ctx_workflow (fst (descend m mj g gc ?s cs)) = Some name"
    using stored by (simp add: ctx_workflow_descend)
  have none: "has_no_workflow_name sp = (attrMap (span_attrs sp) ''traceloop.workflow.name'' = None)"
    for sp
    by (simp add: has_no_workflow_name_def attrMap_None)
  have inherit: "if name \<noteq> []
           then has_workflow_name (task_span_of ctx n st) name
              \<and> has_workflow_name (agent_span_of ctx n st) name
              \<and> has_workflow_name (tool_span_of ctx n st) name
           else has_no_workflow_name (task_span_of ctx n st)
              \<and> has_no_workflow_name (agent_span_of ctx n st)
              \<and> has_no_workflow_name (tool_span_of ctx n st)"
    if "ctx_workflow ctx = Some name" for ctx st
    using that
    by (simp add: none has_workflow_name_def task_span_of_def agent_span_of_def tool_span_of_def
          workflow_key_of_task workflow_key_of_agent workflow_key_of_tool)
  have absent: "has_no_workflow_name (task_span_of ctx' n' st')
        \<and> has_no_workflow_name (agent_span_of ctx' n' st')
        \<and> has_no_workflow_name (tool_span_of ctx' n' st')"
    if "ctx_workflow ctx' = None"
    using that
    by (simp add: none task_span_of_def agent_span_of_def tool_span_of_def
          workflow_key_of_task workflow_key_of_agent workflow_key_of_tool)
  obtain ctx st where d: "descend m mj g gc ?s cs = (ctx, st)"
    by (cases "descend m mj g gc ?s cs")
  have "ctx_workflow ctx = Some name" using kept d by simp
  from inherit[OF this] stored absent show ?thesis
    unfolding d by simp
qed

text \<open>
  The theorem at the scenario: \<open>StartWorkflow("wf")\<close>, then \<open>WithUser\<close> and \<open>StartAgent\<close> from
  its context, then \<open>StartTask("t1")\<close>, whose span has \<open>traceloop.workflow.name = "wf"\<close>; and
  \<open>StartTask("t2")\<close> from the background context, whose span has no such attribute.
\<close>

theorem workflow_name_inheritance_witness:
  "ctx_workflow Background = None
   \<and> has_workflow_name
        (task_span_of
           (fst (descend Some Some sdk_start None
                   (snd (fst (StartWorkflow Background ''wf'' [])),
                    snd (StartWorkflow Background ''wf'' []))
                   [CallHelper (CallWithUser ''u1'' []), CallStartAgent ''a1'']))
           ''t1''
           (snd (descend Some Some sdk_start None
                   (snd (fst (StartWorkflow Background ''wf'' [])),
                    snd (StartWorkflow Background ''wf'' []))
                   [CallHelper (CallWithUser ''u1'' []), CallStartAgent ''a1''])))
        ''wf''
   \<and> has_no_workflow_name (task_span_of Background ''t2'' [])"
proof -
  have b: "ctx_workflow Background = None" by (simp add: Background_def)
  show ?thesis
    using workflow_name_inheritance[where ?ctx0.0 = Background and name = "''wf''"
        and ?st0.0 = "[]" and m = Some and mj = Some and g = sdk_start and gc = None
        and cs = "[CallHelper (CallWithUser ''u1'' []), CallStartAgent ''a1'']" and n = "''t1''"
        and ctx' = Background and n' = "''t2''" and st' = "[]"] b
    by (simp add: case_prod_beta)
qed

text \<open>
  The claim as it was stated fails for a workflow whose name is the empty string: the name is
  stored, and the task span started from the workflow's context carries no
  \<open>traceloop.workflow.name\<close> attribute equal to it.
\<close>

theorem workflow_name_inheritance_counterexample:
  "ctx_workflow (snd (fst (StartWorkflow Background [] []))) = Some []
   \<and> \<not> has_workflow_name
         (task_span_of (snd (fst (StartWorkflow Background [] []))) ''t1''
            (snd (StartWorkflow Background [] []))) []"
proof -
  have s: "ctx_workflow (snd (fst (StartWorkflow Background [] []))) = Some []"
    by (simp add: StartWorkflow_eq)
  have "attrMap (span_attrs (started (snd (StartTask (snd (fst (StartWorkflow Background [] [])))
          ''t1'' (snd (StartWorkflow Background [] [])))))) ''traceloop.workflow.name'' = None"
    by (simp add: workflow_key_of_task s)
  then show ?thesis using s by (simp add: has_workflow_name_def task_span_of_def)
qed

section \<open>The LLM call span\<close>

lemma EndSpan_last:
  "\<not> span_ended sp \<Longrightarrow> EndSpan (length st) (st @ [sp]) = st @ [sp\<lparr>span_ended := True\<rparr>]"
  by (simp add: EndSpan_def)

lemma LogCompletion_eq:
  "LogCompletion g (Some \<lparr>llm_span = Some i\<rparr>) params st
     = Inr (EndSpan i (SetEach i (LogCompletion_attrs g params) st))"
  unfolding LogCompletion_def setMessageAttrs_def if_SetEach if_SetEach' Let_def SetEach_twice
  by (simp add: LogCompletion_attrs_def response_attrs_def usage_attr_def)

lemma llm_call_eq:
  "llm_call marshal g ctx params completion st =
     Inr \<lparr>span_name = (if pp_Vendor params = [] then ''llm.chat'' else pp_Vendor params @ ''.chat''),
          span_kind = SpanKindInternal, span_parent = ctx_span ctx,
          span_attrs = recordEach (getTriageAttrs ctx)
                         (LogPrompt_attrs marshal g params @ LogCompletion_attrs g completion),
          span_errors = [], span_status = (StatusUnset, []), span_ended = True\<rparr>"
  by (simp add: llm_call_def LogPrompt_eq LogCompletion_eq SetEach_last EndSpan_last
        started_def recordEach_append)

lemma llm_call2_eq:
  "llm_call2 marshal gc ctx prompt completion usage st =
     \<lparr>span_name = LogPrompt2_spanName prompt, span_kind = SpanKindClient,
      span_parent = ctx_span ctx,
      span_attrs = recordAttrs (recordAttrs (getTriageAttrs ctx) (LogPrompt2_attrs marshal gc prompt))
                     (LogCompletion2_attrs gc completion usage),
      span_errors = [], span_status = (StatusUnset, []), span_ended = True\<rparr>"
  by (simp add: llm_call2_def LogPrompt2_eq LogCompletion2_def Let_def SetAttributes_last
        EndSpan_last started_def)

text \<open>When the attributes of the call fit the span, the span holds them all, in order.\<close>

lemma llm_call_fits:
  assumes "fits (getTriageAttrs ctx @ LogPrompt_attrs marshal g params
                   @ LogCompletion_attrs g completion)"
  shows "llm_call marshal g ctx params completion st =
     Inr \<lparr>span_name = (if pp_Vendor params = [] then ''llm.chat'' else pp_Vendor params @ ''.chat''),
          span_kind = SpanKindInternal, span_parent = ctx_span ctx,
          span_attrs = getTriageAttrs ctx @ LogPrompt_attrs marshal g params
                       @ LogCompletion_attrs g completion,
          span_errors = [], span_status = (StatusUnset, []), span_ended = True\<rparr>"
  using assms by (simp add: llm_call_eq fits_def recordEach_fits)

lemma llm_call2_fits:
  assumes "fits (getTriageAttrs ctx @ LogPrompt2_attrs marshal gc prompt
                   @ LogCompletion2_attrs gc completion usage)"
  shows "llm_call2 marshal gc ctx prompt completion usage st =
     \<lparr>span_name = LogPrompt2_spanName prompt, span_kind = SpanKindClient,
      span_parent = ctx_span ctx,
      span_attrs = getTriageAttrs ctx @ LogPrompt2_attrs marshal gc prompt
                   @ LogCompletion2_attrs gc completion usage,
      span_errors = [], span_status = (StatusUnset, []), span_ended = True\<rparr>"
  using assms by (simp add: llm_call2_eq fits_def recordAttrs_fits)

text \<open>Whether they fit or not, the span holds no attribute but theirs.\<close>

lemma llm_call_subset:
  "\<exists>sp. llm_call marshal g ctx params completion st = Inr sp
      \<and> set (span_attrs sp)
          \<subseteq> set (getTriageAttrs ctx @ LogPrompt_attrs marshal g params
                   @ LogCompletion_attrs g completion)"
  using set_recordEach[of "getTriageAttrs ctx"
      "LogPrompt_attrs marshal g params @ LogCompletion_attrs g completion"]
  by (simp add: llm_call_eq)

lemma llm_call2_subset:
  "set (span_attrs (llm_call2 marshal gc ctx prompt completion usage st))
     \<subseteq> set (getTriageAttrs ctx @ LogPrompt2_attrs marshal gc prompt
              @ LogCompletion2_attrs gc completion usage)"
  using set_recordAttrs[of "recordAttrs (getTriageAttrs ctx) (LogPrompt2_attrs marshal gc prompt)"
      "LogCompletion2_attrs gc completion usage"]
    set_recordAttrs[of "getTriageAttrs ctx" "LogPrompt2_attrs marshal gc prompt"]
  by (auto simp: llm_call2_eq)

subsection \<open>Where the keys of the loops lie\<close>

lemma keys_toolCallAttrs: "(k, v) \<in> set (toolCallAttrs p x) \<Longrightarrow> prefix p k"
  by (cases x) (auto simp: toolCallAttrs_def Let_def split: if_splits)

lemma keys_messageAttrs: "(k, v) \<in> set (messageAttrs pfx x) \<Longrightarrow> prefix (pfx @ ''.'') k"
proof (cases x)
  case (Pair i msg)
  assume k: "(k, v) \<in> set (messageAttrs pfx x)"
  let ?p = "pfx @ ''.'' @ show_nat i"
  have pp: "prefix (pfx @ ''.'') ?p" by simp
  from k Pair consider "k = ?p @ ''.role''" | "k = ?p @ ''.content''"
    | "(k, v) \<in> set (concat (map (toolCallAttrs ?p) (enumerate 0 (msg_ToolCalls msg))))"
    by (auto simp: messageAttrs_def Let_def split: if_splits)
  then show ?thesis
  proof cases
    case 3
    then have "prefix ?p k" by (auto dest: keys_toolCallAttrs)
    with pp show ?thesis by (rule prefix_order.trans)
  qed simp_all
qed

lemma keys_messages:
  "kv \<in> set (concat (map (messageAttrs pfx) xs)) \<Longrightarrow> prefix (pfx @ ''.'') (fst kv)"
  by (cases kv) (auto dest: keys_messageAttrs)

lemma keys_toolDefinitionAttrs:
  "(k, v) \<in> set (toolDefinitionAttrs marshal x) \<Longrightarrow> tools_key k"
  by (cases x) (auto simp: toolDefinitionAttrs_def tools_key_def Let_def split: if_splits option.splits)

lemma keys_toolDefinitions:
  "kv \<in> set (concat (map (toolDefinitionAttrs marshal) xs)) \<Longrightarrow> tools_key (fst kv)"
  by (cases kv) (auto dest: keys_toolDefinitionAttrs)

lemma keys_toolCallAttrs2: "(k, v) \<in> set (toolCallAttrs2 p x) \<Longrightarrow> prefix p k"
  by (cases x) (auto simp: toolCallAttrs2_def Let_def)

lemma keys_promptMessageAttrs:
  "(k, v) \<in> set (promptMessageAttrs x) \<Longrightarrow> prefix ''gen_ai.prompt.'' k"
proof (cases x)
  case (Pair i msg)
  assume k: "(k, v) \<in> set (promptMessageAttrs x)"
  let ?p = "''gen_ai.prompt.'' @ show_nat i"
  have pp: "prefix ''gen_ai.prompt.'' ?p" by (rule prefixI) simp
  from k Pair consider "k = ?p @ ''.role''" | "k = ?p @ ''.content''"
    | "k = ?p @ ''.tool_call_id''"
    | "(k, v) \<in> set (concat (map (toolCallAttrs2 ?p) (enumerate 0 (m2_ToolCalls msg))))"
    by (auto simp: promptMessageAttrs_def Let_def split: if_splits)
  then show ?thesis
  proof cases
    case 4
    then have "prefix ?p k" by (auto dest: keys_toolCallAttrs2)
    with pp show ?thesis by (rule prefix_order.trans)
  qed (auto intro: prefixI)
qed

lemma keys_completionMessageAttrs:
  "(k, v) \<in> set (completionMessageAttrs x) \<Longrightarrow> prefix ''gen_ai.completion.'' k"
proof (cases x)
  case (Pair i msg)
  assume k: "(k, v) \<in> set (completionMessageAttrs x)"
  let ?p = "''gen_ai.completion.'' @ show_nat i"
  have pp: "prefix ''gen_ai.completion.'' ?p" by (rule prefixI) simp
  from k Pair consider "k = ?p @ ''.role''" | "k = ?p @ ''.content''"
    | "(k, v) \<in> set (concat (map (toolCallAttrs2 ?p) (enumerate 0 (m2_ToolCalls msg))))"
    by (auto simp: completionMessageAttrs_def Let_def split: if_splits)
  then show ?thesis
  proof cases
    case 3
    then have "prefix ?p k" by (auto dest: keys_toolCallAttrs2)
    with pp show ?thesis by (rule prefix_order.trans)
  qed (auto intro: prefixI)
qed

lemma keys_toolDefAttrs: "(k, v) \<in> set (toolDefAttrs marshal x) \<Longrightarrow> tool_key k"
  by (cases x)
     (auto simp: toolDefAttrs_def tool_key_def Let_def intro: prefixI split: if_splits option.splits)

lemma keys_promptMessages:
  "kv \<in> set (concat (map promptMessageAttrs xs)) \<Longrightarrow> prefix ''gen_ai.prompt.'' (fst kv)"
  by (cases kv) (auto dest: keys_promptMessageAttrs)

lemma keys_completionMessages:
  "kv \<in> set (concat (map completionMessageAttrs xs)) \<Longrightarrow> prefix ''gen_ai.completion.'' (fst kv)"
  by (cases kv) (auto dest: keys_completionMessageAttrs)

lemma keys_toolDefs:
  "kv \<in> set (concat (map (toolDefAttrs marshal) xs)) \<Longrightarrow> tool_key (fst kv)"
  by (cases kv) (auto dest: keys_toolDefAttrs)

subsection \<open>The parts of the attribute lists\<close>

lemma LogPrompt2_attrs_parts:
  "LogPrompt2_attrs marshal gc prompt =
     request_attrs2 prompt
     @ (if isTraceContentEnabled gc
        then concat (map promptMessageAttrs (enumerate 0 (p_Messages prompt))) else [])
     @ concat (map (toolDefAttrs marshal) (enumerate 0 (p_Tools prompt)))"
  by (simp add: LogPrompt2_attrs_def request_attrs2_def Let_def)

lemma LogCompletion2_attrs_parts:
  "LogCompletion2_attrs gc completion usage =
     response_attrs2 completion usage
     @ (if isTraceContentEnabled gc
        then concat (map completionMessageAttrs (enumerate 0 (c_Messages completion))) else [])"
  by (simp add: LogCompletion2_attrs_def response_attrs2_def Let_def)

lemmas genai_keys = AttrGenAISystem_def AttrGenAIRequestModel_def AttrGenAIResponseModel_def
  AttrGenAIRequestTemperature_def AttrGenAIRequestTopP_def AttrGenAIRequestMaxTokens_def
  AttrGenAIRequestStopSequences_def AttrGenAIUsageInputTokens_def AttrGenAIUsageOutputTokens_def
  AttrGenAIUsageTotalTokens_def AttrGenAIUsageReasoningTokens_def
  AttrGenAIUsageCacheReadTokens_def AttrGenAIUsageCacheWriteTokens_def
  AttrGenAIResponseFinishReason_def

lemma keys_triage: "kv \<in> set (getTriageAttrs ctx) \<Longrightarrow> prefix ''triage.'' (fst kv)"
proof -
  assume "kv \<in> set (getTriageAttrs ctx)"
  then have "fst kv \<in> fst ` set (getTriageAttrs ctx)" by simp
  then obtain f where "fst kv = field_key f" using keys_getTriageAttrs by blast
  then show ?thesis by (cases f) (simp_all add: triage_keys)
qed

lemma triage_not_content:
  "prefix ''triage.'' k \<Longrightarrow> \<not> message_key k \<and> \<not> tools_key k \<and> \<not> tool_key k \<and> \<not> prefix ''llm.'' k"
  by (auto simp: message_key_def tools_key_def tool_key_def prefix_def)

lemma message_not_tools:
  "message_key k \<Longrightarrow> \<not> tools_key k \<and> \<not> tool_key k \<and> \<not> prefix ''llm.'' k \<and> \<not> prefix ''triage.'' k"
  by (auto simp: message_key_def tools_key_def tool_key_def prefix_def)

lemma tools_not_message:
  "tools_key k \<or> tool_key k \<Longrightarrow> \<not> message_key k \<and> \<not> prefix ''llm.'' k \<and> \<not> prefix ''triage.'' k"
  by (auto simp: message_key_def tools_key_def tool_key_def prefix_def)

lemma keys_usage_attr: "kv \<in> set (usage_attr k n) \<Longrightarrow> kv = (k, AInt n) \<and> 0 < n"
  by (auto simp: usage_attr_def split: if_splits)

lemma keys_request_attrs:
  "kv \<in> set (request_attrs params) \<Longrightarrow> plain_key (fst kv) \<and> prefix ''gen_ai.'' (fst kv)"
  unfolding request_attrs_def set_append Un_iff
  by (elim disjE)
     (auto simp: plain_key_def message_key_def tools_key_def tool_key_def genai_keys
        split: if_splits option.splits)

lemma keys_response_attrs:
  "kv \<in> set (response_attrs params) \<Longrightarrow> plain_key (fst kv) \<and> prefix ''gen_ai.'' (fst kv)"
  unfolding response_attrs_def set_append Un_iff
  by (elim disjE)
     (auto simp: plain_key_def message_key_def tools_key_def tool_key_def genai_keys
        dest!: keys_usage_attr split: if_splits)

lemma keys_request_attrs2: "kv \<in> set (request_attrs2 prompt) \<Longrightarrow> plain_key (fst kv)"
  unfolding request_attrs2_def set_append Un_iff
  by (elim disjE)
     (auto simp: plain_key_def message_key_def tools_key_def tool_key_def
        split: if_splits option.splits)

lemma keys_response_attrs2: "kv \<in> set (response_attrs2 completion usage) \<Longrightarrow> plain_key (fst kv)"
  unfolding response_attrs2_def set_append Un_iff
  by (elim disjE)
     (auto simp: plain_key_def message_key_def tools_key_def tool_key_def split: if_splits)

lemma keys_prompt_messages:
  "kv \<in> set (concat (map (messageAttrs ''gen_ai.prompt'') xs)) \<Longrightarrow> message_key (fst kv)"
  using keys_messages[of kv "''gen_ai.prompt''" xs] by (simp add: message_key_def)

lemma keys_completion_messages:
  "kv \<in> set (concat (map (messageAttrs ''gen_ai.completion'') xs)) \<Longrightarrow> message_key (fst kv)"
  using keys_messages[of kv "''gen_ai.completion''" xs] by (simp add: message_key_def)

lemma keys_promptMessages':
  "kv \<in> set (concat (map promptMessageAttrs xs)) \<Longrightarrow> message_key (fst kv)"
  using keys_promptMessages[of kv xs] by (simp add: message_key_def)

lemma keys_completionMessages':
  "kv \<in> set (concat (map completionMessageAttrs xs)) \<Longrightarrow> message_key (fst kv)"
  using keys_completionMessages[of kv xs] by (simp add: message_key_def)

lemma filter_all: "(\<And>x. x \<in> set xs \<Longrightarrow> P x) \<Longrightarrow> filter P xs = xs"
  by (simp add: filter_id_conv)

lemma filter_none: "(\<And>x. x \<in> set xs \<Longrightarrow> \<not> P x) \<Longrightarrow> filter P xs = []"
  by (simp add: filter_empty_conv)

subsection \<open>Content visibility\<close>

lemma list_all_filter: "list_all P (filter P xs)"
  by (induction xs) auto

lemma off_filter:
  assumes "\<not> shouldTraceContent g"
  shows "getTriageAttrs ctx @ LogPrompt_attrs marshal g params @ LogCompletion_attrs g completion
       = filter (\<lambda>kv. \<not> message_key (fst kv) \<and> \<not> tools_key (fst kv))
           (getTriageAttrs ctx @ LogPrompt_attrs marshal g' params @ LogCompletion_attrs g' completion)"
proof -
  let ?P = "\<lambda>kv. \<not> message_key (fst kv) \<and> \<not> tools_key (fst kv)"
  have t: "filter ?P (getTriageAttrs ctx) = getTriageAttrs ctx"
    by (rule filter_all) (use keys_triage triage_not_content in blast)
  have r: "filter ?P (request_attrs params) = request_attrs params"
    by (rule filter_all) (use keys_request_attrs plain_key_def in blast)
  have c: "filter ?P (response_attrs completion) = response_attrs completion"
    by (rule filter_all) (use keys_response_attrs plain_key_def in blast)
  have m: "filter ?P (concat (map (messageAttrs ''gen_ai.prompt'') xs)) = []" for xs
    by (rule filter_none) (use keys_prompt_messages in blast)
  have m': "filter ?P (concat (map (messageAttrs ''gen_ai.completion'') xs)) = []" for xs
    by (rule filter_none) (use keys_completion_messages in blast)
  have d: "filter ?P (concat (map (toolDefinitionAttrs marshal) xs)) = []" for xs
    by (rule filter_none) (use keys_toolDefinitions in blast)
  show ?thesis
    using assms
    by (simp add: LogPrompt_attrs_def LogCompletion_attrs_def t r c m m' d)
qed

lemma off_filter2:
  assumes "\<not> isTraceContentEnabled gc"
  shows "getTriageAttrs ctx @ LogPrompt2_attrs marshal gc prompt
           @ LogCompletion2_attrs gc completion usage
       = filter (\<lambda>kv. \<not> message_key (fst kv))
           (getTriageAttrs ctx @ LogPrompt2_attrs marshal gc' prompt
              @ LogCompletion2_attrs gc' completion usage)"
proof -
  let ?P = "\<lambda>kv. \<not> message_key (fst kv)"
  have t: "filter ?P (getTriageAttrs ctx) = getTriageAttrs ctx"
    by (rule filter_all) (use keys_triage triage_not_content in blast)
  have r: "filter ?P (request_attrs2 prompt) = request_attrs2 prompt"
    by (rule filter_all) (use keys_request_attrs2 plain_key_def in blast)
  have c: "filter ?P (response_attrs2 completion usage) = response_attrs2 completion usage"
    by (rule filter_all) (use keys_response_attrs2 plain_key_def in blast)
  have m: "filter ?P (concat (map promptMessageAttrs xs)) = []" for xs
    by (rule filter_none) (use keys_promptMessages' in blast)
  have m': "filter ?P (concat (map completionMessageAttrs xs)) = []" for xs
    by (rule filter_none) (use keys_completionMessages' in blast)
  have d: "filter ?P (concat (map (toolDefAttrs marshal) xs)) = concat (map (toolDefAttrs marshal) xs)"
    for xs
    by (rule filter_all) (use keys_toolDefs tools_not_message in blast)
  show ?thesis
    using assms
    by (simp add: LogPrompt2_attrs_parts LogCompletion2_attrs_parts t r c m m' d)
qed

lemma getTriageAttrs_Background: "getTriageAttrs Background = []"
  by (simp add: getTriageAttrs_flat' Let_def get_bg triageContext_zero_def opt_attr_def
        turn_attr_def)

lemma show_nat_0: "show_nat 0 = ''0''"
  by code_simp

lemma ctx_span_Background: "ctx_span Background = None"
  by (simp add: Background_def)

lemmas scenario_defs = scenario_params_def scenario_completion_def scenario_prompt_def
  scenario_completion2_def scenario_usage2_def secret_tool_def secret_tool2_def content_off_def
  sdk_content_off_def sdk_start_def

lemmas attrs_defs = LogPrompt_attrs_def LogCompletion_attrs_def request_attrs_def
  response_attrs_def usage_attr_def messageAttrs_def toolCallAttrs_def toolDefinitionAttrs_def
  LogPrompt2_attrs_parts LogCompletion2_attrs_parts request_attrs2_def response_attrs2_def
  promptMessageAttrs_def completionMessageAttrs_def toolCallAttrs2_def toolDefAttrs_def
  shouldTraceContent_def isTraceContentEnabled_def LogPrompt2_spanName_def

lemma length_usage_attr: "length (usage_attr k n) \<le> 1"
  by (simp add: usage_attr_def)

lemma length_request_attrs: "length (request_attrs params) \<le> 6"
  by (simp add: request_attrs_def split: option.splits)

lemma length_response_attrs: "length (response_attrs completion) \<le> 8"
proof -
  have "length (usage_attr k n) \<le> 1" for k n by (rule length_usage_attr)
  note u = this
  show ?thesis
    unfolding response_attrs_def length_append
    using u[of AttrGenAIUsageInputTokens "InputTokens (cp_Usage completion)"]
      u[of AttrGenAIUsageOutputTokens "OutputTokens (cp_Usage completion)"]
      u[of AttrGenAIUsageTotalTokens "TotalTokens (cp_Usage completion)"]
      u[of AttrGenAIUsageReasoningTokens "ReasoningTokens (cp_Usage completion)"]
      u[of AttrGenAIUsageCacheReadTokens "CacheReadTokens (cp_Usage completion)"]
      u[of AttrGenAIUsageCacheWriteTokens "CacheWriteTokens (cp_Usage completion)"]
    by (simp split: if_splits)
qed

text \<open>
  With the policy disabled a call of the \<open>PromptParams\<close> interface sets at most 26 attributes,
  so its span drops none.
\<close>

lemma fits_off:
  assumes "\<not> shouldTraceContent g"
  shows "fits (getTriageAttrs ctx @ LogPrompt_attrs marshal g params
                 @ LogCompletion_attrs g completion)"
  using assms length_getTriageAttrs[of ctx] length_request_attrs[of params]
    length_response_attrs[of completion]
  by (simp add: fits_def AttributeCountLimit_def LogPrompt_attrs_def LogCompletion_attrs_def)

lemma fits_filter: "fits xs \<Longrightarrow> fits (filter P xs)"
  unfolding fits_def by (rule le_trans[OF length_filter_le])

lemma list_all_subset: "list_all P xs \<Longrightarrow> set ys \<subseteq> set xs \<Longrightarrow> list_all P ys"
  by (auto simp: list_all_iff)

text \<open>
  Claim C3 (content-visibility gating), as amended. With \<open>traceContent\<close> disabled, the span of
  an LLM call carries no message attribute (role, content, tool calls) and, in the
  \<open>PromptParams\<close> interface, no tool definition: there the span carries exactly the context,
  vendor, model, request and usage attributes. Where the attributes of the call under another
  configuration fit the span (at most \<open>AttributeCountLimit = 128\<close> of them; beyond the limit
  the span drops attributes), the span of the disabled call carries the attributes of that
  call except the message attributes and, in the \<open>PromptParams\<close> interface, the tool
  definitions: vendor, model and usage attributes are recorded as before. Under the same
  condition the \<open>Prompt\<close> interface records the tool definitions whatever the policy; the
  \<open>PromptParams\<close> interface records them only when the policy is enabled.
\<close>

theorem content_visibility_gating:
  assumes "\<not> shouldTraceContent g"
    and "\<not> isTraceContentEnabled gc"
  shows "(\<exists>sp. llm_call marshal g ctx params completion st = Inr sp
            \<and> span_attrs sp
                = getTriageAttrs ctx @ request_attrs params @ response_attrs completion
            \<and> list_all (\<lambda>kv. \<not> message_key (fst kv) \<and> \<not> tools_key (fst kv)) (span_attrs sp)
            \<and> (fits (getTriageAttrs ctx @ LogPrompt_attrs marshal g' params
                       @ LogCompletion_attrs g' completion) \<longrightarrow>
                 (\<exists>sp'. llm_call marshal g' ctx params completion st = Inr sp'
                    \<and> span_attrs sp
                        = filter (\<lambda>kv. \<not> message_key (fst kv) \<and> \<not> tools_key (fst kv))
                            (span_attrs sp')
                    \<and> (shouldTraceContent g' \<longrightarrow>
                         set (concat (map (toolDefinitionAttrs marshal)
                                (enumerate 0 (pp_Tools params))))
                           \<subseteq> set (span_attrs sp')))))
       \<and> list_all (\<lambda>kv. \<not> message_key (fst kv))
           (span_attrs (llm_call2 marshal gc ctx prompt completion2 usage st))
       \<and> (fits (getTriageAttrs ctx @ LogPrompt2_attrs marshal gc' prompt
                  @ LogCompletion2_attrs gc' completion2 usage) \<longrightarrow>
            span_attrs (llm_call2 marshal gc ctx prompt completion2 usage st)
              = filter (\<lambda>kv. \<not> message_key (fst kv))
                  (span_attrs (llm_call2 marshal gc' ctx prompt completion2 usage st))
            \<and> set (concat (map (toolDefAttrs marshal) (enumerate 0 (p_Tools prompt))))
                \<subseteq> set (span_attrs (llm_call2 marshal gc' ctx prompt completion2 usage st)))"
proof -
  let ?P = "\<lambda>kv. \<not> message_key (fst kv) \<and> \<not> tools_key (fst kv)"
  let ?off = "getTriageAttrs ctx @ LogPrompt_attrs marshal g params @ LogCompletion_attrs g completion"
  let ?on = "getTriageAttrs ctx @ LogPrompt_attrs marshal g' params
      @ LogCompletion_attrs g' completion"
  have f: "?off = filter ?P ?on"
    using assms(1) by (rule off_filter)
  have f0: "?off = filter ?P ?off"
    using assms(1) by (rule off_filter)
  have a: "list_all ?P ?off"
    by (subst f0) (rule list_all_filter)
  have e: "?off = getTriageAttrs ctx @ request_attrs params @ response_attrs completion"
    using assms(1) by (simp add: LogPrompt_attrs_def LogCompletion_attrs_def)
  have tl: "shouldTraceContent g' \<longrightarrow>
      set (concat (map (toolDefinitionAttrs marshal) (enumerate 0 (pp_Tools params))))
        \<subseteq> set ?on"
    by (auto simp: LogPrompt_attrs_def)
  have c1: "llm_call marshal g ctx params completion st =
     Inr \<lparr>span_name = (if pp_Vendor params = [] then ''llm.chat'' else pp_Vendor params @ ''.chat''),
          span_kind = SpanKindInternal, span_parent = ctx_span ctx,
          span_attrs = ?off,
          span_errors = [], span_status = (StatusUnset, []), span_ended = True\<rparr>"
    using assms(1) by (intro llm_call_fits fits_off)
  have first: "\<exists>sp. llm_call marshal g ctx params completion st = Inr sp
            \<and> span_attrs sp
                = getTriageAttrs ctx @ request_attrs params @ response_attrs completion
            \<and> list_all ?P (span_attrs sp)
            \<and> (fits ?on \<longrightarrow>
                 (\<exists>sp'. llm_call marshal g' ctx params completion st = Inr sp'
                    \<and> span_attrs sp = filter ?P (span_attrs sp')
                    \<and> (shouldTraceContent g' \<longrightarrow>
                         set (concat (map (toolDefinitionAttrs marshal)
                                (enumerate 0 (pp_Tools params))))
                           \<subseteq> set (span_attrs sp'))))"
  proof (cases "fits ?on")
    case True
    from llm_call_fits[OF True] show ?thesis
      unfolding c1 using a e f tl by simp
  next
    case False
    then show ?thesis
      unfolding c1 using a e by simp
  qed
  let ?Q = "\<lambda>kv. \<not> message_key (fst kv)"
  let ?off2 = "getTriageAttrs ctx @ LogPrompt2_attrs marshal gc prompt
      @ LogCompletion2_attrs gc completion2 usage"
  let ?on2 = "getTriageAttrs ctx @ LogPrompt2_attrs marshal gc' prompt
      @ LogCompletion2_attrs gc' completion2 usage"
  have f2: "?off2 = filter ?Q ?on2"
    using assms(2) by (rule off_filter2)
  have f3: "?off2 = filter ?Q ?off2"
    using assms(2) by (rule off_filter2)
  have a2: "list_all ?Q ?off2"
    by (subst f3) (rule list_all_filter)
  have second: "list_all ?Q (span_attrs (llm_call2 marshal gc ctx prompt completion2 usage st))"
    using a2 llm_call2_subset by (rule list_all_subset)
  have tl2: "set (concat (map (toolDefAttrs marshal) (enumerate 0 (p_Tools prompt))))
      \<subseteq> set ?on2"
    by (auto simp: LogPrompt2_attrs_parts)
  have third: "span_attrs (llm_call2 marshal gc ctx prompt completion2 usage st)
              = filter ?Q (span_attrs (llm_call2 marshal gc' ctx prompt completion2 usage st))
            \<and> set (concat (map (toolDefAttrs marshal) (enumerate 0 (p_Tools prompt))))
                \<subseteq> set (span_attrs (llm_call2 marshal gc' ctx prompt completion2 usage st))"
    if on: "fits ?on2"
  proof -
    have "fits (filter ?Q ?on2)" using on by (rule fits_filter)
    then have off: "fits ?off2" using f2 by simp
    show ?thesis
      unfolding llm_call2_fits[OF on] llm_call2_fits[OF off]
      using f2 tl2 by simp
  qed
  from first second third show ?thesis by blast
qed

text \<open>
  The theorem at the scenario with one tool definition and \<open>traceContent = false\<close>: the
  attributes fit the span; in the \<open>PromptParams\<close> interface the span of the disabled call
  carries the attributes of the enabled call less the messages and the tool definition, which
  the enabled call records; in the \<open>Prompt\<close> interface the span carries vendor, model, usage
  and the tool definition, and no message attribute.
\<close>

theorem content_visibility_gating_witness:
  "\<not> shouldTraceContent sdk_content_off
   \<and> \<not> isTraceContentEnabled (Some content_off)
   \<and> fits (getTriageAttrs Background
        @ LogPrompt_attrs Some sdk_start (scenario_params\<lparr>pp_Tools := [secret_tool]\<rparr>)
        @ LogCompletion_attrs sdk_start scenario_completion)
   \<and> shouldTraceContent sdk_start
   \<and> fits (getTriageAttrs Background
        @ LogPrompt2_attrs Some None (scenario_prompt\<lparr>p_Tools := [secret_tool2]\<rparr>)
        @ LogCompletion2_attrs None scenario_completion2 scenario_usage2)
   \<and> (\<exists>sp sp'.
         llm_call Some sdk_content_off Background (scenario_params\<lparr>pp_Tools := [secret_tool]\<rparr>)
           scenario_completion [] = Inr sp
         \<and> llm_call Some sdk_start Background (scenario_params\<lparr>pp_Tools := [secret_tool]\<rparr>)
             scenario_completion [] = Inr sp'
         \<and> span_attrs sp
             = filter (\<lambda>kv. \<not> message_key (fst kv) \<and> \<not> tools_key (fst kv)) (span_attrs sp')
         \<and> set (concat (map (toolDefinitionAttrs Some)
                  (enumerate 0 (pp_Tools (scenario_params\<lparr>pp_Tools := [secret_tool]\<rparr>)))))
             \<subseteq> set (span_attrs sp'))
   \<and> span_attrs (llm_call2 Some (Some content_off) Background
        (scenario_prompt\<lparr>p_Tools := [secret_tool2]\<rparr>) scenario_completion2 scenario_usage2 [])
      = filter (\<lambda>kv. \<not> message_key (fst kv))
          (span_attrs (llm_call2 Some None Background
             (scenario_prompt\<lparr>p_Tools := [secret_tool2]\<rparr>) scenario_completion2 scenario_usage2 []))
   \<and> span_attrs (llm_call2 Some (Some content_off) Background
        (scenario_prompt\<lparr>p_Tools := [secret_tool2]\<rparr>) scenario_completion2 scenario_usage2 [])
      = [(''gen_ai.system'', AString ''openai''), (''gen_ai.request.model'', AString ''gpt-4o''),
         (''llm.vendor'', AString ''openai''), (''llm.request.model'', AString ''gpt-4o''),
         (''llm.request.type'', AString ''chat''),
         (''gen_ai.request.tool.0.type'', AString ''function''),
         (''gen_ai.request.tool.0.function.name'', AString ''secret_tool''),
         (''gen_ai.request.tool.0.function.description'', AString ''does secret things''),
         (''gen_ai.response.model'', AString ''gpt-4o''),
         (''llm.response.model'', AString ''gpt-4o''),
         (''gen_ai.usage.input_tokens'', AInt 10), (''gen_ai.usage.output_tokens'', AInt 5),
         (''llm.usage.prompt_tokens'', AInt 10), (''llm.usage.completion_tokens'', AInt 5),
         (''llm.usage.total_tokens'', AInt 15)]"
proof -
  have a: "\<not> shouldTraceContent sdk_content_off"
    by (simp add: shouldTraceContent_def scenario_defs)
  have b: "\<not> isTraceContentEnabled (Some content_off)"
    by (simp add: isTraceContentEnabled_def scenario_defs)
  have on: "fits (getTriageAttrs Background
        @ LogPrompt_attrs Some sdk_start (scenario_params\<lparr>pp_Tools := [secret_tool]\<rparr>)
        @ LogCompletion_attrs sdk_start scenario_completion)"
    by (simp add: fits_def AttributeCountLimit_def getTriageAttrs_Background attrs_defs
          scenario_defs)
  have on': "shouldTraceContent sdk_start"
    by (simp add: shouldTraceContent_def scenario_defs)
  have on2: "fits (getTriageAttrs Background
        @ LogPrompt2_attrs Some None (scenario_prompt\<lparr>p_Tools := [secret_tool2]\<rparr>)
        @ LogCompletion2_attrs None scenario_completion2 scenario_usage2)"
    by (simp add: fits_def AttributeCountLimit_def getTriageAttrs_Background attrs_defs
          scenario_defs)
  note inst = content_visibility_gating[OF a b, where g' = sdk_start and gc' = None
      and marshal = Some and ctx = Background and st = "[]"
      and params = "scenario_params\<lparr>pp_Tools := [secret_tool]\<rparr>"
      and completion = scenario_completion
      and prompt = "scenario_prompt\<lparr>p_Tools := [secret_tool2]\<rparr>"
      and ?completion2.0 = scenario_completion2 and usage = scenario_usage2]
  have e: "\<exists>sp sp'.
         llm_call Some sdk_content_off Background (scenario_params\<lparr>pp_Tools := [secret_tool]\<rparr>)
           scenario_completion [] = Inr sp
         \<and> llm_call Some sdk_start Background (scenario_params\<lparr>pp_Tools := [secret_tool]\<rparr>)
             scenario_completion [] = Inr sp'
         \<and> span_attrs sp
             = filter (\<lambda>kv. \<not> message_key (fst kv) \<and> \<not> tools_key (fst kv)) (span_attrs sp')
         \<and> set (concat (map (toolDefinitionAttrs Some)
                  (enumerate 0 (pp_Tools (scenario_params\<lparr>pp_Tools := [secret_tool]\<rparr>)))))
             \<subseteq> set (span_attrs sp')"
    using inst on on' by blast
  have c: "span_attrs (llm_call2 Some (Some content_off) Background
        (scenario_prompt\<lparr>p_Tools := [secret_tool2]\<rparr>) scenario_completion2 scenario_usage2 [])
      = filter (\<lambda>kv. \<not> message_key (fst kv))
          (span_attrs (llm_call2 Some None Background
             (scenario_prompt\<lparr>p_Tools := [secret_tool2]\<rparr>) scenario_completion2 scenario_usage2 []))"
    using inst on2 by blast
  have d: "span_attrs (llm_call2 Some (Some content_off) Background
        (scenario_prompt\<lparr>p_Tools := [secret_tool2]\<rparr>) scenario_completion2 scenario_usage2 [])
      = [(''gen_ai.system'', AString ''openai''), (''gen_ai.request.model'', AString ''gpt-4o''),
         (''llm.vendor'', AString ''openai''), (''llm.request.model'', AString ''gpt-4o''),
         (''llm.request.type'', AString ''chat''),
         (''gen_ai.request.tool.0.type'', AString ''function''),
         (''gen_ai.request.tool.0.function.name'', AString ''secret_tool''),
         (''gen_ai.request.tool.0.function.description'', AString ''does secret things''),
         (''gen_ai.response.model'', AString ''gpt-4o''),
         (''llm.response.model'', AString ''gpt-4o''),
         (''gen_ai.usage.input_tokens'', AInt 10), (''gen_ai.usage.output_tokens'', AInt 5),
         (''llm.usage.prompt_tokens'', AInt 10), (''llm.usage.completion_tokens'', AInt 5),
         (''llm.usage.total_tokens'', AInt 15)]"
    by (simp add: llm_call2_fits fits_def AttributeCountLimit_def getTriageAttrs_Background
          attrs_defs scenario_defs show_nat_0)
  show ?thesis using a b on on' on2 e c d by blast
qed

text \<open>
  The claim as it was stated fails in the \<open>PromptParams\<close> interface: with \<open>traceContent = false\<close>
  the call with the tool definition \<open>secret_tool\<close> records no tool definition (with the start
  state, where the policy is enabled, it records the name and the description).
\<close>

theorem content_visibility_gating_counterexample:
  "llm_call Some sdk_content_off Background (scenario_params\<lparr>pp_Tools := [secret_tool]\<rparr>)
       scenario_completion []
     = Inr \<lparr>span_name = ''openai.chat'', span_kind = SpanKindInternal, span_parent = None,
            span_attrs =
              [(''gen_ai.system'', AString ''openai''), (''gen_ai.request.model'', AString ''gpt-4o''),
               (''gen_ai.response.model'', AString ''gpt-4o''),
               (''gen_ai.usage.input_tokens'', AInt 10), (''gen_ai.usage.output_tokens'', AInt 5),
               (''gen_ai.usage.total_tokens'', AInt 15)],
            span_errors = [], span_status = (StatusUnset, []), span_ended = True\<rparr>
   \<and> llm_call Some sdk_start Background (scenario_params\<lparr>pp_Tools := [secret_tool]\<rparr>)
       scenario_completion []
     = Inr \<lparr>span_name = ''openai.chat'', span_kind = SpanKindInternal, span_parent = None,
            span_attrs =
              [(''gen_ai.system'', AString ''openai''), (''gen_ai.request.model'', AString ''gpt-4o''),
               (''gen_ai.prompt.0.role'', AString ''user''),
               (''gen_ai.prompt.0.content'', AString ''Hello''),
               (''gen_ai.request.tools.0.name'', AString ''secret_tool''),
               (''gen_ai.request.tools.0.description'', AString ''does secret things''),
               (''gen_ai.response.model'', AString ''gpt-4o''),
               (''gen_ai.usage.input_tokens'', AInt 10), (''gen_ai.usage.output_tokens'', AInt 5),
               (''gen_ai.usage.total_tokens'', AInt 15)],
            span_errors = [], span_status = (StatusUnset, []), span_ended = True\<rparr>"
  by (simp add: llm_call_fits fits_def AttributeCountLimit_def getTriageAttrs_Background
        attrs_defs scenario_defs show_nat_0 genai_keys ctx_span_Background)

subsection \<open>Span names\<close>

text \<open>
  Claim C4 (LLM span naming), as amended. \<open>LogPrompt\<close> of the \<open>PromptParams\<close> interface names
  the span \<open><vendor>.chat\<close> when the vendor is non-empty, whatever the model, and \<open>llm.chat\<close>
  when the vendor is empty. \<open>LogPrompt\<close> of the \<open>Prompt\<close> interface, for a non-empty vendor,
  names the span \<open><vendor>.chat <model>\<close> when the model is non-empty and \<open><vendor>.chat\<close> when
  the model is empty.
\<close>

theorem llm_span_name:
  "span_name (started (snd (LogPrompt marshal g ctx params st)))
     = (if pp_Vendor params = [] then ''llm.chat'' else pp_Vendor params @ ''.chat'')
   \<and> (p_Vendor prompt \<noteq> [] \<longrightarrow>
        span_name (started (snd (LogPrompt2 marshal gc ctx prompt st)))
          = (if p_Model prompt = [] then p_Vendor prompt @ ''.chat''
             else p_Vendor prompt @ ''.chat '' @ p_Model prompt))"
  by (simp add: LogPrompt_eq LogPrompt2_eq started_def LogPrompt2_spanName_def)

text \<open>The theorem at the scenario's prompt, in the \<open>Prompt\<close> interface.\<close>

theorem llm_span_name_witness:
  "p_Vendor scenario_prompt \<noteq> []
   \<and> span_name (started (snd (LogPrompt2 Some None Background scenario_prompt [])))
       = ''openai.chat gpt-4o''"
proof -
  have v: "p_Vendor scenario_prompt \<noteq> []" by (simp add: scenario_prompt_def)
  show ?thesis
    using llm_span_name[where prompt = scenario_prompt and marshal = Some and gc = None
        and ctx = Background and st = "[]"] v
    by (simp add: scenario_prompt_def)
qed

text \<open>
  The claim as it was stated fails in the \<open>PromptParams\<close> interface: for the vendor \<open>openai\<close>
  and the model \<open>gpt-4o\<close> the span is named \<open>openai.chat\<close>.
\<close>

theorem llm_span_name_counterexample:
  "pp_Vendor scenario_params = ''openai''
   \<and> pp_Model scenario_params = ''gpt-4o''
   \<and> span_name (started (snd (LogPrompt Some sdk_start Background scenario_params [])))
       = ''openai.chat''
   \<and> span_name (started (snd (LogPrompt Some sdk_start Background scenario_params [])))
       \<noteq> ''openai.chat gpt-4o''"
  by (simp add: LogPrompt_eq started_def scenario_params_def)

subsection \<open>Reading an attribute of the span of a call\<close>

lemma attrMap_filter_key: "attrMap kvs k = attrMap (filter (\<lambda>kv. fst kv = k) kvs) k"
proof (induction kvs rule: rev_induct)
  case Nil
  show ?case by simp
next
  case (snoc x xs)
  have "attrMap (xs @ [x]) k = (if fst x = k then Some (snd x) else attrMap xs k)"
    by (cases x) (simp add: attrMap_append, simp add: attrMap_def)
  moreover have "attrMap (filter (\<lambda>kv. fst kv = k) (xs @ [x])) k
      = (if fst x = k then Some (snd x) else attrMap (filter (\<lambda>kv. fst kv = k) xs) k)"
    by (cases x) (simp add: attrMap_append, simp add: attrMap_def)
  ultimately show ?case using snoc.IH by simp
qed

lemma plain_key_not:
  "plain_key k \<Longrightarrow>
   \<not> message_key k \<and> \<not> tools_key k \<and> \<not> tool_key k \<and> \<not> prefix ''triage.'' k"
  by (simp add: plain_key_def)

lemma attrMap_llm_call:
  assumes "plain_key k"
  shows "attrMap (getTriageAttrs ctx @ LogPrompt_attrs marshal g params
                    @ LogCompletion_attrs g completion) k
       = attrMap (request_attrs params @ response_attrs completion) k"
proof -
  let ?P = "\<lambda>kv. fst kv = k"
  note n = plain_key_not[OF assms]
  have t: "filter ?P (getTriageAttrs ctx) = []"
    by (rule filter_none) (use keys_triage n in blast)
  have m: "filter ?P (concat (map (messageAttrs ''gen_ai.prompt'') xs)) = []" for xs
    by (rule filter_none) (use keys_prompt_messages n in blast)
  have m': "filter ?P (concat (map (messageAttrs ''gen_ai.completion'') xs)) = []" for xs
    by (rule filter_none) (use keys_completion_messages n in blast)
  have d: "filter ?P (concat (map (toolDefinitionAttrs marshal) xs)) = []" for xs
    by (rule filter_none) (use keys_toolDefinitions n in blast)
  have "filter ?P (getTriageAttrs ctx @ LogPrompt_attrs marshal g params
                    @ LogCompletion_attrs g completion)
      = filter ?P (request_attrs params @ response_attrs completion)"
    by (simp add: LogPrompt_attrs_def LogCompletion_attrs_def t m m' d)
  then show ?thesis
    by (metis attrMap_filter_key)
qed

lemma attrMap_llm_call2:
  assumes "plain_key k"
  shows "attrMap (getTriageAttrs ctx @ LogPrompt2_attrs marshal gc prompt
                    @ LogCompletion2_attrs gc completion usage) k
       = attrMap (request_attrs2 prompt @ response_attrs2 completion usage) k"
proof -
  let ?P = "\<lambda>kv. fst kv = k"
  note n = plain_key_not[OF assms]
  have t: "filter ?P (getTriageAttrs ctx) = []"
    by (rule filter_none) (use keys_triage n in blast)
  have m: "filter ?P (concat (map promptMessageAttrs xs)) = []" for xs
    by (rule filter_none) (use keys_promptMessages' n in blast)
  have m': "filter ?P (concat (map completionMessageAttrs xs)) = []" for xs
    by (rule filter_none) (use keys_completionMessages' n in blast)
  have d: "filter ?P (concat (map (toolDefAttrs marshal) xs)) = []" for xs
    by (rule filter_none) (use keys_toolDefs n in blast)
  have "filter ?P (getTriageAttrs ctx @ LogPrompt2_attrs marshal gc prompt
                    @ LogCompletion2_attrs gc completion usage)
      = filter ?P (request_attrs2 prompt @ response_attrs2 completion usage)"
    by (simp add: LogPrompt2_attrs_parts LogCompletion2_attrs_parts t m m' d)
  then show ?thesis
    by (metis attrMap_filter_key)
qed

lemma plain_literals:
  "plain_key ''gen_ai.system''" "plain_key ''gen_ai.request.model''"
  "plain_key ''llm.vendor''" "plain_key ''llm.request.model''"
  "plain_key ''gen_ai.usage.input_tokens''" "plain_key ''gen_ai.usage.output_tokens''"
  "plain_key ''llm.usage.prompt_tokens''" "plain_key ''llm.usage.completion_tokens''"
  "plain_key ''llm.usage.total_tokens''" "plain_key ''gen_ai.usage.total_tokens''"
  "plain_key ''gen_ai.usage.reasoning_tokens''" "plain_key ''gen_ai.usage.cache_read_tokens''"
  "plain_key ''gen_ai.usage.cache_write_tokens''" "plain_key ''gen_ai.response.model''"
  "plain_key ''llm.response.model''"
  by (simp_all add: plain_key_def message_key_def tools_key_def tool_key_def)

lemma attrMap_Cons:
  "attrMap ((k', v) # kvs) k = (case attrMap kvs k of Some w \<Rightarrow> Some w | None \<Rightarrow> if k = k' then Some v else None)"
  by (simp add: attrMap_def map_add_def split: option.splits)

lemma attrMap_Nil: "attrMap [] k = None"
  by (simp add: attrMap_def)

lemma attrMap_usage_attr:
  "attrMap (usage_attr k' n) k = (if k = k' \<and> 0 < n then Some (AInt n) else None)"
  by (simp add: usage_attr_def attrMap_Cons attrMap_Nil)

lemma attrMap_request_other:
  "\<not> prefix ''gen_ai.request.'' k \<Longrightarrow> k \<noteq> ''gen_ai.system'' \<Longrightarrow> attrMap (request_attrs params) k = None"
  by (auto simp: attrMap_None request_attrs_def genai_keys split: if_splits option.splits)

subsection \<open>The two naming schemes\<close>

lemma attrMap_request2:
  "attrMap (request_attrs2 prompt @ response_attrs2 completion usage) ''gen_ai.system''
     = Some (AString (p_Vendor prompt))"
  "attrMap (request_attrs2 prompt @ response_attrs2 completion usage) ''llm.vendor''
     = Some (AString (p_Vendor prompt))"
  "attrMap (request_attrs2 prompt @ response_attrs2 completion usage) ''gen_ai.request.model''
     = Some (AString (p_Model prompt))"
  "attrMap (request_attrs2 prompt @ response_attrs2 completion usage) ''llm.request.model''
     = Some (AString (p_Model prompt))"
  by (simp_all add: request_attrs2_def response_attrs2_def attrMap_append attrMap_Cons attrMap_Nil
        split: option.splits)

lemma attrMap_usage2:
  "attrMap (request_attrs2 prompt @ response_attrs2 completion usage) ''gen_ai.usage.input_tokens''
     = Some (AInt (PromptTokens usage))"
  "attrMap (request_attrs2 prompt @ response_attrs2 completion usage) ''gen_ai.usage.output_tokens''
     = Some (AInt (CompletionTokens usage))"
  "attrMap (request_attrs2 prompt @ response_attrs2 completion usage) ''llm.usage.prompt_tokens''
     = Some (AInt (PromptTokens usage))"
  "attrMap (request_attrs2 prompt @ response_attrs2 completion usage) ''llm.usage.completion_tokens''
     = Some (AInt (CompletionTokens usage))"
  "attrMap (request_attrs2 prompt @ response_attrs2 completion usage) ''llm.usage.total_tokens''
     = Some (AInt (u2_TotalTokens usage))"
  by (simp_all add: response_attrs2_def attrMap_append attrMap_Cons attrMap_Nil)

lemma genai_or_triage:
  "list_all (\<lambda>kv. prefix ''gen_ai.'' (fst kv) \<or> prefix ''triage.'' (fst kv))
     (getTriageAttrs ctx @ LogPrompt_attrs marshal g params @ LogCompletion_attrs g completion)"
proof -
  have mk: "message_key k \<Longrightarrow> prefix ''gen_ai.'' k" for k
    by (auto simp: message_key_def prefix_def)
  have tk: "tools_key k \<Longrightarrow> prefix ''gen_ai.'' k" for k
    by (auto simp: tools_key_def prefix_def)
  have "prefix ''gen_ai.'' (fst kv) \<or> prefix ''triage.'' (fst kv)"
    if "kv \<in> set (getTriageAttrs ctx @ LogPrompt_attrs marshal g params
                    @ LogCompletion_attrs g completion)" for kv
  proof -
    from that consider "kv \<in> set (getTriageAttrs ctx)" | "kv \<in> set (request_attrs params)"
      | "kv \<in> set (concat (map (messageAttrs ''gen_ai.prompt'') (enumerate 0 (pp_Messages params))))"
      | "kv \<in> set (concat (map (toolDefinitionAttrs marshal) (enumerate 0 (pp_Tools params))))"
      | "kv \<in> set (response_attrs completion)"
      | "kv \<in> set (concat (map (messageAttrs ''gen_ai.completion'')
                               (enumerate 0 (cp_Messages completion))))"
      unfolding LogPrompt_attrs_def LogCompletion_attrs_def set_append Un_iff
      by (auto split: if_splits)
    then show ?thesis
    proof cases
      case 1 then show ?thesis using keys_triage by blast
    next
      case 2 then show ?thesis using keys_request_attrs by blast
    next
      case 3 then show ?thesis using keys_prompt_messages mk by blast
    next
      case 4 then show ?thesis using keys_toolDefinitions tk by blast
    next
      case 5 then show ?thesis using keys_response_attrs by blast
    next
      case 6 then show ?thesis using keys_completion_messages mk by blast
    qed
  qed
  then show ?thesis unfolding list_all_iff by blast
qed

lemma attrMap_response_usage:
  "attrMap (response_attrs c) AttrGenAIUsageInputTokens
     = (if 0 < InputTokens (cp_Usage c) then Some (AInt (InputTokens (cp_Usage c))) else None)"
  "attrMap (response_attrs c) AttrGenAIUsageOutputTokens
     = (if 0 < OutputTokens (cp_Usage c) then Some (AInt (OutputTokens (cp_Usage c))) else None)"
  "attrMap (response_attrs c) AttrGenAIUsageTotalTokens
     = (if 0 < TotalTokens (cp_Usage c) then Some (AInt (TotalTokens (cp_Usage c))) else None)"
  "attrMap (response_attrs c) AttrGenAIUsageReasoningTokens
     = (if 0 < ReasoningTokens (cp_Usage c) then Some (AInt (ReasoningTokens (cp_Usage c)))
        else None)"
  "attrMap (response_attrs c) AttrGenAIUsageCacheReadTokens
     = (if 0 < CacheReadTokens (cp_Usage c) then Some (AInt (CacheReadTokens (cp_Usage c)))
        else None)"
  "attrMap (response_attrs c) AttrGenAIUsageCacheWriteTokens
     = (if 0 < CacheWriteTokens (cp_Usage c) then Some (AInt (CacheWriteTokens (cp_Usage c)))
        else None)"
  by (simp_all add: response_attrs_def attrMap_append attrMap_usage_attr attrMap_Cons attrMap_Nil
        genai_keys)

lemma attrMap_request_usage:
  "attrMap (request_attrs params) AttrGenAIUsageInputTokens = None"
  "attrMap (request_attrs params) AttrGenAIUsageOutputTokens = None"
  "attrMap (request_attrs params) AttrGenAIUsageTotalTokens = None"
  "attrMap (request_attrs params) AttrGenAIUsageReasoningTokens = None"
  "attrMap (request_attrs params) AttrGenAIUsageCacheReadTokens = None"
  "attrMap (request_attrs params) AttrGenAIUsageCacheWriteTokens = None"
  by (simp_all add: attrMap_request_other genai_keys)

lemma plain_usage_keys:
  "plain_key AttrGenAIUsageInputTokens" "plain_key AttrGenAIUsageOutputTokens"
  "plain_key AttrGenAIUsageTotalTokens" "plain_key AttrGenAIUsageReasoningTokens"
  "plain_key AttrGenAIUsageCacheReadTokens" "plain_key AttrGenAIUsageCacheWriteTokens"
  by (simp_all add: genai_keys plain_literals)

lemma attrMap_request_vendor:
  "attrMap (request_attrs params @ response_attrs completion) AttrGenAISystem
     = (if pp_Vendor params = [] then None else Some (AString (pp_Vendor params)))"
  "attrMap (request_attrs params @ response_attrs completion) AttrGenAIRequestModel
     = (if pp_Model params = [] then None else Some (AString (pp_Model params)))"
  by (simp_all add: request_attrs_def response_attrs_def attrMap_append attrMap_Cons attrMap_Nil
        attrMap_usage_attr genai_keys split: option.splits)

lemma plain_request_keys:
  "plain_key AttrGenAISystem" "plain_key AttrGenAIRequestModel"
  by (simp_all add: genai_keys plain_literals)

text \<open>
  Claim C5 (dual naming schemes), as amended. In the \<open>Prompt\<close> interface, opening an LLM call
  span and logging its completion record the vendor and the model under \<open>gen_ai.*\<close> and under
  \<open>llm.*\<close>, the prompt and completion token counts under both, and the total under
  \<open>llm.usage.total_tokens\<close>, provided the attributes of the call fit the span (at most
  \<open>AttributeCountLimit = 128\<close> of them; beyond the limit the span drops attributes). In the
  \<open>PromptParams\<close> interface every attribute of the span is a \<open>gen_ai.*\<close> or a \<open>triage.*\<close>
  attribute: it records nothing under \<open>llm.*\<close>; provided the attributes of the call fit the
  span, it records the vendor and the model, when non-empty, under \<open>gen_ai.system\<close> and
  \<open>gen_ai.request.model\<close>, and the input, output and total token counts, when positive, under
  \<open>gen_ai.usage.*\<close>.
\<close>

theorem dual_naming_schemes:
  "(fits (getTriageAttrs ctx @ LogPrompt2_attrs marshal gc prompt
            @ LogCompletion2_attrs gc completion2 usage) \<longrightarrow>
      attrMap (span_attrs (llm_call2 marshal gc ctx prompt completion2 usage st)) ''gen_ai.system''
        = Some (AString (p_Vendor prompt))
      \<and> attrMap (span_attrs (llm_call2 marshal gc ctx prompt completion2 usage st)) ''llm.vendor''
        = Some (AString (p_Vendor prompt))
      \<and> attrMap (span_attrs (llm_call2 marshal gc ctx prompt completion2 usage st))
          ''gen_ai.request.model'' = Some (AString (p_Model prompt))
      \<and> attrMap (span_attrs (llm_call2 marshal gc ctx prompt completion2 usage st))
          ''llm.request.model'' = Some (AString (p_Model prompt))
      \<and> attrMap (span_attrs (llm_call2 marshal gc ctx prompt completion2 usage st))
          ''gen_ai.usage.input_tokens'' = Some (AInt (PromptTokens usage))
      \<and> attrMap (span_attrs (llm_call2 marshal gc ctx prompt completion2 usage st))
          ''llm.usage.prompt_tokens'' = Some (AInt (PromptTokens usage))
      \<and> attrMap (span_attrs (llm_call2 marshal gc ctx prompt completion2 usage st))
          ''gen_ai.usage.output_tokens'' = Some (AInt (CompletionTokens usage))
      \<and> attrMap (span_attrs (llm_call2 marshal gc ctx prompt completion2 usage st))
          ''llm.usage.completion_tokens'' = Some (AInt (CompletionTokens usage))
      \<and> attrMap (span_attrs (llm_call2 marshal gc ctx prompt completion2 usage st))
          ''llm.usage.total_tokens'' = Some (AInt (u2_TotalTokens usage)))
   \<and> (\<exists>sp. llm_call marshal g ctx params completion st = Inr sp
          \<and> list_all (\<lambda>kv. prefix ''gen_ai.'' (fst kv) \<or> prefix ''triage.'' (fst kv))
                (span_attrs sp)
          \<and> (fits (getTriageAttrs ctx @ LogPrompt_attrs marshal g params
                     @ LogCompletion_attrs g completion) \<longrightarrow>
                attrMap (span_attrs sp) AttrGenAISystem
                  = (if pp_Vendor params = [] then None
                     else Some (AString (pp_Vendor params)))
                \<and> attrMap (span_attrs sp) AttrGenAIRequestModel
                  = (if pp_Model params = [] then None else Some (AString (pp_Model params)))
                \<and> attrMap (span_attrs sp) AttrGenAIUsageInputTokens
                  = (if 0 < InputTokens (cp_Usage completion)
                     then Some (AInt (InputTokens (cp_Usage completion))) else None)
                \<and> attrMap (span_attrs sp) AttrGenAIUsageOutputTokens
                  = (if 0 < OutputTokens (cp_Usage completion)
                     then Some (AInt (OutputTokens (cp_Usage completion))) else None)
                \<and> attrMap (span_attrs sp) AttrGenAIUsageTotalTokens
                  = (if 0 < TotalTokens (cp_Usage completion)
                     then Some (AInt (TotalTokens (cp_Usage completion))) else None)))"
proof -
  let ?L2 = "getTriageAttrs ctx @ LogPrompt2_attrs marshal gc prompt
      @ LogCompletion2_attrs gc completion2 usage"
  let ?L = "getTriageAttrs ctx @ LogPrompt_attrs marshal g params
      @ LogCompletion_attrs g completion"
  let ?G = "\<lambda>kv. prefix ''gen_ai.'' (fst kv) \<or> prefix ''triage.'' (fst kv)"
  have first: "attrMap (span_attrs (llm_call2 marshal gc ctx prompt completion2 usage st)) ''gen_ai.system''
        = Some (AString (p_Vendor prompt))
      \<and> attrMap (span_attrs (llm_call2 marshal gc ctx prompt completion2 usage st)) ''llm.vendor''
        = Some (AString (p_Vendor prompt))
      \<and> attrMap (span_attrs (llm_call2 marshal gc ctx prompt completion2 usage st))
          ''gen_ai.request.model'' = Some (AString (p_Model prompt))
      \<and> attrMap (span_attrs (llm_call2 marshal gc ctx prompt completion2 usage st))
          ''llm.request.model'' = Some (AString (p_Model prompt))
      \<and> attrMap (span_attrs (llm_call2 marshal gc ctx prompt completion2 usage st))
          ''gen_ai.usage.input_tokens'' = Some (AInt (PromptTokens usage))
      \<and> attrMap (span_attrs (llm_call2 marshal gc ctx prompt completion2 usage st))
          ''llm.usage.prompt_tokens'' = Some (AInt (PromptTokens usage))
      \<and> attrMap (span_attrs (llm_call2 marshal gc ctx prompt completion2 usage st))
          ''gen_ai.usage.output_tokens'' = Some (AInt (CompletionTokens usage))
      \<and> attrMap (span_attrs (llm_call2 marshal gc ctx prompt completion2 usage st))
          ''llm.usage.completion_tokens'' = Some (AInt (CompletionTokens usage))
      \<and> attrMap (span_attrs (llm_call2 marshal gc ctx prompt completion2 usage st))
          ''llm.usage.total_tokens'' = Some (AInt (u2_TotalTokens usage))"
    if "fits ?L2"
    by (simp add: llm_call2_fits[OF that] attrMap_llm_call2 plain_literals attrMap_request2
          attrMap_usage2)
  obtain sp where sp: "llm_call marshal g ctx params completion st = Inr sp"
    and sub: "set (span_attrs sp) \<subseteq> set ?L"
    using llm_call_subset by blast
  have "list_all ?G ?L" by (rule genai_or_triage)
  then have all: "list_all ?G (span_attrs sp)"
    using sub by (rule list_all_subset)
  have vals: "attrMap (span_attrs sp) AttrGenAISystem
                  = (if pp_Vendor params = [] then None
                     else Some (AString (pp_Vendor params)))
                \<and> attrMap (span_attrs sp) AttrGenAIRequestModel
                  = (if pp_Model params = [] then None else Some (AString (pp_Model params)))
                \<and> attrMap (span_attrs sp) AttrGenAIUsageInputTokens
                  = (if 0 < InputTokens (cp_Usage completion)
                     then Some (AInt (InputTokens (cp_Usage completion))) else None)
                \<and> attrMap (span_attrs sp) AttrGenAIUsageOutputTokens
                  = (if 0 < OutputTokens (cp_Usage completion)
                     then Some (AInt (OutputTokens (cp_Usage completion))) else None)
                \<and> attrMap (span_attrs sp) AttrGenAIUsageTotalTokens
                  = (if 0 < TotalTokens (cp_Usage completion)
                     then Some (AInt (TotalTokens (cp_Usage completion))) else None)"
    if "fits ?L"
  proof -
    from sp llm_call_fits[OF that, of st] have "span_attrs sp = ?L" by auto
    then show ?thesis
      by (simp add: attrMap_llm_call plain_usage_keys plain_request_keys attrMap_request_vendor
            attrMap_append[of "request_attrs params"] attrMap_response_usage
            attrMap_request_usage)
  qed
  from first sp all vals show ?thesis by blast
qed

text \<open>
  The theorem at the scenario of the specification: the attributes fit; in the \<open>Prompt\<close>
  interface the span is named \<open>openai.chat gpt-4o\<close> and carries \<open>gen_ai.system = openai\<close>,
  \<open>gen_ai.usage.input_tokens = 10\<close> and \<open>llm.usage.total_tokens = 15\<close>; in the \<open>PromptParams\<close>
  interface it carries \<open>gen_ai.system = openai\<close> and \<open>gen_ai.usage.total_tokens = 15\<close>.
\<close>

theorem dual_naming_schemes_witness:
  "fits (getTriageAttrs Background @ LogPrompt2_attrs Some None scenario_prompt
           @ LogCompletion2_attrs None scenario_completion2 scenario_usage2)
   \<and> fits (getTriageAttrs Background @ LogPrompt_attrs Some sdk_start scenario_params
           @ LogCompletion_attrs sdk_start scenario_completion)
   \<and> span_name (llm_call2 Some None Background scenario_prompt scenario_completion2
        scenario_usage2 []) = ''openai.chat gpt-4o''
   \<and> attrMap (span_attrs (llm_call2 Some None Background scenario_prompt scenario_completion2
        scenario_usage2 [])) ''gen_ai.system'' = Some (AString ''openai'')
   \<and> attrMap (span_attrs (llm_call2 Some None Background scenario_prompt scenario_completion2
        scenario_usage2 [])) ''gen_ai.usage.input_tokens'' = Some (AInt 10)
   \<and> attrMap (span_attrs (llm_call2 Some None Background scenario_prompt scenario_completion2
        scenario_usage2 [])) ''llm.usage.total_tokens'' = Some (AInt 15)
   \<and> (\<exists>sp. llm_call Some sdk_start Background scenario_params scenario_completion [] = Inr sp
         \<and> attrMap (span_attrs sp) AttrGenAISystem = Some (AString ''openai'')
         \<and> attrMap (span_attrs sp) AttrGenAIUsageTotalTokens = Some (AInt 15))"
proof -
  have n: "span_name (llm_call2 Some None Background scenario_prompt scenario_completion2
      scenario_usage2 []) = ''openai.chat gpt-4o''"
    by (simp add: llm_call2_eq LogPrompt2_spanName_def scenario_prompt_def)
  have f: "fits (getTriageAttrs Background @ LogPrompt2_attrs Some None scenario_prompt
           @ LogCompletion2_attrs None scenario_completion2 scenario_usage2)"
    by (simp add: fits_def AttributeCountLimit_def getTriageAttrs_Background attrs_defs
          scenario_defs)
  have f': "fits (getTriageAttrs Background @ LogPrompt_attrs Some sdk_start scenario_params
           @ LogCompletion_attrs sdk_start scenario_completion)"
    by (simp add: fits_def AttributeCountLimit_def getTriageAttrs_Background attrs_defs
          scenario_defs)
  note inst = dual_naming_schemes[where marshal = Some and gc = None and ctx = Background
        and prompt = scenario_prompt and ?completion2.0 = scenario_completion2
        and usage = scenario_usage2 and st = "[]" and g = sdk_start and params = scenario_params
        and completion = scenario_completion]
  have p2: "attrMap (span_attrs (llm_call2 Some None Background scenario_prompt scenario_completion2
        scenario_usage2 [])) ''gen_ai.system'' = Some (AString ''openai'')
   \<and> attrMap (span_attrs (llm_call2 Some None Background scenario_prompt scenario_completion2
        scenario_usage2 [])) ''gen_ai.usage.input_tokens'' = Some (AInt 10)
   \<and> attrMap (span_attrs (llm_call2 Some None Background scenario_prompt scenario_completion2
        scenario_usage2 [])) ''llm.usage.total_tokens'' = Some (AInt 15)"
    using inst f by (simp add: scenario_prompt_def scenario_usage2_def)
  have p1: "\<exists>sp. llm_call Some sdk_start Background scenario_params scenario_completion [] = Inr sp
         \<and> attrMap (span_attrs sp) AttrGenAISystem = Some (AString ''openai'')
         \<and> attrMap (span_attrs sp) AttrGenAIUsageTotalTokens = Some (AInt 15)"
    using inst f' by (auto simp: scenario_params_def scenario_completion_def)
  from f f' n p2 p1 show ?thesis by blast
qed

text \<open>
  The claim as it was stated fails in the \<open>PromptParams\<close> interface: the span of the
  scenario carries \<open>gen_ai.usage.total_tokens = 15\<close> and no \<open>llm.usage.total_tokens\<close> or
  \<open>llm.vendor\<close> attribute.
\<close>

theorem dual_naming_schemes_counterexample:
  "llm_call Some sdk_start Background scenario_params scenario_completion []
     = Inr \<lparr>span_name = ''openai.chat'', span_kind = SpanKindInternal, span_parent = None,
            span_attrs =
              [(''gen_ai.system'', AString ''openai''), (''gen_ai.request.model'', AString ''gpt-4o''),
               (''gen_ai.prompt.0.role'', AString ''user''),
               (''gen_ai.prompt.0.content'', AString ''Hello''),
               (''gen_ai.response.model'', AString ''gpt-4o''),
               (''gen_ai.usage.input_tokens'', AInt 10), (''gen_ai.usage.output_tokens'', AInt 5),
               (''gen_ai.usage.total_tokens'', AInt 15)],
            span_errors = [], span_status = (StatusUnset, []), span_ended = True\<rparr>
   \<and> attrMap
        [(''gen_ai.system'', AString ''openai''), (''gen_ai.request.model'', AString ''gpt-4o''),
         (''gen_ai.prompt.0.role'', AString ''user''),
         (''gen_ai.prompt.0.content'', AString ''Hello''),
         (''gen_ai.response.model'', AString ''gpt-4o''),
         (''gen_ai.usage.input_tokens'', AInt 10), (''gen_ai.usage.output_tokens'', AInt 5),
         (''gen_ai.usage.total_tokens'', AInt 15)] ''llm.usage.total_tokens'' = None
   \<and> attrMap
        [(''gen_ai.system'', AString ''openai''), (''gen_ai.request.model'', AString ''gpt-4o''),
         (''gen_ai.prompt.0.role'', AString ''user''),
         (''gen_ai.prompt.0.content'', AString ''Hello''),
         (''gen_ai.response.model'', AString ''gpt-4o''),
         (''gen_ai.usage.input_tokens'', AInt 10), (''gen_ai.usage.output_tokens'', AInt 5),
         (''gen_ai.usage.total_tokens'', AInt 15)] ''llm.vendor'' = None"
  by (simp add: llm_call_fits fits_def AttributeCountLimit_def getTriageAttrs_Background
        attrs_defs scenario_defs show_nat_0 genai_keys ctx_span_Background attrMap_def)

subsection \<open>Usage counters\<close>

lemma attrMap_SomeD: "attrMap kvs k = Some v \<Longrightarrow> (k, v) \<in> set kvs"
  unfolding attrMap_def using map_of_SomeD[of "rev kvs" k v] by simp

lemma mem_plain:
  assumes "plain_key k"
    and "(k, v) \<in> set (getTriageAttrs ctx @ LogPrompt_attrs marshal g params
                          @ LogCompletion_attrs g completion)"
  shows "(k, v) \<in> set (request_attrs params @ response_attrs completion)"
proof -
  let ?P = "\<lambda>kv. fst kv = k"
  note n = plain_key_not[OF assms(1)]
  have t: "filter ?P (getTriageAttrs ctx) = []"
    by (rule filter_none) (use keys_triage n in blast)
  have m: "filter ?P (concat (map (messageAttrs ''gen_ai.prompt'') xs)) = []" for xs
    by (rule filter_none) (use keys_prompt_messages n in blast)
  have m': "filter ?P (concat (map (messageAttrs ''gen_ai.completion'') xs)) = []" for xs
    by (rule filter_none) (use keys_completion_messages n in blast)
  have d: "filter ?P (concat (map (toolDefinitionAttrs marshal) xs)) = []" for xs
    by (rule filter_none) (use keys_toolDefinitions n in blast)
  have e: "filter ?P (getTriageAttrs ctx @ LogPrompt_attrs marshal g params
                    @ LogCompletion_attrs g completion)
      = filter ?P (request_attrs params @ response_attrs completion)"
    by (simp add: LogPrompt_attrs_def LogCompletion_attrs_def t m m' d)
  from assms(2) have "(k, v) \<in> set (filter ?P (getTriageAttrs ctx
      @ LogPrompt_attrs marshal g params @ LogCompletion_attrs g completion))"
    by simp
  then have "(k, v) \<in> set (filter ?P (request_attrs params @ response_attrs completion))"
    unfolding e .
  then show ?thesis by simp
qed

lemma mem_request_usage:
  assumes "attrMap (request_attrs params) k = None"
    and "(k, v) \<in> set (request_attrs params @ response_attrs completion)"
  shows "(k, v) \<in> set (response_attrs completion)"
proof -
  from assms(1) have "k \<notin> fst ` set (request_attrs params)" by (simp add: attrMap_None)
  then have "(k, v) \<notin> set (request_attrs params)" by force
  with assms(2) show ?thesis by simp
qed

lemma mem_response_usage:
  "(AttrGenAIUsageInputTokens, v) \<in> set (response_attrs c)
     \<Longrightarrow> 0 < InputTokens (cp_Usage c) \<and> v = AInt (InputTokens (cp_Usage c))"
  "(AttrGenAIUsageOutputTokens, v) \<in> set (response_attrs c)
     \<Longrightarrow> 0 < OutputTokens (cp_Usage c) \<and> v = AInt (OutputTokens (cp_Usage c))"
  "(AttrGenAIUsageTotalTokens, v) \<in> set (response_attrs c)
     \<Longrightarrow> 0 < TotalTokens (cp_Usage c) \<and> v = AInt (TotalTokens (cp_Usage c))"
  "(AttrGenAIUsageReasoningTokens, v) \<in> set (response_attrs c)
     \<Longrightarrow> 0 < ReasoningTokens (cp_Usage c) \<and> v = AInt (ReasoningTokens (cp_Usage c))"
  "(AttrGenAIUsageCacheReadTokens, v) \<in> set (response_attrs c)
     \<Longrightarrow> 0 < CacheReadTokens (cp_Usage c) \<and> v = AInt (CacheReadTokens (cp_Usage c))"
  "(AttrGenAIUsageCacheWriteTokens, v) \<in> set (response_attrs c)
     \<Longrightarrow> 0 < CacheWriteTokens (cp_Usage c) \<and> v = AInt (CacheWriteTokens (cp_Usage c))"
  by (auto simp: response_attrs_def usage_attr_def genai_keys split: if_splits)

text \<open>
  A usage attribute on the span of a call of the \<open>PromptParams\<close> interface, whether or not the
  span has dropped attributes, is the counter of the completion, and the counter is positive.
\<close>

lemma usage_on_span:
  assumes "llm_call marshal g ctx params completion st = Inr sp"
    and "attrMap (span_attrs sp) k = Some v"
    and "plain_key k"
    and "attrMap (request_attrs params) k = None"
  shows "(k, v) \<in> set (response_attrs completion)"
proof -
  from llm_call_subset[of marshal g ctx params completion st] assms(1)
  have "set (span_attrs sp) \<subseteq> set (getTriageAttrs ctx @ LogPrompt_attrs marshal g params
      @ LogCompletion_attrs g completion)"
    by auto
  with attrMap_SomeD[OF assms(2)]
  have "(k, v) \<in> set (getTriageAttrs ctx @ LogPrompt_attrs marshal g params
      @ LogCompletion_attrs g completion)"
    by blast
  with assms(3) have "(k, v) \<in> set (request_attrs params @ response_attrs completion)"
    by (rule mem_plain)
  with assms(4) show ?thesis by (rule mem_request_usage)
qed

text \<open>
  Claim C6 (zero-usage omission), as amended. In the \<open>PromptParams\<close> interface, a usage counter
  of a completion that is zero (or negative) leaves no attribute on the span, and a usage
  attribute on the span carries the value of its counter; provided the attributes of the call
  fit the span (at most \<open>AttributeCountLimit = 128\<close> of them; beyond the limit the span drops
  attributes), each of the six counters is recorded on the span, with its value, iff it is
  strictly greater than zero. In the \<open>Prompt\<close> interface, under the same condition,
  \<open>LogCompletion\<close> records its five usage attributes whatever their value, zero included.
\<close>

theorem zero_usage_omission:
  "(\<exists>sp. llm_call marshal g ctx params completion st = Inr sp
      \<and> (\<forall>v. attrMap (span_attrs sp) AttrGenAIUsageInputTokens = Some v \<longrightarrow>
             0 < InputTokens (cp_Usage completion)
             \<and> v = AInt (InputTokens (cp_Usage completion)))
      \<and> (\<forall>v. attrMap (span_attrs sp) AttrGenAIUsageOutputTokens = Some v \<longrightarrow>
             0 < OutputTokens (cp_Usage completion)
             \<and> v = AInt (OutputTokens (cp_Usage completion)))
      \<and> (\<forall>v. attrMap (span_attrs sp) AttrGenAIUsageTotalTokens = Some v \<longrightarrow>
             0 < TotalTokens (cp_Usage completion)
             \<and> v = AInt (TotalTokens (cp_Usage completion)))
      \<and> (\<forall>v. attrMap (span_attrs sp) AttrGenAIUsageReasoningTokens = Some v \<longrightarrow>
             0 < ReasoningTokens (cp_Usage completion)
             \<and> v = AInt (ReasoningTokens (cp_Usage completion)))
      \<and> (\<forall>v. attrMap (span_attrs sp) AttrGenAIUsageCacheReadTokens = Some v \<longrightarrow>
             0 < CacheReadTokens (cp_Usage completion)
             \<and> v = AInt (CacheReadTokens (cp_Usage completion)))
      \<and> (\<forall>v. attrMap (span_attrs sp) AttrGenAIUsageCacheWriteTokens = Some v \<longrightarrow>
             0 < CacheWriteTokens (cp_Usage completion)
             \<and> v = AInt (CacheWriteTokens (cp_Usage completion)))
      \<and> (fits (getTriageAttrs ctx @ LogPrompt_attrs marshal g params
                 @ LogCompletion_attrs g completion) \<longrightarrow>
            attrMap (span_attrs sp) AttrGenAIUsageInputTokens
              = (if 0 < InputTokens (cp_Usage completion)
                 then Some (AInt (InputTokens (cp_Usage completion))) else None)
            \<and> attrMap (span_attrs sp) AttrGenAIUsageOutputTokens
              = (if 0 < OutputTokens (cp_Usage completion)
                 then Some (AInt (OutputTokens (cp_Usage completion))) else None)
            \<and> attrMap (span_attrs sp) AttrGenAIUsageTotalTokens
              = (if 0 < TotalTokens (cp_Usage completion)
                 then Some (AInt (TotalTokens (cp_Usage completion))) else None)
            \<and> attrMap (span_attrs sp) AttrGenAIUsageReasoningTokens
              = (if 0 < ReasoningTokens (cp_Usage completion)
                 then Some (AInt (ReasoningTokens (cp_Usage completion))) else None)
            \<and> attrMap (span_attrs sp) AttrGenAIUsageCacheReadTokens
              = (if 0 < CacheReadTokens (cp_Usage completion)
                 then Some (AInt (CacheReadTokens (cp_Usage completion))) else None)
            \<and> attrMap (span_attrs sp) AttrGenAIUsageCacheWriteTokens
              = (if 0 < CacheWriteTokens (cp_Usage completion)
                 then Some (AInt (CacheWriteTokens (cp_Usage completion))) else None)))
   \<and> (fits (getTriageAttrs ctx @ LogPrompt2_attrs marshal gc prompt
              @ LogCompletion2_attrs gc completion2 usage) \<longrightarrow>
        attrMap (span_attrs (llm_call2 marshal gc ctx prompt completion2 usage st))
          ''gen_ai.usage.input_tokens'' = Some (AInt (PromptTokens usage))
        \<and> attrMap (span_attrs (llm_call2 marshal gc ctx prompt completion2 usage st))
            ''gen_ai.usage.output_tokens'' = Some (AInt (CompletionTokens usage))
        \<and> attrMap (span_attrs (llm_call2 marshal gc ctx prompt completion2 usage st))
            ''llm.usage.prompt_tokens'' = Some (AInt (PromptTokens usage))
        \<and> attrMap (span_attrs (llm_call2 marshal gc ctx prompt completion2 usage st))
            ''llm.usage.completion_tokens'' = Some (AInt (CompletionTokens usage))
        \<and> attrMap (span_attrs (llm_call2 marshal gc ctx prompt completion2 usage st))
            ''llm.usage.total_tokens'' = Some (AInt (u2_TotalTokens usage)))"
proof -
  let ?L2 = "getTriageAttrs ctx @ LogPrompt2_attrs marshal gc prompt
      @ LogCompletion2_attrs gc completion2 usage"
  let ?L = "getTriageAttrs ctx @ LogPrompt_attrs marshal g params
      @ LogCompletion_attrs g completion"
  obtain sp where sp: "llm_call marshal g ctx params completion st = Inr sp"
    using llm_call_subset by blast
  note on = usage_on_span[OF sp]
  have u1: "\<forall>v. attrMap (span_attrs sp) AttrGenAIUsageInputTokens = Some v \<longrightarrow>
             0 < InputTokens (cp_Usage completion)
             \<and> v = AInt (InputTokens (cp_Usage completion))"
    using on[OF _ plain_usage_keys(1) attrMap_request_usage(1)] mem_response_usage(1) by blast
  have u2: "\<forall>v. attrMap (span_attrs sp) AttrGenAIUsageOutputTokens = Some v \<longrightarrow>
             0 < OutputTokens (cp_Usage completion)
             \<and> v = AInt (OutputTokens (cp_Usage completion))"
    using on[OF _ plain_usage_keys(2) attrMap_request_usage(2)] mem_response_usage(2) by blast
  have u3: "\<forall>v. attrMap (span_attrs sp) AttrGenAIUsageTotalTokens = Some v \<longrightarrow>
             0 < TotalTokens (cp_Usage completion)
             \<and> v = AInt (TotalTokens (cp_Usage completion))"
    using on[OF _ plain_usage_keys(3) attrMap_request_usage(3)] mem_response_usage(3) by blast
  have u4: "\<forall>v. attrMap (span_attrs sp) AttrGenAIUsageReasoningTokens = Some v \<longrightarrow>
             0 < ReasoningTokens (cp_Usage completion)
             \<and> v = AInt (ReasoningTokens (cp_Usage completion))"
    using on[OF _ plain_usage_keys(4) attrMap_request_usage(4)] mem_response_usage(4) by blast
  have u5: "\<forall>v. attrMap (span_attrs sp) AttrGenAIUsageCacheReadTokens = Some v \<longrightarrow>
             0 < CacheReadTokens (cp_Usage completion)
             \<and> v = AInt (CacheReadTokens (cp_Usage completion))"
    using on[OF _ plain_usage_keys(5) attrMap_request_usage(5)] mem_response_usage(5) by blast
  have u6: "\<forall>v. attrMap (span_attrs sp) AttrGenAIUsageCacheWriteTokens = Some v \<longrightarrow>
             0 < CacheWriteTokens (cp_Usage completion)
             \<and> v = AInt (CacheWriteTokens (cp_Usage completion))"
    using on[OF _ plain_usage_keys(6) attrMap_request_usage(6)] mem_response_usage(6) by blast
  have vals: "attrMap (span_attrs sp) AttrGenAIUsageInputTokens
              = (if 0 < InputTokens (cp_Usage completion)
                 then Some (AInt (InputTokens (cp_Usage completion))) else None)
            \<and> attrMap (span_attrs sp) AttrGenAIUsageOutputTokens
              = (if 0 < OutputTokens (cp_Usage completion)
                 then Some (AInt (OutputTokens (cp_Usage completion))) else None)
            \<and> attrMap (span_attrs sp) AttrGenAIUsageTotalTokens
              = (if 0 < TotalTokens (cp_Usage completion)
                 then Some (AInt (TotalTokens (cp_Usage completion))) else None)
            \<and> attrMap (span_attrs sp) AttrGenAIUsageReasoningTokens
              = (if 0 < ReasoningTokens (cp_Usage completion)
                 then Some (AInt (ReasoningTokens (cp_Usage completion))) else None)
            \<and> attrMap (span_attrs sp) AttrGenAIUsageCacheReadTokens
              = (if 0 < CacheReadTokens (cp_Usage completion)
                 then Some (AInt (CacheReadTokens (cp_Usage completion))) else None)
            \<and> attrMap (span_attrs sp) AttrGenAIUsageCacheWriteTokens
              = (if 0 < CacheWriteTokens (cp_Usage completion)
                 then Some (AInt (CacheWriteTokens (cp_Usage completion))) else None)"
    if "fits ?L"
  proof -
    from sp llm_call_fits[OF that, of st] have "span_attrs sp = ?L" by auto
    then show ?thesis
      by (simp add: attrMap_llm_call plain_usage_keys
            attrMap_append[of "request_attrs params"] attrMap_response_usage
            attrMap_request_usage)
  qed
  have second: "attrMap (span_attrs (llm_call2 marshal gc ctx prompt completion2 usage st))
          ''gen_ai.usage.input_tokens'' = Some (AInt (PromptTokens usage))
        \<and> attrMap (span_attrs (llm_call2 marshal gc ctx prompt completion2 usage st))
            ''gen_ai.usage.output_tokens'' = Some (AInt (CompletionTokens usage))
        \<and> attrMap (span_attrs (llm_call2 marshal gc ctx prompt completion2 usage st))
            ''llm.usage.prompt_tokens'' = Some (AInt (PromptTokens usage))
        \<and> attrMap (span_attrs (llm_call2 marshal gc ctx prompt completion2 usage st))
            ''llm.usage.completion_tokens'' = Some (AInt (CompletionTokens usage))
        \<and> attrMap (span_attrs (llm_call2 marshal gc ctx prompt completion2 usage st))
            ''llm.usage.total_tokens'' = Some (AInt (u2_TotalTokens usage))"
    if "fits ?L2"
    by (simp add: llm_call2_fits[OF that] attrMap_llm_call2 plain_literals attrMap_usage2)
  from sp u1 u2 u3 u4 u5 u6 vals second show ?thesis by blast
qed

text \<open>
  The theorem at the scenario's completion: the attributes fit the span; in the
  \<open>PromptParams\<close> interface the input counter 10 is recorded, the reasoning counter 0 is not;
  in the \<open>Prompt\<close> interface the total 15 is recorded.
\<close>

theorem zero_usage_omission_witness:
  "fits (getTriageAttrs Background @ LogPrompt_attrs Some sdk_start scenario_params
           @ LogCompletion_attrs sdk_start scenario_completion)
   \<and> fits (getTriageAttrs Background @ LogPrompt2_attrs Some None scenario_prompt
           @ LogCompletion2_attrs None scenario_completion2 scenario_usage2)
   \<and> (\<exists>sp. llm_call Some sdk_start Background scenario_params scenario_completion [] = Inr sp
      \<and> attrMap (span_attrs sp) AttrGenAIUsageInputTokens = Some (AInt 10)
      \<and> attrMap (span_attrs sp) AttrGenAIUsageReasoningTokens = None)
   \<and> attrMap (span_attrs (llm_call2 Some None Background scenario_prompt scenario_completion2
        scenario_usage2 [])) ''llm.usage.total_tokens'' = Some (AInt 15)"
proof -
  have f: "fits (getTriageAttrs Background @ LogPrompt_attrs Some sdk_start scenario_params
           @ LogCompletion_attrs sdk_start scenario_completion)"
    by (simp add: fits_def AttributeCountLimit_def getTriageAttrs_Background attrs_defs
          scenario_defs)
  have f2: "fits (getTriageAttrs Background @ LogPrompt2_attrs Some None scenario_prompt
           @ LogCompletion2_attrs None scenario_completion2 scenario_usage2)"
    by (simp add: fits_def AttributeCountLimit_def getTriageAttrs_Background attrs_defs
          scenario_defs)
  note inst = zero_usage_omission[where marshal = Some and g = sdk_start and ctx = Background
      and params = scenario_params and completion = scenario_completion and st = "[]"
      and gc = None and prompt = scenario_prompt and ?completion2.0 = scenario_completion2
      and usage = scenario_usage2]
  have p1: "\<exists>sp. llm_call Some sdk_start Background scenario_params scenario_completion [] = Inr sp
      \<and> attrMap (span_attrs sp) AttrGenAIUsageInputTokens = Some (AInt 10)
      \<and> attrMap (span_attrs sp) AttrGenAIUsageReasoningTokens = None"
    using inst f by (auto simp: scenario_completion_def)
  have p2: "attrMap (span_attrs (llm_call2 Some None Background scenario_prompt
      scenario_completion2 scenario_usage2 [])) ''llm.usage.total_tokens'' = Some (AInt 15)"
    using inst f2 by (simp add: scenario_usage2_def)
  from f f2 p1 p2 show ?thesis by blast
qed

text \<open>
  The claim as it was stated fails in the \<open>Prompt\<close> interface: with every counter zero the
  span carries \<open>gen_ai.usage.input_tokens = 0\<close> and \<open>llm.usage.total_tokens = 0\<close>.
\<close>

theorem zero_usage_omission_counterexample:
  "attrMap (span_attrs (llm_call2 Some None Background scenario_prompt scenario_completion2
       \<lparr>PromptTokens = 0, CompletionTokens = 0, u2_TotalTokens = 0\<rparr> []))
     ''gen_ai.usage.input_tokens'' = Some (AInt 0)
   \<and> attrMap (span_attrs (llm_call2 Some None Background scenario_prompt scenario_completion2
       \<lparr>PromptTokens = 0, CompletionTokens = 0, u2_TotalTokens = 0\<rparr> []))
     ''llm.usage.total_tokens'' = Some (AInt 0)"
  by (simp add: llm_call2_fits fits_def AttributeCountLimit_def getTriageAttrs_Background
        attrs_defs scenario_defs show_nat_0 attrMap_Cons attrMap_Nil attrMap_append)

subsection \<open>Operations on nil, unopened and closed instances\<close>

text \<open>
  On a zero-valued instance (no span) every lifecycle operation leaves the store as it is and
  does not panic; so do, on a closed instance (its span ended), \<open>LogCompletion\<close>, \<open>End\<close> and
  \<open>SetError\<close> with a non-nil error, and the operations of the \<open>Prompt\<close> interface and of the
  hierarchy spans on a nil pointer. \<open>SetError\<close> with a nil error panics on every instance that
  has a span, open or closed.
\<close>

lemma ended_ops:
  "span_ended (st ! i) \<Longrightarrow> SetAttributes i kvs st = st"
  "span_ended (st ! i) \<Longrightarrow> EndSpan i st = st"
  "span_ended (st ! i) \<Longrightarrow> RecordError i err st = st"
  "span_ended (st ! i) \<Longrightarrow> SetStatus i code d st = st"
  by (simp_all add: SetAttributes_def EndSpan_def RecordError_def SetStatus_def split: option.splits)

lemma ended_SetEach: "span_ended (st ! i) \<Longrightarrow> SetEach i kvs st = st"
  unfolding SetEach_def by (induction kvs) (simp_all add: SetAttributes_def)

lemma SetError_nil_error:
  "SetError (Some \<lparr>llm_span = Some i\<rparr>) None st = Inl NilPointerDereference"
  by (simp add: SetError_def Let_def)

lemma lifecycle_noops:
  "LogCompletion g (Some \<lparr>llm_span = None\<rparr>) params st = Inr st"
  "End (Some \<lparr>llm_span = None\<rparr>) st = Inr st"
  "SetError (Some \<lparr>llm_span = None\<rparr>) err st = Inr st"
  "i < length st \<and> span_ended (st ! i) \<longrightarrow>
     LogCompletion g (Some \<lparr>llm_span = Some i\<rparr>) params st = Inr st
     \<and> End (Some \<lparr>llm_span = Some i\<rparr>) st = Inr st
     \<and> SetError (Some \<lparr>llm_span = Some i\<rparr>) (Some msg) st = Inr st
     \<and> LogCompletion2 gc (Some \<lparr>llm2_span = Some i, llm2_ctx = ctx\<rparr>) completion usage st = st
     \<and> Workflow_End (Some \<lparr>wf_span = Some i, wf_ctx = ctx, wf_name = n\<rparr>) st = st
     \<and> Task_End (Some \<lparr>task_span = Some i, task_ctx = ctx, task_name = n\<rparr>) st = st
     \<and> Agent_End (Some \<lparr>agent_span = Some i, agent_ctx = ctx, agent_name = n\<rparr>) st = st
     \<and> ToolSpan_End (Some \<lparr>tool_span = Some i, tool_ctx = ctx, tool_name = n\<rparr>) st = st"
  "LogCompletion2 gc None completion usage st = st"
  "LogCompletion2 gc (Some \<lparr>llm2_span = None, llm2_ctx = ctx\<rparr>) completion usage st = st"
  "Workflow_End None st = st" "Task_End None st = st" "Agent_End None st = st"
  "ToolSpan_End None st = st"
  "Workflow_End (Some \<lparr>wf_span = None, wf_ctx = ctx, wf_name = n\<rparr>) st = st"
  "Task_End (Some \<lparr>task_span = None, task_ctx = ctx, task_name = n\<rparr>) st = st"
  "Agent_End (Some \<lparr>agent_span = None, agent_ctx = ctx, agent_name = n\<rparr>) st = st"
  "ToolSpan_End (Some \<lparr>tool_span = None, tool_ctx = ctx, tool_name = n\<rparr>) st = st"
proof -
  show "LogCompletion g (Some \<lparr>llm_span = None\<rparr>) params st = Inr st"
    by (simp add: LogCompletion_def)
  show "End (Some \<lparr>llm_span = None\<rparr>) st = Inr st"
    by (simp add: End_def)
  show "SetError (Some \<lparr>llm_span = None\<rparr>) err st = Inr st"
    by (simp add: SetError_def)
  show "i < length st \<and> span_ended (st ! i) \<longrightarrow>
     LogCompletion g (Some \<lparr>llm_span = Some i\<rparr>) params st = Inr st
     \<and> End (Some \<lparr>llm_span = Some i\<rparr>) st = Inr st
     \<and> SetError (Some \<lparr>llm_span = Some i\<rparr>) (Some msg) st = Inr st
     \<and> LogCompletion2 gc (Some \<lparr>llm2_span = Some i, llm2_ctx = ctx\<rparr>) completion usage st = st
     \<and> Workflow_End (Some \<lparr>wf_span = Some i, wf_ctx = ctx, wf_name = n\<rparr>) st = st
     \<and> Task_End (Some \<lparr>task_span = Some i, task_ctx = ctx, task_name = n\<rparr>) st = st
     \<and> Agent_End (Some \<lparr>agent_span = Some i, agent_ctx = ctx, agent_name = n\<rparr>) st = st
     \<and> ToolSpan_End (Some \<lparr>tool_span = Some i, tool_ctx = ctx, tool_name = n\<rparr>) st = st"
    by (simp add: LogCompletion_eq End_def SetError_def LogCompletion2_def Workflow_End_def
          Task_End_def Agent_End_def ToolSpan_End_def ended_ops ended_SetEach Let_def)
  show "LogCompletion2 gc None completion usage st = st"
    "LogCompletion2 gc (Some \<lparr>llm2_span = None, llm2_ctx = ctx\<rparr>) completion usage st = st"
    by (simp_all add: LogCompletion2_def)
  show "Workflow_End None st = st" "Task_End None st = st" "Agent_End None st = st"
    "ToolSpan_End None st = st"
    "Workflow_End (Some \<lparr>wf_span = None, wf_ctx = ctx, wf_name = n\<rparr>) st = st"
    "Task_End (Some \<lparr>task_span = None, task_ctx = ctx, task_name = n\<rparr>) st = st"
    "Agent_End (Some \<lparr>agent_span = None, agent_ctx = ctx, agent_name = n\<rparr>) st = st"
    "ToolSpan_End (Some \<lparr>tool_span = None, tool_ctx = ctx, tool_name = n\<rparr>) st = st"
    by (simp_all add: Workflow_End_def Task_End_def Agent_End_def ToolSpan_End_def)
qed

text \<open>
  Claim C9 (safe no-op lifecycle operations) on a nil \<open>*LLMSpan\<close> of the \<open>PromptParams\<close>
  interface: \<open>LogCompletion\<close>, \<open>End\<close> and \<open>SetError\<close> read \<open>s.span\<close> of the nil receiver and
  panic.
\<close>

theorem nil_receiver_panics:
  "LogCompletion g None params st = Inl NilPointerDereference
   \<and> End None st = Inl NilPointerDereference
   \<and> SetError None err st = Inl NilPointerDereference"
  by (simp add: LogCompletion_def End_def SetError_def)

subsection \<open>The attribute limit and the attributes as they are read\<close>

lemma upsert_new: "fst a \<notin> fst ` set bs \<Longrightarrow> upsert a bs = bs @ [a]"
  by (induction bs) auto

lemma foldl_upsert_distinct:
  "distinct (map fst (acc @ xs)) \<Longrightarrow> foldl (\<lambda>unique a. upsert a unique) acc xs = acc @ xs"
proof (induction xs arbitrary: acc)
  case Nil
  show ?case by simp
next
  case (Cons x xs)
  from Cons.prems have n: "fst x \<notin> fst ` set acc" by auto
  from Cons.prems have d: "distinct (map fst ((acc @ [x]) @ xs))" by simp
  show ?case
    using Cons.IH[OF d] by (simp add: upsert_new[OF n])
qed

lemma dedupeAttrs_distinct: "distinct (map fst kvs) \<Longrightarrow> dedupeAttrs kvs = kvs"
  using foldl_upsert_distinct[of "[]" kvs] by (simp add: dedupeAttrs_def)

text \<open>A span that holds \<open>AttributeCountLimit\<close> attributes drops an attribute with a new key.\<close>

lemma recordAttrs_full:
  assumes "distinct (map fst cur)" and "length cur = AttributeCountLimit"
    and "fst a \<notin> fst ` set cur"
  shows "recordAttrs cur [a] = cur"
  using assms by (simp add: recordAttrs_def dedupeAttrs_distinct)

lemma recordEach_full:
  assumes "distinct (map fst cur)" and "length cur = AttributeCountLimit"
    and "fst ` set kvs \<inter> fst ` set cur = {}"
  shows "recordEach cur kvs = cur"
  using assms(3)
proof (induction kvs)
  case Nil
  show ?case by (simp add: recordEach_def)
next
  case (Cons a kvs)
  from Cons.prems have "fst a \<notin> fst ` set cur" by auto
  then have "recordAttrs cur [a] = cur"
    using assms(1,2) by (intro recordAttrs_full)
  moreover from Cons.prems have "fst ` set kvs \<inter> fst ` set cur = {}" by auto
  ultimately show ?case
    using Cons.IH by (simp add: recordEach_def)
qed

text \<open>
  Read as a map, the attributes a span exports (\<open>Attributes\<close>, de-duplicated) are the
  attributes of its slice.
\<close>

lemma map_of_upsert: "map_of (upsert a bs) = (map_of bs)(fst a \<mapsto> snd a)"
  by (induction bs) (auto simp: fun_eq_iff)

lemma keys_upsert: "fst ` set (upsert a bs) = insert (fst a) (fst ` set bs)"
  by (induction bs) auto

lemma distinct_upsert: "distinct (map fst bs) \<Longrightarrow> distinct (map fst (upsert a bs))"
proof (induction bs)
  case Nil
  show ?case by simp
next
  case (Cons b bs)
  then show ?case
    using keys_upsert[of a bs] by (auto simp: image_iff)
qed

lemma foldl_upsert_map:
  "distinct (map fst acc) \<Longrightarrow>
   distinct (map fst (foldl (\<lambda>unique a. upsert a unique) acc xs))
   \<and> map_of (foldl (\<lambda>unique a. upsert a unique) acc xs) = map_of acc ++ map_of (rev xs)"
proof (induction xs arbitrary: acc)
  case Nil
  then show ?case by simp
next
  case (Cons x xs)
  have "map_of (upsert x acc) ++ map_of (rev xs) = map_of acc ++ map_of (rev (x # xs))"
    by (cases x) (simp add: map_of_upsert)
  with Cons.IH[OF distinct_upsert[OF Cons.prems, of x]] show ?case by simp
qed

lemma attrMap_Attributes: "attrMap (Attributes sp) = attrMap (span_attrs sp)"
proof -
  have d: "distinct (map fst (dedupeAttrs (span_attrs sp)))"
    and m: "map_of (dedupeAttrs (span_attrs sp)) = map_of (rev (span_attrs sp))"
    using foldl_upsert_map[of "[]" "span_attrs sp"] by (simp_all add: dedupeAttrs_def)
  show ?thesis
    unfolding Attributes_def attrMap_distinct[OF d] m by (simp add: attrMap_def)
qed

lemma keys_Attributes: "fst ` set (Attributes sp) = fst ` set (span_attrs sp)"
proof -
  have "attrMap (Attributes sp) k = None \<longleftrightarrow> attrMap (span_attrs sp) k = None" for k
    by (simp add: attrMap_Attributes)
  then show ?thesis unfolding attrMap_None by blast
qed

lemma Attributes_distinct: "distinct (map fst (span_attrs sp)) \<Longrightarrow> Attributes sp = span_attrs sp"
  by (simp add: Attributes_def dedupeAttrs_distinct)

end
